theory Spec2Isabelle
  imports Main "HOL-Library.Word"
begin

unbundle bit_operations_syntax

section \<open>Wavefront extension of exact matches (wavefront/wavefront_extend.c)\<close>

text \<open>
  The C integers \<open>int\<close> and \<open>wf_offset_t\<close> are modelled as unbounded \<open>int\<close>: signed
  overflow is undefined behaviour in C, and the sequence lengths, diagonals and offsets of
  an alignment stay far inside the 32-bit range. Memory reads outside an allocation and
  loops that do not end are results of their own (\<open>None\<close>).
\<close>

subsection \<open>Offsets and diagonals\<close>

type_synonym wf_offset_t = int

text \<open>
  Modelled from the spec: the macros \<open>WAVEFRONT_V\<close>, \<open>WAVEFRONT_H\<close>,
  \<open>WAVEFRONT_DIAGONAL\<close>, \<open>WAVEFRONT_OFFSET\<close> and \<open>WAVEFRONT_OFFSET_NULL\<close> come from the
  header wavefront_offset.h, which is not among the sources. The spec says that a diagonal
  is the horizontal position minus the vertical position, that \<open>v = h - k\<close>, and that the
  offset encodes the horizontal position reached; the NULL offset is only called
  "a distinguished NULL offset", and is taken here as the library's \<open>INT32_MIN/2\<close>.
\<close>

definition WAVEFRONT_OFFSET_NULL :: wf_offset_t where
  "WAVEFRONT_OFFSET_NULL = - (2 ^ 30)"

definition WAVEFRONT_V :: "int \<Rightarrow> wf_offset_t \<Rightarrow> int" where
  "WAVEFRONT_V k offset = offset - k"

definition WAVEFRONT_H :: "int \<Rightarrow> wf_offset_t \<Rightarrow> int" where
  "WAVEFRONT_H k offset = offset"

definition WAVEFRONT_DIAGONAL :: "int \<Rightarrow> int \<Rightarrow> int" where
  "WAVEFRONT_DIAGONAL h v = h - v"

definition WAVEFRONT_OFFSET :: "int \<Rightarrow> int \<Rightarrow> wf_offset_t" where
  "WAVEFRONT_OFFSET h v = h"

subsection \<open>The aligner state\<close>

text \<open>
  \<open>offsets\<close> is indexed by the diagonal, negative diagonals included, as the C pointer
  into the middle of the allocated array is. The allocation of the array belongs to the
  aligner and always encloses \<open>[lo,hi]\<close>, so the model reads and writes it as a total
  function.
\<close>

record wavefront_t =
  lo :: int
  hi :: int
  offsets :: "int \<Rightarrow> wf_offset_t"
  k_alignment_end :: int

datatype alignment_span_t = alignment_end2end | alignment_endsfree

record alignment_form_t =
  span :: alignment_span_t
  pattern_end_free :: int
  text_end_free :: int

text \<open>Only \<open>wf_heuristic_none\<close> is named by the code; every other strategy is a number.\<close>

datatype wf_heuristic_strategy = wf_heuristic_none | wf_heuristic_other nat

record wavefront_heuristic_t =
  strategy :: wf_heuristic_strategy

text \<open>The two status codes the extension writes, and any other code the caller left.\<close>

datatype wf_status = WF_STATUS_SUCCESSFUL | WF_STATUS_HEURISTICALY_DROPPED | WF_STATUS_OTHER int

record wavefront_align_status_t =
  status :: wf_status

text \<open>\<open>mwavefronts\<close> is the table of wavefront pointers by score; \<open>None\<close> is \<open>NULL\<close>.\<close>

record wavefront_components_t =
  memory_modular :: bool
  max_score_scope :: int
  mwavefronts :: "int \<Rightarrow> wavefront_t option"

text \<open>
  A sequence pointer is an allocation (\<open>pattern_padded_buffer\<close>, \<open>text_padded_buffer\<close>:
  the bytes of the padded buffer) and the index in it the pointer stands at (\<open>pattern\<close>,
  \<open>text'\<close>: where the sequence starts). \<open>match_funct\<close> is the custom matching function with
  its arguments applied.
\<close>

record wavefront_aligner_t =
  pattern_padded_buffer :: "8 word list"
  pattern :: int
  pattern_length :: int
  text_padded_buffer :: "8 word list"
  text' :: int
  text_length :: int
  alignment_form :: alignment_form_t
  match_funct :: "int \<Rightarrow> int \<Rightarrow> bool"
  wf_components :: wavefront_components_t
  align_status :: wavefront_align_status_t
  heuristic :: wavefront_heuristic_t

subsection \<open>Termination checks\<close>

definition wavefront_extend_end2end_check_termination ::
  "wavefront_aligner_t \<Rightarrow> wavefront_t \<Rightarrow> bool \<times> wavefront_t" where
  "wavefront_extend_end2end_check_termination wf_aligner mwavefront =
     (let alignment_k = WAVEFRONT_DIAGONAL (text_length wf_aligner) (pattern_length wf_aligner)
      in if lo mwavefront > alignment_k \<or> alignment_k > hi mwavefront
         then (False, mwavefront)
         else
           let offset = offsets mwavefront alignment_k;
               alignment_offset =
                 WAVEFRONT_OFFSET (text_length wf_aligner) (pattern_length wf_aligner)
           in if offset < alignment_offset
              then (False, mwavefront)
              else (True, mwavefront\<lparr>k_alignment_end := alignment_k\<rparr>))"

definition wavefront_extend_endsfree_check_termination ::
  "wavefront_aligner_t \<Rightarrow> wavefront_t \<Rightarrow> wf_offset_t \<Rightarrow> int \<Rightarrow> bool \<times> wavefront_t" where
  "wavefront_extend_endsfree_check_termination wf_aligner mwavefront offset k =
     (let h_pos = WAVEFRONT_H k offset;
          v_pos = WAVEFRONT_V k offset
      in if h_pos \<ge> text_length wf_aligner
            \<and> pattern_length wf_aligner - v_pos \<le> pattern_end_free (alignment_form wf_aligner)
         then (True, mwavefront\<lparr>k_alignment_end := k\<rparr>)
         else if v_pos \<ge> pattern_length wf_aligner
            \<and> text_length wf_aligner - h_pos \<le> text_end_free (alignment_form wf_aligner)
         then (True, mwavefront\<lparr>k_alignment_end := k\<rparr>)
         else (False, mwavefront))"

subsection \<open>The packed match kernel\<close>

text \<open>
  \<open>*(uint64_t*)p\<close>: the eight bytes from index \<open>p\<close> of the allocation, the byte at the lowest
  address least significant (the little-endian targets of the library, on which the count of
  trailing zero bits finds the first differing byte). A read that is not inside the
  allocation is undefined behaviour: \<open>None\<close>.
\<close>

definition load_uint64 :: "8 word list \<Rightarrow> int \<Rightarrow> 64 word option" where
  "load_uint64 mem p =
     (if 0 \<le> p \<and> p + 8 \<le> int (length mem)
      then Some (word_rcat (rev (take 8 (drop (nat p) mem))))
      else None)"

text \<open>\<open>__builtin_ctzl\<close>: the number of trailing zero bits (it is only called on a non-zero word).\<close>

definition builtin_ctzl :: "64 word \<Rightarrow> nat" where
  "builtin_ctzl w = length (takeWhile (\<lambda>n. \<not> bit w n) [0..<64])"

text \<open>
  Modelled from the spec: the macro \<open>DIV_FLOOR\<close> comes from a header that is not among the
  sources; the spec says "integer division by 8, rounded down".
\<close>

definition DIV_FLOOR :: "int \<Rightarrow> int \<Rightarrow> int" where
  "DIV_FLOOR numerator denominator = numerator div denominator"

text \<open>
  The block loop of the kernel, from the first read on: \<open>pattern_blocks\<close> and \<open>text_blocks\<close>
  are the indices the two block pointers stand at.
\<close>

function packed_kernel_blocks ::
  "wavefront_aligner_t \<Rightarrow> int \<Rightarrow> int \<Rightarrow> wf_offset_t \<Rightarrow> wf_offset_t option" where
  "packed_kernel_blocks wf_aligner pattern_blocks text_blocks offset =
     (case load_uint64 (pattern_padded_buffer wf_aligner) pattern_blocks of
        None \<Rightarrow> None
      | Some pattern_block \<Rightarrow>
          (case load_uint64 (text_padded_buffer wf_aligner) text_blocks of
             None \<Rightarrow> None
           | Some text_block \<Rightarrow>
               if pattern_block XOR text_block = 0
               then packed_kernel_blocks wf_aligner
                      (pattern_blocks + 8) (text_blocks + 8) (offset + 8)
               else Some (offset
                      + DIV_FLOOR (int (builtin_ctzl (pattern_block XOR text_block))) 8)))"
  by pat_completeness auto
termination
  by (relation "measure (\<lambda>(a, p, t, offset). nat (int (length (pattern_padded_buffer a)) - p))")
     (auto simp: load_uint64_def split: if_splits)

declare packed_kernel_blocks.simps [simp del]

definition wavefront_extend_matches_packed_kernel ::
  "wavefront_aligner_t \<Rightarrow> int \<Rightarrow> wf_offset_t \<Rightarrow> wf_offset_t option" where
  "wavefront_extend_matches_packed_kernel wf_aligner k offset =
     packed_kernel_blocks wf_aligner
       (pattern wf_aligner + WAVEFRONT_V k offset)
       (text' wf_aligner + WAVEFRONT_H k offset)
       offset"

subsection \<open>The extension drivers\<close>

text \<open>
  Each driver is the loop \<open>for (k=lo;k<=hi;++k)\<close>, from the diagonal \<open>k\<close> on; the driver
  called on a range \<open>[lo,hi]\<close> starts it at \<open>k = lo\<close>.
\<close>

function wavefront_extend_matches_packed_end2end ::
  "wavefront_aligner_t \<Rightarrow> wavefront_t \<Rightarrow> int \<Rightarrow> int \<Rightarrow> int \<Rightarrow> wavefront_t option" where
  "wavefront_extend_matches_packed_end2end wf_aligner mwavefront score k khi =
     (if k \<le> khi
      then
        if offsets mwavefront k = WAVEFRONT_OFFSET_NULL
        then wavefront_extend_matches_packed_end2end wf_aligner mwavefront score (k + 1) khi
        else
          (case wavefront_extend_matches_packed_kernel wf_aligner k (offsets mwavefront k) of
             None \<Rightarrow> None
           | Some offset \<Rightarrow>
               wavefront_extend_matches_packed_end2end wf_aligner
                 (mwavefront\<lparr>offsets := (offsets mwavefront)(k := offset)\<rparr>) score (k + 1) khi)
      else Some mwavefront)"
  by pat_completeness auto
termination
  by (relation "measure (\<lambda>(a, mw, score, k, khi). nat (khi + 1 - k))") auto

declare wavefront_extend_matches_packed_end2end.simps [simp del]

function wavefront_extend_matches_packed_endsfree ::
  "wavefront_aligner_t \<Rightarrow> wavefront_t \<Rightarrow> int \<Rightarrow> int \<Rightarrow> int \<Rightarrow> (bool \<times> wavefront_t) option" where
  "wavefront_extend_matches_packed_endsfree wf_aligner mwavefront score k khi =
     (if k \<le> khi
      then
        if offsets mwavefront k = WAVEFRONT_OFFSET_NULL
        then wavefront_extend_matches_packed_endsfree wf_aligner mwavefront score (k + 1) khi
        else
          (case wavefront_extend_matches_packed_kernel wf_aligner k (offsets mwavefront k) of
             None \<Rightarrow> None
           | Some offset \<Rightarrow>
               (case wavefront_extend_endsfree_check_termination wf_aligner
                       (mwavefront\<lparr>offsets := (offsets mwavefront)(k := offset)\<rparr>) offset k of
                  (True, mwavefront') \<Rightarrow> Some (True, mwavefront')
                | (False, mwavefront') \<Rightarrow>
                    wavefront_extend_matches_packed_endsfree wf_aligner mwavefront'
                      score (k + 1) khi))
      else Some (False, mwavefront))"
  by pat_completeness auto
termination
  by (relation "measure (\<lambda>(a, mw, score, k, khi). nat (khi + 1 - k))") auto

declare wavefront_extend_matches_packed_endsfree.simps [simp del]

text \<open>
  The custom matcher's loop \<open>while (match_funct(v,h,func_arguments)) { h++; v++; offset++; }\<close>.
  Nothing bounds it but the matching function, so a run that never ends is \<open>None\<close>.
\<close>

partial_function (option) custom_match_loop ::
  "(int \<Rightarrow> int \<Rightarrow> bool) \<Rightarrow> int \<Rightarrow> int \<Rightarrow> wf_offset_t \<Rightarrow> wf_offset_t option" where
  "custom_match_loop match v h offset =
     (if match v h then custom_match_loop match (v + 1) (h + 1) (offset + 1) else Some offset)"

declare custom_match_loop.simps [code]

function wavefront_extend_matches_custom ::
  "wavefront_aligner_t \<Rightarrow> wavefront_t \<Rightarrow> int \<Rightarrow> int \<Rightarrow> int \<Rightarrow> bool
     \<Rightarrow> (bool \<times> wavefront_t) option" where
  "wavefront_extend_matches_custom wf_aligner mwavefront score k khi endsfree =
     (if k \<le> khi
      then
        if offsets mwavefront k = WAVEFRONT_OFFSET_NULL
        then wavefront_extend_matches_custom wf_aligner mwavefront score (k + 1) khi endsfree
        else
          (case custom_match_loop (match_funct wf_aligner)
                  (WAVEFRONT_V k (offsets mwavefront k)) (WAVEFRONT_H k (offsets mwavefront k))
                  (offsets mwavefront k) of
             None \<Rightarrow> None
           | Some offset \<Rightarrow>
               if endsfree
               then
                 (case wavefront_extend_endsfree_check_termination wf_aligner
                         (mwavefront\<lparr>offsets := (offsets mwavefront)(k := offset)\<rparr>) offset k of
                    (True, mwavefront') \<Rightarrow> Some (True, mwavefront')
                  | (False, mwavefront') \<Rightarrow>
                      wavefront_extend_matches_custom wf_aligner mwavefront'
                        score (k + 1) khi endsfree)
               else wavefront_extend_matches_custom wf_aligner
                      (mwavefront\<lparr>offsets := (offsets mwavefront)(k := offset)\<rparr>)
                      score (k + 1) khi endsfree)
      else Some (False, mwavefront))"
  by pat_completeness auto
termination
  by (relation "measure (\<lambda>(a, mw, score, k, khi, endsfree). nat (khi + 1 - k))") auto

declare wavefront_extend_matches_custom.simps [simp del]

subsection \<open>What the extension takes from the rest of the library\<close>

text \<open>
  The functions \<open>wavefront_compute_num_threads\<close>, \<open>wavefront_compute_thread_limits\<close> and
  \<open>wavefront_heuristic_cufoff\<close> are defined in other files, and \<open>WFA_PARALLEL\<close> is set when the
  library is compiled: they are parameters of the model. The heuristic cut-off gets the
  aligner and may change any of it.

  The OpenMP runtime is a parameter too. \<open>omp_get_num_threads n\<close> is the size of the team
  that \<open>#pragma omp parallel num_threads(n)\<close> is given (the runtime may give fewer threads
  than were asked for), and \<open>omp_schedule team\<close> lists the thread numbers
  (\<open>omp_get_thread_num\<close>) of a team of that size in the order in which its threads run.
  Nothing is fixed about either: a property that holds for every value of the two holds
  for every team and every order of the workers.
\<close>

record wavefront_externs =
  WFA_PARALLEL :: bool
  wavefront_compute_num_threads :: "wavefront_aligner_t \<Rightarrow> int \<Rightarrow> int \<Rightarrow> int"
  wavefront_compute_thread_limits :: "int \<Rightarrow> int \<Rightarrow> int \<Rightarrow> int \<Rightarrow> int \<times> int"
  wavefront_heuristic_cufoff :: "wavefront_aligner_t \<Rightarrow> int \<Rightarrow> bool \<times> wavefront_aligner_t"
  omp_get_num_threads :: "int \<Rightarrow> int"
  omp_schedule :: "int \<Rightarrow> int list"

subsection \<open>The parallel region\<close>

text \<open>
  Each worker of \<open>#pragma omp parallel\<close> takes the limits of its own thread number in the
  team, reads and writes the diagonals of \<open>offsets\<close> between these limits, and writes
  \<open>k_alignment_end\<close> at most once, inside \<open>#pragma omp critical\<close>, just before it returns.
  When the limits of the workers are disjoint (two workers that write the same diagonal
  are a data race, which C leaves undefined), a run of the region has the result of the
  workers run one after the other, in the order in which they enter the critical section:
  \<open>k_alignment_end\<close> is the last writer's. The model runs the workers one after the other
  in the order \<open>omp_schedule\<close> gives, so that every order of the writers is the model's for
  some value of this parameter.
\<close>

definition thread_ranges :: "wavefront_externs \<Rightarrow> int \<Rightarrow> int \<Rightarrow> int \<Rightarrow> (int \<times> int) list" where
  "thread_ranges ext num_threads klo khi =
     (let team = omp_get_num_threads ext num_threads
      in map (\<lambda>thread_num. wavefront_compute_thread_limits ext thread_num team klo khi)
           (omp_schedule ext team))"

fun parallel_packed_end2end ::
  "wavefront_aligner_t \<Rightarrow> wavefront_t \<Rightarrow> int \<Rightarrow> (int \<times> int) list \<Rightarrow> wavefront_t option" where
  "parallel_packed_end2end wf_aligner mwavefront score [] = Some mwavefront"
| "parallel_packed_end2end wf_aligner mwavefront score ((t_lo, t_hi) # ts) =
     (case wavefront_extend_matches_packed_end2end wf_aligner mwavefront score t_lo t_hi of
        None \<Rightarrow> None
      | Some mwavefront' \<Rightarrow> parallel_packed_end2end wf_aligner mwavefront' score ts)"

fun parallel_packed_endsfree ::
  "wavefront_aligner_t \<Rightarrow> wavefront_t \<Rightarrow> int \<Rightarrow> bool \<Rightarrow> (int \<times> int) list
     \<Rightarrow> (bool \<times> wavefront_t) option" where
  "parallel_packed_endsfree wf_aligner mwavefront score end_reached [] =
     Some (end_reached, mwavefront)"
| "parallel_packed_endsfree wf_aligner mwavefront score end_reached ((t_lo, t_hi) # ts) =
     (case wavefront_extend_matches_packed_endsfree wf_aligner mwavefront score t_lo t_hi of
        None \<Rightarrow> None
      | Some (r, mwavefront') \<Rightarrow>
          parallel_packed_endsfree wf_aligner mwavefront' score
            (if r then True else end_reached) ts)"

fun parallel_custom ::
  "wavefront_aligner_t \<Rightarrow> wavefront_t \<Rightarrow> int \<Rightarrow> bool \<Rightarrow> bool \<Rightarrow> (int \<times> int) list
     \<Rightarrow> (bool \<times> wavefront_t) option" where
  "parallel_custom wf_aligner mwavefront score endsfree end_reached [] =
     Some (end_reached, mwavefront)"
| "parallel_custom wf_aligner mwavefront score endsfree end_reached ((t_lo, t_hi) # ts) =
     (case wavefront_extend_matches_custom wf_aligner mwavefront score t_lo t_hi endsfree of
        None \<Rightarrow> None
      | Some (r, mwavefront') \<Rightarrow>
          parallel_custom wf_aligner mwavefront' score endsfree
            (if r then True else end_reached) ts)"

subsection \<open>The three extension functions\<close>

text \<open>C's \<open>%\<close> truncates towards zero, and is undefined for the divisor 0.\<close>

definition c_rem :: "int \<Rightarrow> int \<Rightarrow> int option" where
  "c_rem a b = (if b = 0 then None else Some (sgn a * (\<bar>a\<bar> mod \<bar>b\<bar>)))"

definition modular_score :: "wavefront_aligner_t \<Rightarrow> int \<Rightarrow> int option" where
  "modular_score wf_aligner score =
     (if memory_modular (wf_components wf_aligner)
      then c_rem score (max_score_scope (wf_components wf_aligner))
      else Some score)"

text \<open>
  The m-wavefront is changed through the pointer fetched from the table; in the model the
  changed wavefront is put back in its slot.
\<close>

definition store_mwavefront ::
  "wavefront_aligner_t \<Rightarrow> int \<Rightarrow> wavefront_t \<Rightarrow> wavefront_aligner_t" where
  "store_mwavefront wf_aligner score mwavefront =
     wf_aligner\<lparr>wf_components := (wf_components wf_aligner)
       \<lparr>mwavefronts := (mwavefronts (wf_components wf_aligner))(score := Some mwavefront)\<rparr>\<rparr>"

definition set_status :: "wavefront_aligner_t \<Rightarrow> wf_status \<Rightarrow> wavefront_aligner_t" where
  "set_status wf_aligner s = wf_aligner\<lparr>align_status := (align_status wf_aligner)\<lparr>status := s\<rparr>\<rparr>"

text \<open>
  The "multithreading dispatcher" of each function: the extension of the wavefront by one
  worker or by \<open>num_threads\<close> workers, up to the value of \<open>end_reached\<close>. Without
  \<open>WFA_PARALLEL\<close> the branch for several workers is empty.
\<close>

definition end2end_dispatch ::
  "wavefront_externs \<Rightarrow> wavefront_aligner_t \<Rightarrow> wavefront_t \<Rightarrow> int
     \<Rightarrow> (bool \<times> wavefront_t) option" where
  "end2end_dispatch ext wf_aligner mwavefront score =
     (let num_threads = wavefront_compute_num_threads ext wf_aligner
                          (lo mwavefront) (hi mwavefront)
      in if num_threads = 1
         then map_option (wavefront_extend_end2end_check_termination wf_aligner)
                (wavefront_extend_matches_packed_end2end wf_aligner mwavefront score
                   (lo mwavefront) (hi mwavefront))
         else if WFA_PARALLEL ext
         then map_option (wavefront_extend_end2end_check_termination wf_aligner)
                (parallel_packed_end2end wf_aligner mwavefront score
                   (thread_ranges ext num_threads (lo mwavefront) (hi mwavefront)))
         else Some (False, mwavefront))"

definition endsfree_dispatch ::
  "wavefront_externs \<Rightarrow> wavefront_aligner_t \<Rightarrow> wavefront_t \<Rightarrow> int
     \<Rightarrow> (bool \<times> wavefront_t) option" where
  "endsfree_dispatch ext wf_aligner mwavefront score =
     (let num_threads = wavefront_compute_num_threads ext wf_aligner
                          (lo mwavefront) (hi mwavefront)
      in if num_threads = 1
         then wavefront_extend_matches_packed_endsfree wf_aligner mwavefront score
                (lo mwavefront) (hi mwavefront)
         else if WFA_PARALLEL ext
         then parallel_packed_endsfree wf_aligner mwavefront score False
                (thread_ranges ext num_threads (lo mwavefront) (hi mwavefront))
         else Some (False, mwavefront))"

definition custom_dispatch ::
  "wavefront_externs \<Rightarrow> wavefront_aligner_t \<Rightarrow> wavefront_t \<Rightarrow> int \<Rightarrow> bool
     \<Rightarrow> (bool \<times> wavefront_t) option" where
  "custom_dispatch ext wf_aligner mwavefront score endsfree =
     (let num_threads = wavefront_compute_num_threads ext wf_aligner
                          (lo mwavefront) (hi mwavefront)
      in if num_threads = 1
         then wavefront_extend_matches_custom wf_aligner mwavefront score
                (lo mwavefront) (hi mwavefront) endsfree
         else if WFA_PARALLEL ext
         then parallel_custom wf_aligner mwavefront score endsfree False
                (thread_ranges ext num_threads (lo mwavefront) (hi mwavefront))
         else Some (False, mwavefront))"

text \<open>
  The last lines of the three functions are the same text: the verdict on \<open>end_reached\<close>, then
  the heuristic cut-off.
\<close>

definition extend_finish ::
  "wavefront_externs \<Rightarrow> wavefront_aligner_t \<Rightarrow> int \<Rightarrow> bool \<Rightarrow> bool \<times> wavefront_aligner_t" where
  "extend_finish ext wf_aligner score end_reached =
     (if end_reached
      then (True, set_status wf_aligner WF_STATUS_SUCCESSFUL)
      else if strategy (heuristic wf_aligner) \<noteq> wf_heuristic_none
      then
        (case wavefront_heuristic_cufoff ext wf_aligner score of
           (True, wf_aligner') \<Rightarrow> (True, set_status wf_aligner' WF_STATUS_HEURISTICALY_DROPPED)
         | (False, wf_aligner') \<Rightarrow> (False, wf_aligner'))
      else (False, wf_aligner))"

definition wavefront_extend_end2end ::
  "wavefront_externs \<Rightarrow> wavefront_aligner_t \<Rightarrow> int \<Rightarrow> (bool \<times> wavefront_aligner_t) option" where
  "wavefront_extend_end2end ext wf_aligner score0 =
     (case modular_score wf_aligner score0 of
        None \<Rightarrow> None
      | Some score \<Rightarrow>
          (case mwavefronts (wf_components wf_aligner) score of
             None \<Rightarrow> Some (False, wf_aligner)
           | Some mwavefront \<Rightarrow>
               (case end2end_dispatch ext wf_aligner mwavefront score of
                  None \<Rightarrow> None
                | Some (end_reached, mwavefront') \<Rightarrow>
                    Some (extend_finish ext (store_mwavefront wf_aligner score mwavefront')
                            score end_reached))))"

definition wavefront_extend_endsfree ::
  "wavefront_externs \<Rightarrow> wavefront_aligner_t \<Rightarrow> int \<Rightarrow> (bool \<times> wavefront_aligner_t) option" where
  "wavefront_extend_endsfree ext wf_aligner score0 =
     (case modular_score wf_aligner score0 of
        None \<Rightarrow> None
      | Some score \<Rightarrow>
          (case mwavefronts (wf_components wf_aligner) score of
             None \<Rightarrow> Some (False, wf_aligner)
           | Some mwavefront \<Rightarrow>
               (case endsfree_dispatch ext wf_aligner mwavefront score of
                  None \<Rightarrow> None
                | Some (end_reached, mwavefront') \<Rightarrow>
                    Some (extend_finish ext (store_mwavefront wf_aligner score mwavefront')
                            score end_reached))))"

text \<open>
  \<open>custom_recheck\<close> is the step of \<open>wavefront_extend_custom\<close> after the dispatcher: when the
  form is not ends-free, \<open>end_reached\<close> is assigned the end-to-end check's result.
\<close>

definition custom_recheck ::
  "wavefront_aligner_t \<Rightarrow> bool \<Rightarrow> bool \<times> wavefront_t \<Rightarrow> bool \<times> wavefront_t" where
  "custom_recheck wf_aligner endsfree r =
     (if \<not> endsfree
      then wavefront_extend_end2end_check_termination wf_aligner (snd r)
      else r)"

definition wavefront_extend_custom ::
  "wavefront_externs \<Rightarrow> wavefront_aligner_t \<Rightarrow> int \<Rightarrow> (bool \<times> wavefront_aligner_t) option" where
  "wavefront_extend_custom ext wf_aligner score0 =
     (case modular_score wf_aligner score0 of
        None \<Rightarrow> None
      | Some score \<Rightarrow>
          (case mwavefronts (wf_components wf_aligner) score of
             None \<Rightarrow> Some (False, wf_aligner)
           | Some mwavefront \<Rightarrow>
               let endsfree = (span (alignment_form wf_aligner) = alignment_endsfree)
               in
                 (case custom_dispatch ext wf_aligner mwavefront score endsfree of
                    None \<Rightarrow> None
                  | Some r \<Rightarrow>
                      (case custom_recheck wf_aligner endsfree r of
                         (end_reached, mwavefront') \<Rightarrow>
                           Some (extend_finish ext
                                   (store_mwavefront wf_aligner score mwavefront')
                                   score end_reached)))))"

subsection \<open>The sequences, their padding and the symbol-by-symbol comparison\<close>

definition pattern_seq :: "wavefront_aligner_t \<Rightarrow> 8 word list" where
  "pattern_seq wf_aligner =
     take (nat (pattern_length wf_aligner))
       (drop (nat (pattern wf_aligner)) (pattern_padded_buffer wf_aligner))"

definition text_seq :: "wavefront_aligner_t \<Rightarrow> 8 word list" where
  "text_seq wf_aligner =
     take (nat (text_length wf_aligner))
       (drop (nat (text' wf_aligner)) (text_padded_buffer wf_aligner))"

text \<open>
  Modelled from the spec: the buffers are padded by utils/string_padded, which is not among
  the sources. The spec asks for sequence buffers "over-allocated with sentinel padding wide
  enough to always satisfy one full block read", and that "sentinels of different sequences
  must never bit-wise coincide with arbitrary valid symbols": \<open>ps\<close> pads the pattern and \<open>ts\<close>
  the text, at least eight bytes after each sequence, the two differ, and neither occurs in
  the other sequence. The bytes before a sequence are never read by the extension, and
  nothing is asked of them.
\<close>

definition sentinel_padded :: "8 word \<Rightarrow> 8 word \<Rightarrow> wavefront_aligner_t \<Rightarrow> bool" where
  "sentinel_padded ps ts wf_aligner \<longleftrightarrow>
     ps \<noteq> ts
     \<and> 0 \<le> pattern wf_aligner \<and> 0 \<le> pattern_length wf_aligner
     \<and> 0 \<le> text' wf_aligner \<and> 0 \<le> text_length wf_aligner
     \<and> pattern wf_aligner + pattern_length wf_aligner + 8
          \<le> int (length (pattern_padded_buffer wf_aligner))
     \<and> text' wf_aligner + text_length wf_aligner + 8
          \<le> int (length (text_padded_buffer wf_aligner))
     \<and> list_all (\<lambda>b. b = ps)
          (drop (nat (pattern wf_aligner + pattern_length wf_aligner))
             (pattern_padded_buffer wf_aligner))
     \<and> list_all (\<lambda>b. b = ts)
          (drop (nat (text' wf_aligner + text_length wf_aligner))
             (text_padded_buffer wf_aligner))
     \<and> list_all (\<lambda>b. b \<noteq> ts) (pattern_seq wf_aligner)
     \<and> list_all (\<lambda>b. b \<noteq> ps) (text_seq wf_aligner)"

text \<open>
  The comparison the spec measures the kernel against: from the positions \<open>v\<close> of the pattern
  and \<open>h\<close> of the text, one symbol at a time, advancing while the two symbols are equal and
  stopping at the first mismatch or at the end of a sequence.
\<close>

function naive_extend_matches ::
  "8 word list \<Rightarrow> 8 word list \<Rightarrow> nat \<Rightarrow> nat \<Rightarrow> wf_offset_t \<Rightarrow> wf_offset_t" where
  "naive_extend_matches p t v h offset =
     (if v < length p \<and> h < length t \<and> p ! v = t ! h
      then naive_extend_matches p t (Suc v) (Suc h) (offset + 1)
      else offset)"
  by pat_completeness auto
termination
  by (relation "measure (\<lambda>(p, t, v, h, offset). length p - v)") auto

declare naive_extend_matches.simps [simp del]

text \<open>The number of leading positions at which two lists agree (used in the proofs).\<close>

fun common_prefix_length :: "'a list \<Rightarrow> 'a list \<Rightarrow> nat" where
  "common_prefix_length (x # xs) (y # ys) =
     (if x = y then Suc (common_prefix_length xs ys) else 0)"
| "common_prefix_length _ _ = 0"

subsection \<open>Partitions of a range of diagonals\<close>

text \<open>
  Modelled from the spec: \<open>wavefront_compute_thread_limits\<close> is not among the sources; the spec
  says that the workers' sub-ranges are "disjoint contiguous sub-ranges" whose "union covers
  the whole range exactly once". \<open>covers klo khi rs\<close>: every diagonal of \<open>[klo,khi]\<close> lies in
  exactly one of the sub-ranges \<open>rs\<close>, and no sub-range has a diagonal outside \<open>[klo,khi]\<close>.
  The order of the sub-ranges in the list does not count, and a sub-range may be empty.
\<close>

definition in_range :: "int \<Rightarrow> int \<times> int \<Rightarrow> bool" where
  "in_range j r \<longleftrightarrow> fst r \<le> j \<and> j \<le> snd r"

definition covers :: "int \<Rightarrow> int \<Rightarrow> (int \<times> int) list \<Rightarrow> bool" where
  "covers klo khi rs \<longleftrightarrow>
     list_all (\<lambda>j. length (filter (in_range j) rs) = 1) [klo..khi]
     \<and> list_all (\<lambda>(t_lo, t_hi). t_hi < t_lo \<or> klo \<le> t_lo \<and> t_hi \<le> khi) rs"

subsection \<open>The three drivers as one loop\<close>

text \<open>
  The three drivers are the same loop over the diagonals, up to the function \<open>ker\<close> that
  extends one diagonal and to the flag \<open>endsfree\<close> that says whether the ends-free check
  follows each extension. The proofs are made once, on \<open>extend_range\<close> and on the parallel
  region \<open>parallel_range\<close> over it, and carried to the drivers.
\<close>

definition endsfree_terminal :: "wavefront_aligner_t \<Rightarrow> wf_offset_t \<Rightarrow> int \<Rightarrow> bool" where
  "endsfree_terminal wf_aligner offset k \<longleftrightarrow>
     WAVEFRONT_H k offset \<ge> text_length wf_aligner
       \<and> pattern_length wf_aligner - WAVEFRONT_V k offset
           \<le> pattern_end_free (alignment_form wf_aligner)
     \<or> WAVEFRONT_V k offset \<ge> pattern_length wf_aligner
       \<and> text_length wf_aligner - WAVEFRONT_H k offset
           \<le> text_end_free (alignment_form wf_aligner)"

definition custom_kernel :: "wavefront_aligner_t \<Rightarrow> int \<Rightarrow> wf_offset_t \<Rightarrow> wf_offset_t option" where
  "custom_kernel wf_aligner k offset =
     custom_match_loop (match_funct wf_aligner)
       (WAVEFRONT_V k offset) (WAVEFRONT_H k offset) offset"

function extend_range ::
  "(int \<Rightarrow> wf_offset_t \<Rightarrow> wf_offset_t option) \<Rightarrow> bool \<Rightarrow> wavefront_aligner_t \<Rightarrow> wavefront_t
     \<Rightarrow> int \<Rightarrow> int \<Rightarrow> (bool \<times> wavefront_t) option" where
  "extend_range ker endsfree wf_aligner mwavefront k khi =
     (if k \<le> khi
      then
        if offsets mwavefront k = WAVEFRONT_OFFSET_NULL
        then extend_range ker endsfree wf_aligner mwavefront (k + 1) khi
        else
          (case ker k (offsets mwavefront k) of
             None \<Rightarrow> None
           | Some offset \<Rightarrow>
               if endsfree \<and> endsfree_terminal wf_aligner offset k
               then Some (True, mwavefront\<lparr>offsets := (offsets mwavefront)(k := offset),
                                          k_alignment_end := k\<rparr>)
               else extend_range ker endsfree wf_aligner
                      (mwavefront\<lparr>offsets := (offsets mwavefront)(k := offset)\<rparr>) (k + 1) khi)
      else Some (False, mwavefront))"
  by pat_completeness auto
termination
  by (relation "measure (\<lambda>(ker, endsfree, a, mw, k, khi). nat (khi + 1 - k))") auto

declare extend_range.simps [simp del]

fun parallel_range ::
  "(int \<Rightarrow> wf_offset_t \<Rightarrow> wf_offset_t option) \<Rightarrow> bool \<Rightarrow> wavefront_aligner_t \<Rightarrow> wavefront_t
     \<Rightarrow> bool \<Rightarrow> (int \<times> int) list \<Rightarrow> (bool \<times> wavefront_t) option" where
  "parallel_range ker endsfree wf_aligner mwavefront end_reached [] =
     Some (end_reached, mwavefront)"
| "parallel_range ker endsfree wf_aligner mwavefront end_reached ((t_lo, t_hi) # ts) =
     (case extend_range ker endsfree wf_aligner mwavefront t_lo t_hi of
        None \<Rightarrow> None
      | Some (r, mwavefront') \<Rightarrow>
          parallel_range ker endsfree wf_aligner mwavefront'
            (if r then True else end_reached) ts)"

text \<open>The offsets after the extension of every diagonal of \<open>[k,khi]\<close> that is not NULL.\<close>

definition extended_offsets ::
  "(int \<Rightarrow> wf_offset_t \<Rightarrow> wf_offset_t option) \<Rightarrow> wavefront_t \<Rightarrow> int \<Rightarrow> int
     \<Rightarrow> int \<Rightarrow> wf_offset_t" where
  "extended_offsets ker mwavefront k khi =
     (\<lambda>j. if k \<le> j \<and> j \<le> khi \<and> offsets mwavefront j \<noteq> WAVEFRONT_OFFSET_NULL
          then (case ker j (offsets mwavefront j) of
                  Some offset \<Rightarrow> offset
                | None \<Rightarrow> offsets mwavefront j)
          else offsets mwavefront j)"

text \<open>Some diagonal of \<open>[k,khi]\<close> that is not NULL is terminal once extended.\<close>

definition range_terminal ::
  "(int \<Rightarrow> wf_offset_t \<Rightarrow> wf_offset_t option) \<Rightarrow> wavefront_aligner_t \<Rightarrow> wavefront_t
     \<Rightarrow> int \<Rightarrow> int \<Rightarrow> bool" where
  "range_terminal ker wf_aligner mwavefront k khi \<longleftrightarrow>
     (\<exists>j \<in> {k..khi}. offsets mwavefront j \<noteq> WAVEFRONT_OFFSET_NULL
        \<and> (case ker j (offsets mwavefront j) of
              None \<Rightarrow> False
            | Some offset \<Rightarrow> endsfree_terminal wf_aligner offset j))"

text \<open>The first diagonal of \<open>[k,khi]\<close> that is not NULL and is terminal once extended.\<close>

definition first_terminal ::
  "(int \<Rightarrow> wf_offset_t \<Rightarrow> wf_offset_t option) \<Rightarrow> wavefront_aligner_t \<Rightarrow> wavefront_t
     \<Rightarrow> int \<Rightarrow> int \<Rightarrow> int \<Rightarrow> bool" where
  "first_terminal ker wf_aligner mwavefront k khi j \<longleftrightarrow>
     k \<le> j \<and> j \<le> khi
     \<and> range_terminal ker wf_aligner mwavefront j j
     \<and> \<not> range_terminal ker wf_aligner mwavefront k (j - 1)"

text \<open>What a call of an extension function left at a diagonal of the wavefront of a score.\<close>

definition result_offset ::
  "(bool \<times> wavefront_aligner_t) option \<Rightarrow> int \<Rightarrow> int \<Rightarrow> wf_offset_t option" where
  "result_offset r score k =
     (case r of
        None \<Rightarrow> None
      | Some (finished, wf_aligner) \<Rightarrow>
          (case mwavefronts (wf_components wf_aligner) score of
             None \<Rightarrow> None
           | Some mwavefront \<Rightarrow> Some (offsets mwavefront k)))"

text \<open>The diagonal a call of an extension function left in \<open>k_alignment_end\<close>.\<close>

definition result_k_alignment_end ::
  "(bool \<times> wavefront_aligner_t) option \<Rightarrow> int \<Rightarrow> int option" where
  "result_k_alignment_end r score =
     (case r of
        None \<Rightarrow> None
      | Some (finished, wf_aligner) \<Rightarrow>
          map_option k_alignment_end (mwavefronts (wf_components wf_aligner) score))"

subsection \<open>Example data\<close>

text \<open>
  The pattern GATTACA and the text GATTACATTT, padded with eight \<open>?\<close> and eight \<open>!\<close>; the
  ends-free form of the spec's example (text of length 10, pattern of length 7, three free
  symbols at the end of the pattern), and a wavefront at score 2 of a table of five scores.
\<close>

definition ex_form :: alignment_form_t where
  "ex_form = \<lparr>span = alignment_endsfree, pattern_end_free = 3, text_end_free = 3\<rparr>"

definition ex_wavefront :: wavefront_t where
  "ex_wavefront =
     \<lparr>lo = 0, hi = 3,
      offsets = (\<lambda>k. if k = 0 then 0 else if k = 1 then 3 else if k = 2 then 6
                     else WAVEFRONT_OFFSET_NULL),
      k_alignment_end = - 1\<rparr>"

definition ex_aligner :: wavefront_aligner_t where
  "ex_aligner =
     \<lparr>pattern_padded_buffer = [71, 65, 84, 84, 65, 67, 65] @ replicate 8 63,
      pattern = 0,
      pattern_length = 7,
      text_padded_buffer = [71, 65, 84, 84, 65, 67, 65, 84, 84, 84] @ replicate 8 33,
      text' = 0,
      text_length = 10,
      alignment_form = ex_form,
      match_funct = (\<lambda>v h. 0 \<le> v \<and> v < 7 \<and> 0 \<le> h \<and> h < 10
         \<and> [71, 65, 84, 84, 65, 67, 65 :: 8 word] ! nat v
           = [71, 65, 84, 84, 65, 67, 65, 84, 84, 84] ! nat h),
      wf_components =
        \<lparr>memory_modular = True, max_score_scope = 5,
         mwavefronts = (\<lambda>s. if s = 2 then Some ex_wavefront else None)\<rparr>,
      align_status = \<lparr>status = WF_STATUS_OTHER 1\<rparr>,
      heuristic = \<lparr>strategy = wf_heuristic_none\<rparr>\<rparr>"

text \<open>
  Twelve symbols ACGTACGTACGT as pattern and as text, aligned end to end; the wavefront of
  score 0 holds the diagonal 0 at offset 0.
\<close>

definition ex_wavefront0 :: wavefront_t where
  "ex_wavefront0 =
     \<lparr>lo = 0, hi = 0,
      offsets = (\<lambda>k. if k = 0 then 0 else WAVEFRONT_OFFSET_NULL),
      k_alignment_end = - 1\<rparr>"

definition ex_aligner_e2e :: wavefront_aligner_t where
  "ex_aligner_e2e =
     \<lparr>pattern_padded_buffer = [65, 67, 71, 84, 65, 67, 71, 84, 65, 67, 71, 84] @ replicate 8 63,
      pattern = 0,
      pattern_length = 12,
      text_padded_buffer = [65, 67, 71, 84, 65, 67, 71, 84, 65, 67, 71, 84] @ replicate 8 33,
      text' = 0,
      text_length = 12,
      alignment_form = \<lparr>span = alignment_end2end, pattern_end_free = 0, text_end_free = 0\<rparr>,
      match_funct = (\<lambda>v h. 0 \<le> v \<and> v < 12 \<and> 0 \<le> h \<and> h < 12
         \<and> [65, 67, 71, 84, 65, 67, 71, 84, 65, 67, 71, 84 :: 8 word] ! nat v
           = [65, 67, 71, 84, 65, 67, 71, 84, 65, 67, 71, 84] ! nat h),
      wf_components =
        \<lparr>memory_modular = False, max_score_scope = 0,
         mwavefronts = (\<lambda>s. if s = 0 then Some ex_wavefront0 else None)\<rparr>,
      align_status = \<lparr>status = WF_STATUS_OTHER 1\<rparr>,
      heuristic = \<lparr>strategy = wf_heuristic_none\<rparr>\<rparr>"

text \<open>
  The second example with another wavefront at score 0: \<open>ex_wavefront1\<close> holds only the
  diagonal 1, at offset 1, so that the alignment diagonal 0 is outside its range.
\<close>

definition ex_aligner_e2e_with :: "wavefront_t \<Rightarrow> wavefront_aligner_t" where
  "ex_aligner_e2e_with w =
     ex_aligner_e2e\<lparr>wf_components := (wf_components ex_aligner_e2e)
       \<lparr>mwavefronts := (\<lambda>s. if s = 0 then Some w else None)\<rparr>\<rparr>"

definition ex_wavefront1 :: wavefront_t where
  "ex_wavefront1 =
     \<lparr>lo = 1, hi = 1,
      offsets = (\<lambda>k. if k = 1 then 1 else WAVEFRONT_OFFSET_NULL),
      k_alignment_end = - 1\<rparr>"

text \<open>The first example with a heuristic strategy configured.\<close>

definition ex_aligner_heur :: wavefront_aligner_t where
  "ex_aligner_heur = ex_aligner\<lparr>heuristic := \<lparr>strategy = wf_heuristic_other 1\<rparr>\<rparr>"

text \<open>
  The first example with another wavefront at score 2: \<open>ex_wavefront_ends\<close> has the diagonal
  3 at the ends of both sequences, so that the diagonals 0 and 3 are terminal, and
  \<open>ex_wavefront_mid\<close> starts at the diagonal 1, so that no diagonal of its range is terminal.
\<close>

definition ex_aligner_with :: "wavefront_t \<Rightarrow> wavefront_aligner_t" where
  "ex_aligner_with w =
     ex_aligner\<lparr>wf_components := (wf_components ex_aligner)
       \<lparr>mwavefronts := (\<lambda>s. if s = 2 then Some w else None)\<rparr>\<rparr>"

definition ex_wavefront_ends :: wavefront_t where
  "ex_wavefront_ends = ex_wavefront\<lparr>offsets := (offsets ex_wavefront)(3 := 10)\<rparr>"

definition ex_wavefront_mid :: wavefront_t where
  "ex_wavefront_mid = ex_wavefront\<lparr>lo := 1\<rparr>"

text \<open>
  Workers that split a range into chunks of equal size, the last one taking the rest;
  \<open>ex_externs n dropped\<close> asks for \<open>n\<close> workers, gets them and runs them in the order of
  their thread numbers, and its cut-off answers \<open>dropped\<close> and leaves the aligner as it is.
\<close>

definition ex_thread_limits :: "int \<Rightarrow> int \<Rightarrow> int \<Rightarrow> int \<Rightarrow> int \<times> int" where
  "ex_thread_limits thread_id num_threads klo khi =
     (let chunk_size = (khi - klo + 1) div num_threads;
          t_lo = klo + thread_id * chunk_size
      in (t_lo, if thread_id + 1 = num_threads then khi else t_lo + chunk_size - 1))"

definition ex_externs :: "int \<Rightarrow> bool \<Rightarrow> wavefront_externs" where
  "ex_externs n dropped =
     \<lparr>WFA_PARALLEL = True,
      wavefront_compute_num_threads = (\<lambda>wf_aligner klo khi. n),
      wavefront_compute_thread_limits = ex_thread_limits,
      wavefront_heuristic_cufoff = (\<lambda>wf_aligner score. (dropped, wf_aligner)),
      omp_get_num_threads = (\<lambda>num_threads. num_threads),
      omp_schedule = (\<lambda>team. [0..team - 1])\<rparr>"

text \<open>The same two workers, run in the other order.\<close>

definition ex_externs_reversed :: wavefront_externs where
  "ex_externs_reversed = (ex_externs 2 False)\<lparr>omp_schedule := (\<lambda>team. rev [0..team - 1])\<rparr>"

section \<open>Properties\<close>

subsection \<open>The termination checks\<close>

text \<open>
  C1. The end-to-end check returns true exactly when the alignment diagonal
  \<open>WAVEFRONT_DIAGONAL(text_length,pattern_length)\<close> lies in \<open>[lo,hi]\<close> and its offset is at
  least \<open>WAVEFRONT_OFFSET(text_length,pattern_length)\<close>; then it records that diagonal in
  \<open>k_alignment_end\<close>, and otherwise it returns false and leaves the wavefront as it was.
\<close>

theorem end2end_check_termination_iff:
  "fst (wavefront_extend_end2end_check_termination wf_aligner mwavefront)
     = (lo mwavefront
          \<le> WAVEFRONT_DIAGONAL (text_length wf_aligner) (pattern_length wf_aligner)
        \<and> WAVEFRONT_DIAGONAL (text_length wf_aligner) (pattern_length wf_aligner)
          \<le> hi mwavefront
        \<and> WAVEFRONT_OFFSET (text_length wf_aligner) (pattern_length wf_aligner)
          \<le> offsets mwavefront
               (WAVEFRONT_DIAGONAL (text_length wf_aligner) (pattern_length wf_aligner)))
   \<and> snd (wavefront_extend_end2end_check_termination wf_aligner mwavefront)
     = (if fst (wavefront_extend_end2end_check_termination wf_aligner mwavefront)
        then mwavefront\<lparr>k_alignment_end :=
               WAVEFRONT_DIAGONAL (text_length wf_aligner) (pattern_length wf_aligner)\<rparr>
        else mwavefront)"
  by (auto simp: wavefront_extend_end2end_check_termination_def Let_def)

text \<open>
  C2. The ends-free check of a diagonal \<open>k\<close> and its extended offset returns true exactly
  when (a) \<open>h_pos >= text_length\<close> and \<open>pattern_length - v_pos <= pattern_end_free\<close>, or
  (b) \<open>v_pos >= pattern_length\<close> and \<open>text_length - h_pos <= text_end_free\<close>; then it records
  \<open>k\<close> in \<open>k_alignment_end\<close>. With a text of length 10, a pattern of length 7 and three free
  symbols at the end of the pattern, a diagonal with \<open>h_pos = 10\<close> is terminal at
  \<open>v_pos = 7\<close> and at \<open>v_pos = 6\<close>, and is not at \<open>v_pos = 3\<close>.
\<close>

theorem endsfree_check_termination_iff:
  "fst (wavefront_extend_endsfree_check_termination wf_aligner mwavefront offset k)
     = (WAVEFRONT_H k offset \<ge> text_length wf_aligner
          \<and> pattern_length wf_aligner - WAVEFRONT_V k offset
              \<le> pattern_end_free (alignment_form wf_aligner)
        \<or> WAVEFRONT_V k offset \<ge> pattern_length wf_aligner
          \<and> text_length wf_aligner - WAVEFRONT_H k offset
              \<le> text_end_free (alignment_form wf_aligner))
   \<and> snd (wavefront_extend_endsfree_check_termination wf_aligner mwavefront offset k)
     = (if fst (wavefront_extend_endsfree_check_termination wf_aligner mwavefront offset k)
        then mwavefront\<lparr>k_alignment_end := k\<rparr> else mwavefront)
   \<and> (text_length wf_aligner = 10 \<and> pattern_length wf_aligner = 7
        \<and> pattern_end_free (alignment_form wf_aligner) = 3 \<and> WAVEFRONT_H k offset = 10
      \<longrightarrow> (WAVEFRONT_V k offset = 7 \<longrightarrow>
             fst (wavefront_extend_endsfree_check_termination wf_aligner mwavefront offset k))
        \<and> (WAVEFRONT_V k offset = 6 \<longrightarrow>
             fst (wavefront_extend_endsfree_check_termination wf_aligner mwavefront offset k))
        \<and> (WAVEFRONT_V k offset = 3 \<longrightarrow>
             \<not> fst (wavefront_extend_endsfree_check_termination wf_aligner mwavefront offset k)))"
  by (auto simp: wavefront_extend_endsfree_check_termination_def Let_def)

theorem endsfree_check_termination_iff_witness:
  "fst (wavefront_extend_endsfree_check_termination ex_aligner ex_wavefront 10 3)
   \<and> k_alignment_end
       (snd (wavefront_extend_endsfree_check_termination ex_aligner ex_wavefront 10 3)) = 3
   \<and> fst (wavefront_extend_endsfree_check_termination ex_aligner ex_wavefront 10 4)
   \<and> k_alignment_end
       (snd (wavefront_extend_endsfree_check_termination ex_aligner ex_wavefront 10 4)) = 4
   \<and> \<not> fst (wavefront_extend_endsfree_check_termination ex_aligner ex_wavefront 10 7)
   \<and> snd (wavefront_extend_endsfree_check_termination ex_aligner ex_wavefront 10 7)
       = ex_wavefront"
  using endsfree_check_termination_iff [of ex_aligner ex_wavefront 10 3]
    endsfree_check_termination_iff [of ex_aligner ex_wavefront 10 4]
    endsfree_check_termination_iff [of ex_aligner ex_wavefront 10 7]
  by (simp add: ex_aligner_def ex_form_def WAVEFRONT_H_def WAVEFRONT_V_def)

text \<open>
  C10. When the offset at the alignment diagonal is \<open>WAVEFRONT_OFFSET_NULL\<close>, the end-to-end
  check returns false and leaves \<open>k_alignment_end\<close> (and the rest of the wavefront) as it
  was: for sequence lengths that are not negative the NULL offset is strictly less than the
  alignment offset, so the comparison of the offsets alone rejects the diagonal.
\<close>

theorem end2end_check_termination_null:
  assumes "0 \<le> text_length wf_aligner" and "0 \<le> pattern_length wf_aligner"
    and "offsets mwavefront
           (WAVEFRONT_DIAGONAL (text_length wf_aligner) (pattern_length wf_aligner))
         = WAVEFRONT_OFFSET_NULL"
  shows "WAVEFRONT_OFFSET_NULL
           < WAVEFRONT_OFFSET (text_length wf_aligner) (pattern_length wf_aligner)
       \<and> wavefront_extend_end2end_check_termination wf_aligner mwavefront
           = (False, mwavefront)"
  using assms
  by (simp add: wavefront_extend_end2end_check_termination_def Let_def
      WAVEFRONT_OFFSET_NULL_def WAVEFRONT_OFFSET_def)

theorem end2end_check_termination_null_witness:
  "lo ex_wavefront \<le> WAVEFRONT_DIAGONAL (text_length ex_aligner) (pattern_length ex_aligner)
   \<and> WAVEFRONT_DIAGONAL (text_length ex_aligner) (pattern_length ex_aligner) \<le> hi ex_wavefront
   \<and> offsets ex_wavefront
       (WAVEFRONT_DIAGONAL (text_length ex_aligner) (pattern_length ex_aligner))
     = WAVEFRONT_OFFSET_NULL
   \<and> wavefront_extend_end2end_check_termination ex_aligner ex_wavefront
     = (False, ex_wavefront)"
proof -
  have len: "0 \<le> text_length ex_aligner" "0 \<le> pattern_length ex_aligner"
    by (simp_all add: ex_aligner_def)
  have null: "offsets ex_wavefront
      (WAVEFRONT_DIAGONAL (text_length ex_aligner) (pattern_length ex_aligner))
    = WAVEFRONT_OFFSET_NULL"
    by (simp add: ex_aligner_def ex_wavefront_def WAVEFRONT_DIAGONAL_def)
  from end2end_check_termination_null [OF len null] null show ?thesis
    by (simp add: ex_aligner_def ex_wavefront_def WAVEFRONT_DIAGONAL_def)
qed

subsection \<open>The packed match kernel\<close>

text \<open>Blocks of eight bytes: the exclusive or and the count of trailing zeros.\<close>

lemma bit_load_block:
  "length (bs :: 8 word list) = 8 \<Longrightarrow>
   bit (word_rcat (rev bs) :: 64 word) n \<longleftrightarrow> n < 64 \<and> bit (bs ! (n div 8)) (n mod 8)"
  using bit_horner_sum_uint_exp_iff [of bs n]
  by (auto simp: word_rcat_def bit_word_of_int_iff less_mult_imp_div_less)

lemma xor_eq_0_word: "(x XOR y = 0) \<longleftrightarrow> x = (y :: 64 word)"
  by (auto simp: bit_eq_iff bit_xor_iff)

lemma load_block_inj:
  fixes xs ys :: "8 word list"
  assumes "length xs = 8" "length ys = 8"
  shows "(word_rcat (rev xs) :: 64 word) = word_rcat (rev ys) \<longleftrightarrow> xs = ys"
proof
  assume eq: "(word_rcat (rev xs) :: 64 word) = word_rcat (rev ys)"
  show "xs = ys"
  proof (rule nth_equalityI)
    show "length xs = length ys" using assms by simp
  next
    fix i assume i: "i < length xs"
    show "xs ! i = ys ! i"
    proof (rule bit_word_eqI)
      fix m assume m: "m < LENGTH(8)"
      have "bit (word_rcat (rev xs) :: 64 word) (8 * i + m) = bit (word_rcat (rev ys) :: 64 word) (8 * i + m)"
        using eq by simp
      moreover have "(8 * i + m) div 8 = i" "(8 * i + m) mod 8 = m" "8 * i + m < 64"
        using m i assms by auto
      ultimately show "bit (xs ! i) m = bit (ys ! i) m"
        using assms by (simp add: bit_load_block)
    qed
  qed
qed simp

lemma builtin_ctzl_below:
  assumes "n < builtin_ctzl w"
  shows "\<not> bit w n"
proof -
  let ?P = "\<lambda>n. \<not> bit w n"
  have le: "builtin_ctzl w \<le> 64"
    using length_takeWhile_le [of ?P "[0..<64]"] by (simp add: builtin_ctzl_def)
  have "takeWhile ?P [0..<64] ! n \<in> set (takeWhile ?P [0..<64])"
    using assms by (simp add: builtin_ctzl_def)
  moreover have "takeWhile ?P [0..<64] ! n = [0..<64] ! n"
    using assms by (simp add: builtin_ctzl_def takeWhile_nth)
  moreover have "[0..<64] ! n = n"
    using assms le by simp
  ultimately show ?thesis
    using set_takeWhileD [of n ?P "[0..<64]"] by simp
qed

lemma builtin_ctzl_less:
  assumes "w \<noteq> 0"
  shows "builtin_ctzl w < 64"
proof (rule ccontr)
  assume "\<not> builtin_ctzl w < 64"
  then have "\<And>n. n < 64 \<Longrightarrow> \<not> bit w n"
    by (intro builtin_ctzl_below) simp
  then have "w = 0"
    by (intro bit_word_eqI) simp
  with assms show False by simp
qed

lemma builtin_ctzl_bit:
  assumes "w \<noteq> 0"
  shows "bit w (builtin_ctzl w)"
proof -
  let ?P = "\<lambda>n. \<not> bit w n"
  have "length (takeWhile ?P [0..<64]) < length [0..<64]"
    using builtin_ctzl_less [OF assms] by (simp add: builtin_ctzl_def)
  from nth_length_takeWhile [OF this] builtin_ctzl_less [OF assms]
  show ?thesis by (simp add: builtin_ctzl_def)
qed

lemma common_prefix_length_le:
  "common_prefix_length xs ys \<le> length xs" "common_prefix_length xs ys \<le> length ys"
  by (induction xs ys rule: common_prefix_length.induct) auto

lemma common_prefix_length_nth:
  "i < common_prefix_length xs ys \<Longrightarrow> xs ! i = ys ! i"
  by (induction xs ys arbitrary: i rule: common_prefix_length.induct)
     (auto simp: nth_Cons' split: if_splits)

lemma common_prefix_length_mismatch:
  "common_prefix_length xs ys < length xs \<Longrightarrow> common_prefix_length xs ys < length ys \<Longrightarrow>
   xs ! common_prefix_length xs ys \<noteq> ys ! common_prefix_length xs ys"
  by (induction xs ys rule: common_prefix_length.induct) auto

lemma common_prefix_length_same_length:
  "length xs = length ys \<Longrightarrow> common_prefix_length xs ys = length xs \<longleftrightarrow> xs = ys"
  by (induction xs ys rule: common_prefix_length.induct) auto

lemma common_prefix_length_take:
  "common_prefix_length (take n xs) (take n ys) = min n (common_prefix_length xs ys)"
  by (induction xs ys arbitrary: n rule: common_prefix_length.induct)
     (auto simp: take_Cons' )

lemma common_prefix_length_drop:
  "n \<le> common_prefix_length xs ys \<Longrightarrow>
   common_prefix_length (drop n xs) (drop n ys) = common_prefix_length xs ys - n"
  by (induction xs ys arbitrary: n rule: common_prefix_length.induct)
     (auto simp: drop_Cons' split: if_splits)

lemma block_ctzl:
  fixes xs ys :: "8 word list"
  assumes len: "length xs = 8" "length ys = 8" and ne: "xs \<noteq> ys"
  shows "builtin_ctzl (word_rcat (rev xs) XOR word_rcat (rev ys) :: 64 word) div 8
         = common_prefix_length xs ys"
proof -
  let ?w = "word_rcat (rev xs) XOR word_rcat (rev ys) :: 64 word"
  let ?j = "common_prefix_length xs ys"
  have bitw: "bit ?w n \<longleftrightarrow> n < 64 \<and> bit (xs ! (n div 8)) (n mod 8) \<noteq> bit (ys ! (n div 8)) (n mod 8)" for n
    using len by (auto simp: bit_xor_iff bit_load_block)
  have j8: "?j < 8"
    using common_prefix_length_same_length [of xs ys] common_prefix_length_le(1) [of xs ys] len ne
    by (simp add: le_neq_implies_less)
  then have "xs ! ?j \<noteq> ys ! ?j"
    using common_prefix_length_mismatch [of xs ys] len by simp
  then obtain m where m: "m < 8" "bit (xs ! ?j) m \<noteq> bit (ys ! ?j) m"
    by (metis bit_word_eqI len_bit0 len_num1 mult.right_neutral numeral_Bit0_eq_double One_nat_def)
  have "bit ?w (8 * ?j + m)"
    using m j8 by (simp add: bitw)
  then have upper: "builtin_ctzl ?w \<le> 8 * ?j + m"
    using builtin_ctzl_below [of "8 * ?j + m" ?w] by (meson not_le_imp_less)
  have wne: "?w \<noteq> 0"
    using \<open>bit ?w (8 * ?j + m)\<close> by auto
  have "bit ?w (builtin_ctzl ?w)"
    by (rule builtin_ctzl_bit [OF wne])
  then have "xs ! (builtin_ctzl ?w div 8) \<noteq> ys ! (builtin_ctzl ?w div 8)"
    by (auto simp: bitw)
  then have lower: "?j \<le> builtin_ctzl ?w div 8"
    using common_prefix_length_nth [of "builtin_ctzl ?w div 8" xs ys] by (meson not_le_imp_less)
  from upper m(1) have "builtin_ctzl ?w div 8 \<le> ?j" by simp
  with lower show ?thesis by simp
qed


lemma load_uint64_Some:
  "i + 8 \<le> length mem \<Longrightarrow>
   load_uint64 mem (int i) = Some (word_rcat (rev (take 8 (drop i mem))))"
  by (simp add: load_uint64_def)

lemma packed_kernel_blocks_eq:
  assumes "m = common_prefix_length (drop i (pattern_padded_buffer a))
                 (drop j (text_padded_buffer a))"
    and "i + 8 * (m div 8) + 8 \<le> length (pattern_padded_buffer a)"
    and "j + 8 * (m div 8) + 8 \<le> length (text_padded_buffer a)"
  shows "packed_kernel_blocks a (int i) (int j) offset = Some (offset + int m)"
  using assms
proof (induction m arbitrary: i j offset rule: less_induct)
  case (less m)
  let ?pm = "pattern_padded_buffer a" and ?tm = "text_padded_buffer a"
  let ?xs = "take 8 (drop i ?pm)" and ?ys = "take 8 (drop j ?tm)"
  let ?w = "word_rcat (rev ?xs) XOR word_rcat (rev ?ys) :: 64 word"
  have bounds: "i + 8 \<le> length ?pm" "j + 8 \<le> length ?tm"
    using less.prems by simp_all
  then have lens: "length ?xs = 8" "length ?ys = 8"
    by simp_all
  have cpl: "common_prefix_length ?xs ?ys = min 8 m"
    by (simp add: common_prefix_length_take less.prems(1))
  have unfold: "packed_kernel_blocks a (int i) (int j) offset =
      (if ?w = 0 then packed_kernel_blocks a (int i + 8) (int j + 8) (offset + 8)
       else Some (offset + DIV_FLOOR (int (builtin_ctzl ?w)) 8))"
    by (subst packed_kernel_blocks.simps) (simp add: load_uint64_Some bounds)
  show ?case
  proof (cases "m < 8")
    case True
    with cpl lens have ne: "?xs \<noteq> ?ys"
      using common_prefix_length_same_length [of ?xs ?ys] by auto
    then have "?w \<noteq> 0"
      using load_block_inj [OF lens] by (simp add: xor_eq_0_word)
    moreover have "builtin_ctzl ?w div 8 = m"
      using block_ctzl [OF lens ne] cpl True by simp
    then have "DIV_FLOOR (int (builtin_ctzl ?w)) 8 = int m"
      by (simp add: DIV_FLOOR_def flip: of_nat_div [where 'a=int, of _ 8, simplified])
    ultimately show ?thesis
      by (simp add: unfold)
  next
    case False
    with cpl lens have eq: "?xs = ?ys"
      using common_prefix_length_same_length [of ?xs ?ys] by auto
    then have w0: "?w = 0" by simp
    have m8: "m - 8 = common_prefix_length (drop (i + 8) ?pm) (drop (j + 8) ?tm)"
      using common_prefix_length_drop [of 8 "drop i ?pm" "drop j ?tm"] False less.prems(1)
      by (simp add: add.commute)
    define q where "q = (m - 8) div 8"
    have "m div 8 = ((m - 8) + 8) div 8"
      using False by simp
    also have "\<dots> = q + 1"
      unfolding q_def by (simp only: div_add_self2 [of 8 "m - 8", simplified])
    finally have d8: "m div 8 = q + 1" .
    have b1: "(i + 8) + 8 * q + 8 \<le> length ?pm"
      using less.prems(2) unfolding d8 by simp
    have b2: "(j + 8) + 8 * q + 8 \<le> length ?tm"
      using less.prems(3) unfolding d8 by simp
    have lt: "m - 8 < m"
      using False by simp
    have "packed_kernel_blocks a (int (i + 8)) (int (j + 8)) (offset + 8)
          = Some (offset + 8 + int (m - 8))"
      by (rule less.IH [OF lt m8 b1 [unfolded q_def] b2 [unfolded q_def]])
    then show ?thesis
      using False by (simp add: unfold w0 add.commute)
  qed
qed


lemma common_prefix_length_Nil2 [simp]: "common_prefix_length xs [] = 0"
  by (cases xs) simp_all

lemma naive_extend_matches_eq:
  "naive_extend_matches p t v h offset
   = offset + int (common_prefix_length (drop v p) (drop h t))"
proof (induction p t v h offset rule: naive_extend_matches.induct)
  case (1 p t v h offset)
  show ?case
  proof (cases "v < length p \<and> h < length t")
    case True
    then have dv: "drop v p = p ! v # drop (Suc v) p" and dh: "drop h t = t ! h # drop (Suc h) t"
      by (simp_all add: Cons_nth_drop_Suc)
    show ?thesis
    proof (cases "p ! v = t ! h")
      case eq: True
      with True "1.IH" show ?thesis
        by (subst naive_extend_matches.simps) (simp add: dv dh)
    next
      case False
      with True show ?thesis
        by (subst naive_extend_matches.simps) (simp add: dv dh)
    qed
  next
    case False
    then have "drop v p = [] \<or> drop h t = []" by auto
    with False show ?thesis
      by (subst naive_extend_matches.simps) auto
  qed
qed

lemma common_prefix_length_padded:
  assumes "ps \<noteq> ts"
    and "list_all (\<lambda>b. b = ps) A" "A \<noteq> []" "list_all (\<lambda>b. b = ts) B" "B \<noteq> []"
    and "list_all (\<lambda>b. b \<noteq> ts) X" "list_all (\<lambda>b. b \<noteq> ps) Y"
  shows "common_prefix_length (X @ A) (Y @ B) = common_prefix_length X Y"
  using assms(6,7)
proof (induction X arbitrary: Y)
  case Nil
  obtain a A' where A: "A = a # A'" using assms(3) by (cases A) auto
  obtain b B' where B: "B = b # B'" using assms(5) by (cases B) auto
  from A B assms(1,2,4) Nil show ?case
    by (cases Y) auto
next
  case (Cons x X)
  obtain b B' where B: "B = b # B'" using assms(5) by (cases B) auto
  from B assms(4) Cons show ?case
    by (cases Y) auto
qed

lemma kernel_sentinel_padded:
  assumes sp: "sentinel_padded ps ts a"
    and v: "0 \<le> WAVEFRONT_V k offset" "WAVEFRONT_V k offset \<le> pattern_length a"
    and h: "0 \<le> WAVEFRONT_H k offset" "WAVEFRONT_H k offset \<le> text_length a"
  shows "wavefront_extend_matches_packed_kernel a k offset
         = Some (offset + int (common_prefix_length
                   (drop (nat (WAVEFRONT_V k offset)) (pattern_seq a))
                   (drop (nat (WAVEFRONT_H k offset)) (text_seq a))))"
proof -
  let ?pm = "pattern_padded_buffer a" and ?tm = "text_padded_buffer a"
  define p0 P v where "p0 = nat (pattern a)" and "P = nat (pattern_length a)"
    and "v = nat (WAVEFRONT_V k offset)"
  define t0 T h where "t0 = nat (text' a)" and "T = nat (text_length a)"
    and "h = nat (WAVEFRONT_H k offset)"
  define A B where "A = drop (p0 + P) ?pm" and "B = drop (t0 + T) ?tm"
  let ?X = "drop v (pattern_seq a)" and ?Y = "drop h (text_seq a)"
  from sp have ne: "ps \<noteq> ts"
    and nonneg: "0 \<le> pattern a" "0 \<le> pattern_length a" "0 \<le> text' a" "0 \<le> text_length a"
    and lenp0: "pattern a + pattern_length a + 8 \<le> int (length ?pm)"
    and lent0: "text' a + text_length a + 8 \<le> int (length ?tm)"
    and padA0: "list_all (\<lambda>b. b = ps) (drop (nat (pattern a + pattern_length a)) ?pm)"
    and padB0: "list_all (\<lambda>b. b = ts) (drop (nat (text' a + text_length a)) ?tm)"
    and seqp: "list_all (\<lambda>b. b \<noteq> ts) (pattern_seq a)"
    and seqt: "list_all (\<lambda>b. b \<noteq> ps) (text_seq a)"
    unfolding sentinel_padded_def by simp_all
  have sums: "nat (pattern a + pattern_length a) = p0 + P" "nat (text' a + text_length a) = t0 + T"
    using nonneg by (simp_all add: p0_def P_def t0_def T_def nat_add_distrib)
  have lenp: "p0 + P + 8 \<le> length ?pm" and lent: "t0 + T + 8 \<le> length ?tm"
    using lenp0 lent0 nonneg by (simp_all add: p0_def P_def t0_def T_def)
  have padA: "list_all (\<lambda>b. b = ps) A" and padB: "list_all (\<lambda>b. b = ts) B"
    using padA0 padB0 by (simp_all add: sums A_def B_def)
  have vP: "v \<le> P" and hT: "h \<le> T"
    using v h by (simp_all add: v_def P_def h_def T_def nat_le_eq_zle)
  have lp: "length (pattern_seq a) = P" and lt: "length (text_seq a) = T"
    using lenp lent by (simp_all add: pattern_seq_def text_seq_def p0_def P_def t0_def T_def)
  have "drop (p0 + v) ?pm = drop v (drop p0 ?pm)"
    by (simp add: add.commute)
  also have "drop p0 ?pm = pattern_seq a @ A"
    unfolding pattern_seq_def A_def p0_def [symmetric] P_def [symmetric]
    by (simp only: drop_drop [of P p0 ?pm, symmetric, unfolded add.commute [of P p0]]
          append_take_drop_id)
  also have "drop v (pattern_seq a @ A) = ?X @ A"
    using vP lp by simp
  finally have dp: "drop (p0 + v) ?pm = ?X @ A" .
  have "drop (t0 + h) ?tm = drop h (drop t0 ?tm)"
    by (simp add: add.commute)
  also have "drop t0 ?tm = text_seq a @ B"
    unfolding text_seq_def B_def t0_def [symmetric] T_def [symmetric]
    by (simp only: drop_drop [of T t0 ?tm, symmetric, unfolded add.commute [of T t0]]
          append_take_drop_id)
  also have "drop h (text_seq a @ B) = ?Y @ B"
    using hT lt by simp
  finally have dt: "drop (t0 + h) ?tm = ?Y @ B" .
  have "A \<noteq> []" "B \<noteq> []"
    using lenp lent by (auto simp: A_def B_def)
  moreover have "list_all (\<lambda>b. b \<noteq> ts) ?X" "list_all (\<lambda>b. b \<noteq> ps) ?Y"
    using seqp seqt by (auto simp: list_all_iff dest: in_set_dropD)
  ultimately have cpl: "common_prefix_length (?X @ A) (?Y @ B) = common_prefix_length ?X ?Y"
    using common_prefix_length_padded [OF ne padA _ padB] by simp
  define m where "m = common_prefix_length ?X ?Y"
  have m1: "m \<le> P - v" and m2: "m \<le> T - h"
    using common_prefix_length_le [of ?X ?Y] lp lt by (simp_all add: m_def)
  have m8: "8 * (m div 8) \<le> m"
    by simp
  have b1: "(p0 + v) + 8 * (m div 8) + 8 \<le> length ?pm"
    using m1 m8 vP lenp by linarith
  have b2: "(t0 + h) + 8 * (m div 8) + 8 \<le> length ?tm"
    using m2 m8 hT lent by linarith
  have meq: "m = common_prefix_length (drop (p0 + v) ?pm) (drop (t0 + h) ?tm)"
    by (simp add: dp dt cpl m_def)
  have "packed_kernel_blocks a (int (p0 + v)) (int (t0 + h)) offset = Some (offset + int m)"
    by (rule packed_kernel_blocks_eq [OF meq b1 b2])
  moreover have "int (p0 + v) = pattern a + WAVEFRONT_V k offset"
    using nonneg(1) v by (simp add: p0_def v_def)
  moreover have "int (t0 + h) = text' a + WAVEFRONT_H k offset"
    using nonneg(3) h by (simp add: t0_def h_def)
  ultimately show ?thesis
    by (simp add: wavefront_extend_matches_packed_kernel_def m_def v_def h_def)
qed

text \<open>The example data are sentinel-padded.\<close>

lemma ex_aligner_padded: "sentinel_padded 63 33 ex_aligner"
  by (simp add: sentinel_padded_def ex_aligner_def pattern_seq_def text_seq_def list_all_iff)

lemma ex_aligner_e2e_padded: "sentinel_padded 63 33 ex_aligner_e2e"
  by (simp add: sentinel_padded_def ex_aligner_e2e_def pattern_seq_def text_seq_def list_all_iff)

lemma ex_aligner_seqs:
  "pattern_seq ex_aligner = [71, 65, 84, 84, 65, 67, 65]"
  "text_seq ex_aligner = [71, 65, 84, 84, 65, 67, 65, 84, 84, 84]"
  "pattern_length ex_aligner = 7" "text_length ex_aligner = 10"
  by (simp_all add: ex_aligner_def pattern_seq_def text_seq_def)

lemma ex_aligner_e2e_seqs:
  "pattern_seq ex_aligner_e2e = [65, 67, 71, 84, 65, 67, 71, 84, 65, 67, 71, 84]"
  "text_seq ex_aligner_e2e = [65, 67, 71, 84, 65, 67, 71, 84, 65, 67, 71, 84]"
  "pattern_length ex_aligner_e2e = 12" "text_length ex_aligner_e2e = 12"
  by (simp_all add: ex_aligner_e2e_def pattern_seq_def text_seq_def)

text \<open>
  C3. For a sentinel-padded pair of sequences and a starting position inside them
  (\<open>0 \<le> v \<le> pattern_length\<close>, \<open>0 \<le> h \<le> text_length\<close>, the positions of a diagonal and its
  offset), the packed kernel reads inside the allocations and returns exactly the offset of
  the symbol-by-symbol comparison from that position: the cases of no equal symbol and of a
  run of equal symbols to the end of a sequence included.
\<close>

theorem packed_kernel_equals_naive:
  assumes "sentinel_padded ps ts wf_aligner"
    and "0 \<le> WAVEFRONT_V k offset" and "WAVEFRONT_V k offset \<le> pattern_length wf_aligner"
    and "0 \<le> WAVEFRONT_H k offset" and "WAVEFRONT_H k offset \<le> text_length wf_aligner"
  shows "wavefront_extend_matches_packed_kernel wf_aligner k offset
         = Some (naive_extend_matches (pattern_seq wf_aligner) (text_seq wf_aligner)
                   (nat (WAVEFRONT_V k offset)) (nat (WAVEFRONT_H k offset)) offset)"
  by (simp only: kernel_sentinel_padded [OF assms] naive_extend_matches_eq)

theorem packed_kernel_equals_naive_witness:
  "wavefront_extend_matches_packed_kernel ex_aligner 0 0 = Some 7
   \<and> wavefront_extend_matches_packed_kernel ex_aligner 1 1 = Some 1
   \<and> wavefront_extend_matches_packed_kernel ex_aligner 3 10 = Some 10
   \<and> wavefront_extend_matches_packed_kernel ex_aligner_e2e 0 0 = Some 12"
  using packed_kernel_equals_naive [OF ex_aligner_padded, of 0 0]
    packed_kernel_equals_naive [OF ex_aligner_padded, of 1 1]
    packed_kernel_equals_naive [OF ex_aligner_padded, of 3 10]
    packed_kernel_equals_naive [OF ex_aligner_e2e_padded, of 0 0]
  by (simp add: ex_aligner_seqs ex_aligner_e2e_seqs WAVEFRONT_V_def WAVEFRONT_H_def
      naive_extend_matches.simps)

text \<open>
  C7. Where one sequence is fully consumed (\<open>h = text_length\<close> or \<open>v = pattern_length\<close>, the
  other position inside its sequence), the extension of a sentinel-padded pair reads inside
  the allocations (the result is not \<open>None\<close>) and returns the offset it was given: it does
  not advance past the sentinel.
\<close>

theorem packed_kernel_at_sequence_end:
  assumes "sentinel_padded ps ts wf_aligner"
    and "0 \<le> WAVEFRONT_V k offset" and "WAVEFRONT_V k offset \<le> pattern_length wf_aligner"
    and "0 \<le> WAVEFRONT_H k offset" and "WAVEFRONT_H k offset \<le> text_length wf_aligner"
    and "WAVEFRONT_H k offset = text_length wf_aligner
         \<or> WAVEFRONT_V k offset = pattern_length wf_aligner"
  shows "wavefront_extend_matches_packed_kernel wf_aligner k offset = Some offset"
proof -
  from assms(1) have "0 \<le> pattern_length wf_aligner" "0 \<le> text_length wf_aligner"
    and "pattern wf_aligner + pattern_length wf_aligner + 8
           \<le> int (length (pattern_padded_buffer wf_aligner))"
    and "text' wf_aligner + text_length wf_aligner + 8
           \<le> int (length (text_padded_buffer wf_aligner))"
    and "0 \<le> pattern wf_aligner" "0 \<le> text' wf_aligner"
    unfolding sentinel_padded_def by simp_all
  then have "length (pattern_seq wf_aligner) = nat (pattern_length wf_aligner)"
    and "length (text_seq wf_aligner) = nat (text_length wf_aligner)"
    by (simp_all add: pattern_seq_def text_seq_def)
  with assms(6)
  have "drop (nat (WAVEFRONT_V k offset)) (pattern_seq wf_aligner) = []
        \<or> drop (nat (WAVEFRONT_H k offset)) (text_seq wf_aligner) = []"
    by auto
  then have "common_prefix_length
      (drop (nat (WAVEFRONT_V k offset)) (pattern_seq wf_aligner))
      (drop (nat (WAVEFRONT_H k offset)) (text_seq wf_aligner)) = 0"
    by auto
  with kernel_sentinel_padded [OF assms(1-5)] show ?thesis
    by simp
qed

theorem packed_kernel_at_sequence_end_witness:
  "wavefront_extend_matches_packed_kernel ex_aligner 3 10 = Some 10
   \<and> wavefront_extend_matches_packed_kernel ex_aligner 0 7 = Some 7
   \<and> wavefront_extend_matches_packed_kernel ex_aligner 5 10 = Some 10
   \<and> wavefront_extend_matches_packed_kernel ex_aligner_e2e 0 12 = Some 12"
  using packed_kernel_at_sequence_end [OF ex_aligner_padded, of 3 10]
    packed_kernel_at_sequence_end [OF ex_aligner_padded, of 0 7]
    packed_kernel_at_sequence_end [OF ex_aligner_padded, of 5 10]
    packed_kernel_at_sequence_end [OF ex_aligner_e2e_padded, of 0 12]
  by (simp add: ex_aligner_seqs ex_aligner_e2e_seqs WAVEFRONT_V_def WAVEFRONT_H_def)

subsection \<open>The end-to-end driver\<close>

lemma packed_end2end_Some:
  assumes "wavefront_extend_matches_packed_end2end a mw score k khi = Some mw'"
  shows "lo mw' = lo mw \<and> hi mw' = hi mw \<and> k_alignment_end mw' = k_alignment_end mw
    \<and> (\<forall>j. k \<le> j \<and> j \<le> khi \<and> offsets mw j \<noteq> WAVEFRONT_OFFSET_NULL \<longrightarrow>
           wavefront_extend_matches_packed_kernel a j (offsets mw j) = Some (offsets mw' j))
    \<and> (\<forall>j. \<not> (k \<le> j \<and> j \<le> khi) \<or> offsets mw j = WAVEFRONT_OFFSET_NULL \<longrightarrow>
           offsets mw' j = offsets mw j)"
  using assms
proof (induction a mw score k khi arbitrary: mw' rule: wavefront_extend_matches_packed_end2end.induct)
  case (1 a mw score k khi)
  note run = "1.prems" [unfolded wavefront_extend_matches_packed_end2end.simps [of a mw score k khi]]
  show ?case
  proof (cases "k \<le> khi")
    case False
    with run show ?thesis by auto
  next
    case True
    show ?thesis
    proof (cases "offsets mw k = WAVEFRONT_OFFSET_NULL")
      case null: True
      with True run have "wavefront_extend_matches_packed_end2end a mw score (k + 1) khi = Some mw'"
        by simp
      from "1.IH"(1) [OF True null this]
      have ih: "lo mw' = lo mw" "hi mw' = hi mw" "k_alignment_end mw' = k_alignment_end mw"
        "\<And>j. k + 1 \<le> j \<Longrightarrow> j \<le> khi \<Longrightarrow> offsets mw j \<noteq> WAVEFRONT_OFFSET_NULL \<Longrightarrow>
           wavefront_extend_matches_packed_kernel a j (offsets mw j) = Some (offsets mw' j)"
        "\<And>j. \<not> (k + 1 \<le> j \<and> j \<le> khi) \<or> offsets mw j = WAVEFRONT_OFFSET_NULL \<Longrightarrow>
           offsets mw' j = offsets mw j"
        by blast+
      have split: "k \<le> j \<longleftrightarrow> j = k \<or> k + 1 \<le> j" for j
        by auto
      show ?thesis
        using null ih(1-3) ih(4) ih(5) unfolding split by metis
    next
      case nonnull: False
      with True run obtain e where
        e: "wavefront_extend_matches_packed_kernel a k (offsets mw k) = Some e"
        and rest: "wavefront_extend_matches_packed_end2end a
                     (mw\<lparr>offsets := (offsets mw)(k := e)\<rparr>) score (k + 1) khi = Some mw'"
        by (auto split: option.splits)
      let ?mw = "mw\<lparr>offsets := (offsets mw)(k := e)\<rparr>"
      from "1.IH"(2) [OF True nonnull e rest]
      have ih: "lo mw' = lo mw" "hi mw' = hi mw" "k_alignment_end mw' = k_alignment_end mw"
        "\<And>j. k + 1 \<le> j \<Longrightarrow> j \<le> khi \<Longrightarrow> offsets ?mw j \<noteq> WAVEFRONT_OFFSET_NULL \<Longrightarrow>
           wavefront_extend_matches_packed_kernel a j (offsets ?mw j) = Some (offsets mw' j)"
        "\<And>j. \<not> (k + 1 \<le> j \<and> j \<le> khi) \<or> offsets ?mw j = WAVEFRONT_OFFSET_NULL \<Longrightarrow>
           offsets mw' j = offsets ?mw j"
        by simp_all
      have at_k: "offsets mw' k = e"
        using ih(5) [of k] by simp
      have other: "offsets ?mw j = offsets mw j" if "j \<noteq> k" for j
        using that by simp
      have split: "k \<le> j \<longleftrightarrow> j = k \<or> k + 1 \<le> j" for j
        by auto
      have "wavefront_extend_matches_packed_kernel a j (offsets mw j) = Some (offsets mw' j)"
        if "k \<le> j" "j \<le> khi" "offsets mw j \<noteq> WAVEFRONT_OFFSET_NULL" for j
      proof (cases "j = k")
        case True
        with e at_k show ?thesis by simp
      next
        case False
        with that ih(4) [of j] other [of j] show ?thesis by simp
      qed
      moreover have "offsets mw' j = offsets mw j"
        if "\<not> (k \<le> j \<and> j \<le> khi) \<or> offsets mw j = WAVEFRONT_OFFSET_NULL" for j
      proof (cases "j = k")
        case True
        with that nonnull \<open>k \<le> khi\<close> show ?thesis by simp
      next
        case False
        with that ih(5) [of j] other [of j] show ?thesis by auto
      qed
      ultimately show ?thesis
        using ih(1-3) by blast
    qed
  qed
qed


lemma packed_end2end_total:
  assumes "\<And>j. k \<le> j \<Longrightarrow> j \<le> khi \<Longrightarrow> offsets mw j \<noteq> WAVEFRONT_OFFSET_NULL \<Longrightarrow>
             wavefront_extend_matches_packed_kernel a j (offsets mw j) \<noteq> None"
  shows "\<exists>mw'. wavefront_extend_matches_packed_end2end a mw score k khi = Some mw'"
  using assms
proof (induction a mw score k khi rule: wavefront_extend_matches_packed_end2end.induct)
  case (1 a mw score k khi)
  note unfold = wavefront_extend_matches_packed_end2end.simps [of a mw score k khi]
  show ?case
  proof (cases "k \<le> khi")
    case False
    then show ?thesis by (simp add: unfold)
  next
    case True
    show ?thesis
    proof (cases "offsets mw k = WAVEFRONT_OFFSET_NULL")
      case null: True
      have "\<exists>mw'. wavefront_extend_matches_packed_end2end a mw score (k + 1) khi = Some mw'"
        by (rule "1.IH"(1) [OF True null]) (simp add: "1.prems")
      with True null show ?thesis by (simp add: unfold)
    next
      case nonnull: False
      with True "1.prems" [of k] obtain e where
        e: "wavefront_extend_matches_packed_kernel a k (offsets mw k) = Some e"
        by auto
      have "\<exists>mw'. wavefront_extend_matches_packed_end2end a
                    (mw\<lparr>offsets := (offsets mw)(k := e)\<rparr>) score (k + 1) khi = Some mw'"
        by (rule "1.IH"(2) [OF True nonnull e]) (simp add: "1.prems")
      with True nonnull e show ?thesis by (simp add: unfold)
    qed
  qed
qed

lemma wavefront_eqI:
  fixes w w' :: wavefront_t
  assumes "lo w = lo w'" "hi w = hi w'" "k_alignment_end w = k_alignment_end w'"
    and "\<And>j. offsets w j = offsets w' j"
  shows "w = w'"
  using assms by (intro wavefront_t.equality ext) simp_all

lemma ex_aligner_kernel:
  "wavefront_extend_matches_packed_kernel ex_aligner 0 0 = Some 7"
  "wavefront_extend_matches_packed_kernel ex_aligner 1 3 = Some 4"
  "wavefront_extend_matches_packed_kernel ex_aligner 2 6 = Some 7"
  using kernel_sentinel_padded [OF ex_aligner_padded, of 0 0]
    kernel_sentinel_padded [OF ex_aligner_padded, of 1 3]
    kernel_sentinel_padded [OF ex_aligner_padded, of 2 6]
  by (simp_all add: ex_aligner_seqs WAVEFRONT_V_def WAVEFRONT_H_def)

text \<open>
  C6. The end-to-end driver on a range \<open>[lo,hi]\<close> returns the wavefront in which every
  diagonal of the range whose offset is not NULL holds the kernel's result for it, and every
  other diagonal (outside the range, or NULL) holds what it held; \<open>lo\<close>, \<open>hi\<close> and
  \<open>k_alignment_end\<close> are as before, since no termination check is made. It returns at all
  exactly when the kernel's reads are inside the buffers on each of those diagonals.
\<close>

theorem packed_end2end_driver:
  "wavefront_extend_matches_packed_end2end wf_aligner mwavefront score klo khi
     = Some mwavefront'
   \<longleftrightarrow>
     (\<forall>k. klo \<le> k \<and> k \<le> khi \<and> offsets mwavefront k \<noteq> WAVEFRONT_OFFSET_NULL \<longrightarrow>
          wavefront_extend_matches_packed_kernel wf_aligner k (offsets mwavefront k)
            = Some (offsets mwavefront' k))
     \<and> (\<forall>k. \<not> (klo \<le> k \<and> k \<le> khi) \<or> offsets mwavefront k = WAVEFRONT_OFFSET_NULL \<longrightarrow>
          offsets mwavefront' k = offsets mwavefront k)
     \<and> lo mwavefront' = lo mwavefront \<and> hi mwavefront' = hi mwavefront
     \<and> k_alignment_end mwavefront' = k_alignment_end mwavefront"
  (is "?run = Some mwavefront' \<longleftrightarrow> ?spec mwavefront'")
proof
  assume "?run = Some mwavefront'"
  from packed_end2end_Some [OF this] show "?spec mwavefront'"
    by blast
next
  assume spec: "?spec mwavefront'"
  then have "\<exists>mw'. ?run = Some mw'"
    by (intro packed_end2end_total) auto
  then obtain mw' where run: "?run = Some mw'" ..
  from packed_end2end_Some [OF run] have spec': "?spec mw'"
    by blast
  have "mw' = mwavefront'"
  proof (rule wavefront_eqI)
    fix j
    show "offsets mw' j = offsets mwavefront' j"
    proof (cases "klo \<le> j \<and> j \<le> khi \<and> offsets mwavefront j \<noteq> WAVEFRONT_OFFSET_NULL")
      case True
      with spec spec' have "Some (offsets mw' j) = Some (offsets mwavefront' j)"
        by metis
      then show ?thesis by simp
    next
      case False
      with spec spec' show ?thesis by metis
    qed
  qed (use spec spec' in simp_all)
  with run show "?run = Some mwavefront'" by simp
qed

theorem packed_end2end_driver_witness:
  "wavefront_extend_matches_packed_end2end ex_aligner ex_wavefront 2 0 3
   = Some (ex_wavefront\<lparr>offsets :=
       (\<lambda>k. if k = 0 then 7 else if k = 1 then 4 else if k = 2 then 7
             else WAVEFRONT_OFFSET_NULL)\<rparr>)"
proof -
  have "k = 0 \<or> k = 1 \<or> k = 2 \<or> k = 3" if "0 \<le> k" "k \<le> 3" for k :: int
    using that by arith
  then show ?thesis
    unfolding packed_end2end_driver
    by (auto simp: ex_wavefront_def ex_aligner_kernel WAVEFRONT_OFFSET_NULL_def)
qed

subsection \<open>The score and the table of wavefronts\<close>

lemma modular_score_reduce:
  assumes "memory_modular (wf_components a)" and "0 < max_score_scope (wf_components a)"
    and "0 \<le> score"
  shows "modular_score a score = Some (score mod max_score_scope (wf_components a))"
proof -
  have "sgn score * (\<bar>score\<bar> mod \<bar>max_score_scope (wf_components a)\<bar>)
        = score mod max_score_scope (wf_components a)"
  proof (cases "score = 0")
    case True
    then show ?thesis by simp
  next
    case False
    with assms(3) have "0 < score" by simp
    with assms(2) show ?thesis by simp
  qed
  with assms(1,2) show ?thesis
    by (simp add: modular_score_def c_rem_def)
qed

lemma modular_score_plus_scope:
  assumes "memory_modular (wf_components a)" and "0 < max_score_scope (wf_components a)"
  shows "modular_score a (max_score_scope (wf_components a) + 2) = modular_score a 2"
  using assms by (simp add: modular_score_reduce)

lemma extend_cong_score:
  assumes "modular_score a s1 = modular_score a s2"
  shows "wavefront_extend_end2end ext a s1 = wavefront_extend_end2end ext a s2"
    and "wavefront_extend_endsfree ext a s1 = wavefront_extend_endsfree ext a s2"
    and "wavefront_extend_custom ext a s1 = wavefront_extend_custom ext a s2"
  using assms
  by (simp_all add: wavefront_extend_end2end_def wavefront_extend_endsfree_def
      wavefront_extend_custom_def)

lemma extend_absent:
  assumes "modular_score a score0 = Some score"
    and "mwavefronts (wf_components a) score = None"
  shows "wavefront_extend_end2end ext a score0 = Some (False, a)"
    and "wavefront_extend_endsfree ext a score0 = Some (False, a)"
    and "wavefront_extend_custom ext a score0 = Some (False, a)"
  using assms
  by (simp_all add: wavefront_extend_end2end_def wavefront_extend_endsfree_def
      wavefront_extend_custom_def)

lemma ex_aligner_fields:
  "memory_modular (wf_components ex_aligner)"
  "max_score_scope (wf_components ex_aligner) = 5"
  "mwavefronts (wf_components ex_aligner) s = (if s = 2 then Some ex_wavefront else None)"
  "alignment_form ex_aligner = ex_form"
  "strategy (heuristic ex_aligner) = wf_heuristic_none"
  by (simp_all add: ex_aligner_def)

lemma ex_aligner_e2e_fields:
  "\<not> memory_modular (wf_components ex_aligner_e2e)"
  "mwavefronts (wf_components ex_aligner_e2e) s = (if s = 0 then Some ex_wavefront0 else None)"
  "span (alignment_form ex_aligner_e2e) = alignment_end2end"
  "strategy (heuristic ex_aligner_e2e) = wf_heuristic_none"
  by (simp_all add: ex_aligner_e2e_def)

subsection \<open>The drivers as one loop\<close>

lemma endsfree_check_eq:
  "wavefront_extend_endsfree_check_termination a mw e k
   = (if endsfree_terminal a e k then (True, mw\<lparr>k_alignment_end := k\<rparr>) else (False, mw))"
  by (simp add: wavefront_extend_endsfree_check_termination_def endsfree_terminal_def Let_def)

lemma packed_endsfree_eq:
  "wavefront_extend_matches_packed_endsfree a mw score k khi
   = extend_range (wavefront_extend_matches_packed_kernel a) True a mw k khi"
proof (induction a mw score k khi rule: wavefront_extend_matches_packed_endsfree.induct)
  case (1 a mw score k khi)
  show ?case
    apply (subst wavefront_extend_matches_packed_endsfree.simps)
    apply (subst extend_range.simps)
    using 1 by (auto simp: endsfree_check_eq split: option.splits)
qed

lemma custom_eq:
  "wavefront_extend_matches_custom a mw score k khi endsfree
   = extend_range (custom_kernel a) endsfree a mw k khi"
proof (induction a mw score k khi endsfree rule: wavefront_extend_matches_custom.induct)
  case (1 a mw score k khi endsfree)
  show ?case
    apply (subst wavefront_extend_matches_custom.simps)
    apply (subst extend_range.simps)
    using 1 by (auto simp: endsfree_check_eq custom_kernel_def [symmetric] split: option.splits)
qed

lemma packed_end2end_eq:
  "wavefront_extend_matches_packed_end2end a mw score k khi
   = map_option snd (extend_range (wavefront_extend_matches_packed_kernel a) False a mw k khi)"
proof (induction a mw score k khi rule: wavefront_extend_matches_packed_end2end.induct)
  case (1 a mw score k khi)
  show ?case
    apply (subst wavefront_extend_matches_packed_end2end.simps)
    apply (subst extend_range.simps)
    using 1 by (auto split: option.splits)
qed

lemma parallel_packed_endsfree_eq:
  "parallel_packed_endsfree a mw score r0 rs
   = parallel_range (wavefront_extend_matches_packed_kernel a) True a mw r0 rs"
  by (induction rs arbitrary: mw r0) (auto simp: packed_endsfree_eq split: option.splits)

lemma parallel_custom_eq:
  "parallel_custom a mw score endsfree r0 rs
   = parallel_range (custom_kernel a) endsfree a mw r0 rs"
  by (induction rs arbitrary: mw r0) (auto simp: custom_eq split: option.splits)


lemma parallel_packed_end2end_eq:
  "parallel_packed_end2end a mw score rs
   = map_option snd (parallel_range (wavefront_extend_matches_packed_kernel a) False a mw r0 rs)"
proof (induction rs arbitrary: mw r0)
  case Nil
  then show ?case by simp
next
  case (Cons c rs)
  obtain t_lo t_hi where c: "c = (t_lo, t_hi)" by (cases c)
  show ?case
    using Cons.IH by (auto simp: c packed_end2end_eq split: option.splits)
qed

lemma extend_range_cases [consumes 1, case_names past null stop step]:
  assumes "extend_range ker ef a mw k khi = Some (r, mw')"
  obtains "khi < k" "\<not> r" "mw' = mw"
  | "k \<le> khi" "offsets mw k = WAVEFRONT_OFFSET_NULL"
      "extend_range ker ef a mw (k + 1) khi = Some (r, mw')"
  | e where "k \<le> khi" "offsets mw k \<noteq> WAVEFRONT_OFFSET_NULL" "ker k (offsets mw k) = Some e"
      "ef" "endsfree_terminal a e k" "r"
      "mw' = mw\<lparr>offsets := (offsets mw)(k := e), k_alignment_end := k\<rparr>"
  | e where "k \<le> khi" "offsets mw k \<noteq> WAVEFRONT_OFFSET_NULL" "ker k (offsets mw k) = Some e"
      "\<not> (ef \<and> endsfree_terminal a e k)"
      "extend_range ker ef a (mw\<lparr>offsets := (offsets mw)(k := e)\<rparr>) (k + 1) khi = Some (r, mw')"
  using assms [unfolded extend_range.simps [of ker ef a mw k khi]]
  by (auto split: if_splits option.splits)

lemma extend_range_fields:
  assumes "extend_range ker ef a mw k khi = Some (r, mw')"
  shows "lo mw' = lo mw \<and> hi mw' = hi mw"
  using assms
proof (induction ker ef a mw k khi arbitrary: r mw' rule: extend_range.induct)
  case (1 ker ef a mw k khi)
  from "1.prems" show ?case
  proof (cases rule: extend_range_cases)
    case null
    from "1.IH"(1) [OF null] show ?thesis .
  next
    case (step e)
    from "1.IH"(2) [OF step] show ?thesis by simp
  qed simp_all
qed

lemma extend_range_frame:
  assumes "extend_range ker ef a mw k khi = Some (r, mw')"
    and "j < k \<or> khi < j \<or> offsets mw j = WAVEFRONT_OFFSET_NULL"
  shows "offsets mw' j = offsets mw j"
  using assms
proof (induction ker ef a mw k khi arbitrary: r mw' rule: extend_range.induct)
  case (1 ker ef a mw k khi)
  from "1.prems"(1) show ?case
  proof (cases rule: extend_range_cases)
    case null
    show ?thesis
    proof (cases "j = k")
      case True
      with null have "offsets mw j = WAVEFRONT_OFFSET_NULL" by simp
      then show ?thesis by (intro "1.IH"(1) [OF null]) simp
    next
      case False
      with "1.prems"(2) show ?thesis by (intro "1.IH"(1) [OF null]) auto
    qed
  next
    case (stop e)
    with "1.prems"(2) show ?thesis by auto
  next
    case (step e)
    from step(1,2) "1.prems"(2) have jk: "j \<noteq> k" by auto
    then have "offsets mw' j = offsets (mw\<lparr>offsets := (offsets mw)(k := e)\<rparr>) j"
      using "1.prems"(2) by (intro "1.IH"(2) [OF step]) auto
    with jk show ?thesis by simp
  qed simp
qed

lemma extended_offsets_empty: "khi < k \<Longrightarrow> extended_offsets ker mw k khi = offsets mw"
  by (auto simp: extended_offsets_def)

lemma extended_offsets_null:
  "offsets mw k = WAVEFRONT_OFFSET_NULL \<Longrightarrow>
   extended_offsets ker mw (k + 1) khi = extended_offsets ker mw k khi"
proof (rule ext)
  fix j
  assume "offsets mw k = WAVEFRONT_OFFSET_NULL"
  then show "extended_offsets ker mw (k + 1) khi j = extended_offsets ker mw k khi j"
    by (cases "j = k") (auto simp: extended_offsets_def)
qed

lemma extended_offsets_step:
  assumes "k \<le> khi" "offsets mw k \<noteq> WAVEFRONT_OFFSET_NULL" "ker k (offsets mw k) = Some e"
  shows "extended_offsets ker (mw\<lparr>offsets := (offsets mw)(k := e)\<rparr>) (k + 1) khi
         = extended_offsets ker mw k khi"
proof (rule ext)
  fix j
  show "extended_offsets ker (mw\<lparr>offsets := (offsets mw)(k := e)\<rparr>) (k + 1) khi j
        = extended_offsets ker mw k khi j"
    using assms by (cases "j = k") (auto simp: extended_offsets_def split: option.splits)
qed

lemma extend_range_not_terminal:
  assumes "extend_range ker ef a mw k khi = Some (False, mw')"
  shows "mw' = mw\<lparr>offsets := extended_offsets ker mw k khi\<rparr>"
  using assms
proof (induction ker ef a mw k khi arbitrary: mw' rule: extend_range.induct)
  case (1 ker ef a mw k khi)
  from "1.prems" show ?case
  proof (cases rule: extend_range_cases)
    case past
    then show ?thesis by (simp add: extended_offsets_empty)
  next
    case null
    from "1.IH"(1) [OF null] null(2) show ?thesis
      by (simp add: extended_offsets_null)
  next
    case (step e)
    from "1.IH"(2) [OF step] show ?thesis
      by (simp add: extended_offsets_step
            [where ker = ker and k = k and khi = khi and mw = mw and e = e, OF step(1,2,3)])
  qed simp
qed

lemma extend_range_terminal:
  assumes "extend_range ker ef a mw k khi = Some (True, mw')"
  shows "ef \<and> k \<le> k_alignment_end mw' \<and> k_alignment_end mw' \<le> khi
         \<and> endsfree_terminal a (offsets mw' (k_alignment_end mw')) (k_alignment_end mw')"
  using assms
proof (induction ker ef a mw k khi arbitrary: mw' rule: extend_range.induct)
  case (1 ker ef a mw k khi)
  from "1.prems" show ?case
  proof (cases rule: extend_range_cases)
    case null
    from "1.IH"(1) [OF null] show ?thesis by simp
  next
    case (stop e)
    then show ?thesis by simp
  next
    case (step e)
    from "1.IH"(2) [OF step] show ?thesis by simp
  qed simp
qed

lemma extend_range_k_alignment_end:
  assumes "extend_range ker ef a mw k khi = Some (r, mw')"
  shows "(r \<longrightarrow> ef) \<and> (\<not> r \<longrightarrow> k_alignment_end mw' = k_alignment_end mw)"
proof (cases r)
  case True
  with assms extend_range_terminal [of ker ef a mw k khi mw'] show ?thesis by simp
next
  case False
  with assms extend_range_not_terminal [of ker ef a mw k khi mw'] show ?thesis by simp
qed

lemma range_terminal_empty: "khi < k \<Longrightarrow> \<not> range_terminal ker a mw k khi"
  by (auto simp: range_terminal_def)

lemma range_terminal_split:
  assumes "k \<le> m + 1" "m \<le> khi"
  shows "range_terminal ker a mw k khi
         \<longleftrightarrow> range_terminal ker a mw k m \<or> range_terminal ker a mw (m + 1) khi"
proof -
  have "{k..khi} = {k..m} \<union> {m + 1..khi}"
    using assms by auto
  then show ?thesis
    unfolding range_terminal_def by blast
qed

lemma range_terminal_single:
  "range_terminal ker a mw k k \<longleftrightarrow>
     offsets mw k \<noteq> WAVEFRONT_OFFSET_NULL
     \<and> (case ker k (offsets mw k) of None \<Rightarrow> False | Some e \<Rightarrow> endsfree_terminal a e k)"
  by (auto simp: range_terminal_def)

lemma range_terminal_cong:
  assumes "\<And>j. k \<le> j \<Longrightarrow> j \<le> khi \<Longrightarrow> offsets mw' j = offsets mw j"
  shows "range_terminal ker a mw' k khi = range_terminal ker a mw k khi"
  using assms by (auto simp: range_terminal_def)

lemma range_terminal_first:
  assumes "k \<le> khi"
  shows "range_terminal ker a mw k khi
         \<longleftrightarrow> range_terminal ker a mw k k \<or> range_terminal ker a mw (k + 1) khi"
  using range_terminal_split [of k k khi ker a mw] assms by simp

lemma extend_range_verdict:
  assumes "extend_range ker ef a mw k khi = Some (r, mw')"
  shows "r \<longleftrightarrow> ef \<and> range_terminal ker a mw k khi"
  using assms
proof (induction ker ef a mw k khi arbitrary: r mw' rule: extend_range.induct)
  case (1 ker ef a mw k khi)
  from "1.prems" show ?case
  proof (cases rule: extend_range_cases)
    case past
    then show ?thesis by (simp add: range_terminal_empty)
  next
    case null
    from "1.IH"(1) [OF null] null(1,2) show ?thesis
      by (simp add: range_terminal_first [of k khi] range_terminal_single)
  next
    case (stop e)
    then show ?thesis
      by (simp add: range_terminal_first [of k khi] range_terminal_single)
  next
    case (step e)
    have "range_terminal ker a (mw\<lparr>offsets := (offsets mw)(k := e)\<rparr>) (k + 1) khi
          = range_terminal ker a mw (k + 1) khi"
      by (rule range_terminal_cong) simp
    with "1.IH"(2) [OF step] step(1-4) show ?thesis
      by (auto simp: range_terminal_first [of k khi] range_terminal_single)
  qed
qed

lemma parallel_range_monotone:
  "parallel_range ker ef a mw r0 rs = Some (r, mw') \<Longrightarrow> r0 \<Longrightarrow> r"
proof (induction rs arbitrary: mw r0)
  case Nil
  then show ?case by simp
next
  case (Cons c rs)
  obtain t_lo t_hi where c: "c = (t_lo, t_hi)" by (cases c)
  from Cons.prems show ?case
    by (auto simp: c split: option.splits dest: Cons.IH)
qed

lemma parallel_range_k_alignment_end:
  assumes "parallel_range ker ef a mw r0 rs = Some (r, mw')"
  shows "(r \<longrightarrow> r0 \<or> ef) \<and> (\<not> r \<longrightarrow> k_alignment_end mw' = k_alignment_end mw)
         \<and> lo mw' = lo mw \<and> hi mw' = hi mw"
  using assms
proof (induction rs arbitrary: mw r0)
  case Nil
  then show ?case by simp
next
  case (Cons c rs)
  obtain t_lo t_hi where c: "c = (t_lo, t_hi)" by (cases c)
  from Cons.prems obtain r1 mw1 where
    chunk: "extend_range ker ef a mw t_lo t_hi = Some (r1, mw1)"
    and rest: "parallel_range ker ef a mw1 (if r1 then True else r0) rs = Some (r, mw')"
    by (auto simp: c split: option.splits)
  note ih = Cons.IH [OF rest]
  note k1 = extend_range_k_alignment_end [OF chunk]
  note f1 = extend_range_fields [OF chunk]
  have "\<not> r \<Longrightarrow> \<not> r1"
    using parallel_range_monotone [OF rest] by auto
  with ih k1 f1 show ?case
    by (auto split: if_splits)
qed

lemma range_terminal_mono:
  assumes "range_terminal ker a mw k m" and "k' \<le> k" and "m \<le> m'"
  shows "range_terminal ker a mw k' m'"
  using assms unfolding range_terminal_def by force

lemma range_terminal_null:
  assumes "offsets mw k = WAVEFRONT_OFFSET_NULL"
  shows "range_terminal ker a mw k m = range_terminal ker a mw (k + 1) m"
proof (cases "k \<le> m")
  case True
  with range_terminal_first [of k m ker a mw] assms show ?thesis
    by (simp add: range_terminal_single)
next
  case False
  then show ?thesis by (simp add: range_terminal_empty)
qed

lemma extend_range_reached:
  assumes "extend_range ker ef a mw k khi = Some (r, mw')"
    and "k \<le> j" "j \<le> khi" "\<not> (ef \<and> range_terminal ker a mw k (j - 1))"
    and "offsets mw j \<noteq> WAVEFRONT_OFFSET_NULL"
  shows "ker j (offsets mw j) = Some (offsets mw' j)"
  using assms
proof (induction ker ef a mw k khi arbitrary: r mw' rule: extend_range.induct)
  case (1 ker ef a mw k khi)
  from "1.prems"(1) show ?case
  proof (cases rule: extend_range_cases)
    case past
    with "1.prems" show ?thesis by simp
  next
    case null
    with "1.prems" have kj: "k + 1 \<le> j" by (cases "j = k") auto
    have "\<not> (ef \<and> range_terminal ker a mw (k + 1) (j - 1))"
      using "1.prems"(4) range_terminal_mono [of ker a mw "k + 1" "j - 1" k "j - 1"] by auto
    with "1.prems" kj show ?thesis by (intro "1.IH"(1) [OF null]) simp_all
  next
    case (stop e)
    show ?thesis
    proof (cases "j = k")
      case True
      with stop show ?thesis by simp
    next
      case False
      with "1.prems"(2) have "k \<le> j - 1" by simp
      moreover have "range_terminal ker a mw k k"
        using stop by (simp add: range_terminal_single)
      ultimately have "range_terminal ker a mw k (j - 1)"
        by (rule_tac range_terminal_mono [of ker a mw k k]) simp_all
      with stop(4) "1.prems"(4) show ?thesis by simp
    qed
  next
    case (step e)
    let ?mw = "mw\<lparr>offsets := (offsets mw)(k := e)\<rparr>"
    show ?thesis
    proof (cases "j = k")
      case True
      have "offsets mw' k = offsets ?mw k"
        by (rule extend_range_frame [OF step(5)]) simp
      with step(3) True show ?thesis by simp
    next
      case False
      with "1.prems"(2) have kj: "k + 1 \<le> j" by simp
      have "range_terminal ker a ?mw (k + 1) (j - 1) = range_terminal ker a mw (k + 1) (j - 1)"
        by (rule range_terminal_cong) simp
      with "1.prems"(4) range_terminal_mono [of ker a mw "k + 1" "j - 1" k "j - 1"]
      have nt: "\<not> (ef \<and> range_terminal ker a ?mw (k + 1) (j - 1))" by auto
      from False "1.prems"(5) have nn: "offsets ?mw j \<noteq> WAVEFRONT_OFFSET_NULL" by simp
      from "1.IH"(2) [OF step(1,2,3,4,5) kj "1.prems"(3) nt nn] False
      show ?thesis by simp
    qed
  qed
qed

lemma extend_range_unreached:
  assumes "extend_range ker ef a mw k khi = Some (r, mw')"
    and "j < k \<or> khi < j \<or> ef \<and> range_terminal ker a mw k (j - 1)
         \<or> offsets mw j = WAVEFRONT_OFFSET_NULL"
  shows "offsets mw' j = offsets mw j"
proof (cases "ef \<and> range_terminal ker a mw k (j - 1)")
  case False
  with assms(2) extend_range_frame [OF assms(1), of j] show ?thesis by blast
next
  case True
  from assms(1) True show ?thesis
  proof (induction ker ef a mw k khi arbitrary: r mw' rule: extend_range.induct)
    case (1 ker ef a mw k khi)
    from "1.prems"(2) have kj: "k \<le> j - 1"
      using range_terminal_empty [of "j - 1" k ker a mw] by fastforce
    from "1.prems"(1) show ?case
    proof (cases rule: extend_range_cases)
      case past
      then show ?thesis by simp
    next
      case null
      from "1.prems"(2) have "ef \<and> range_terminal ker a mw (k + 1) (j - 1)"
        by (simp add: range_terminal_null [OF null(2)])
      from "1.IH"(1) [OF null(1,2,3) this] show ?thesis .
    next
      case (stop e)
      with kj show ?thesis by simp
    next
      case (step e)
      let ?mw = "mw\<lparr>offsets := (offsets mw)(k := e)\<rparr>"
      from step(3,4) "1.prems"(2) have "\<not> range_terminal ker a mw k k"
        by (simp add: range_terminal_single)
      with "1.prems"(2) range_terminal_first [of k "j - 1" ker a mw] kj
      have "range_terminal ker a mw (k + 1) (j - 1)" by simp
      moreover
      have "range_terminal ker a ?mw (k + 1) (j - 1) = range_terminal ker a mw (k + 1) (j - 1)"
        by (rule range_terminal_cong) simp
      ultimately have "ef \<and> range_terminal ker a ?mw (k + 1) (j - 1)"
        using "1.prems"(2) by simp
      from "1.IH"(2) [OF step(1,2,3,4,5) this] kj show ?thesis by simp
    qed
  qed
qed

lemma extend_range_first_terminal:
  assumes "extend_range ker ef a mw k khi = Some (True, mw')"
  shows "first_terminal ker a mw k khi (k_alignment_end mw')"
  using assms
proof (induction ker ef a mw k khi arbitrary: mw' rule: extend_range.induct)
  case (1 ker ef a mw k khi)
  from "1.prems" show ?case
  proof (cases rule: extend_range_cases)
    case null
    from "1.IH"(1) [OF null] show ?thesis
      by (simp add: first_terminal_def range_terminal_null [OF null(2)])
  next
    case (stop e)
    then show ?thesis
      by (simp add: first_terminal_def range_terminal_single range_terminal_empty)
  next
    case (step e)
    let ?mw = "mw\<lparr>offsets := (offsets mw)(k := e)\<rparr>"
    let ?j = "k_alignment_end mw'"
    from "1.IH"(2) [OF step] have ft: "first_terminal ker a ?mw (k + 1) khi ?j" .
    then have kj: "k + 1 \<le> ?j" "?j \<le> khi" by (simp_all add: first_terminal_def)
    have c1: "range_terminal ker a ?mw ?j ?j = range_terminal ker a mw ?j ?j"
      by (rule range_terminal_cong) (use kj in simp)
    have c2: "range_terminal ker a ?mw (k + 1) (?j - 1) = range_terminal ker a mw (k + 1) (?j - 1)"
      by (rule range_terminal_cong) simp
    from extend_range_k_alignment_end [OF step(5)] have ef by simp
    with step(3,4) have "\<not> range_terminal ker a mw k k"
      by (simp add: range_terminal_single)
    with range_terminal_first [of k "?j - 1" ker a mw] kj ft c1 c2
    show ?thesis by (simp add: first_terminal_def)
  qed simp
qed

text \<open>Sub-ranges of which no two share a diagonal.\<close>

lemma in_range_Cons:
  assumes "\<And>j. length (filter (in_range j) (c # rs)) \<le> 1"
  shows "length (filter (in_range j) rs) \<le> 1"
    and "in_range j c \<Longrightarrow> c' \<in> set rs \<Longrightarrow> \<not> in_range j c'"
proof -
  show "length (filter (in_range j) rs) \<le> 1"
    using assms [of j] by (simp split: if_splits)
  show "\<not> in_range j c'" if "in_range j c" "c' \<in> set rs"
  proof
    assume "in_range j c'"
    with that(2) have "filter (in_range j) rs \<noteq> []"
      by (auto simp: filter_empty_conv)
    then have "1 \<le> length (filter (in_range j) rs)"
      by (cases "filter (in_range j) rs") simp_all
    with assms [of j] that(1) show False by simp
  qed
qed

lemma chunk_transfer:
  assumes "extend_range ker ef a mw t_lo t_hi = Some (r1, mw1)"
    and "\<forall>j. in_range j c \<longrightarrow> j < t_lo \<or> t_hi < j"
  shows "in_range j c \<Longrightarrow> offsets mw1 j = offsets mw j"
    and "in_range j c \<Longrightarrow>
         range_terminal ker a mw1 (fst c) (j - 1) = range_terminal ker a mw (fst c) (j - 1)"
    and "range_terminal ker a mw1 (fst c) (snd c) = range_terminal ker a mw (fst c) (snd c)"
    and "first_terminal ker a mw1 (fst c) (snd c) k = first_terminal ker a mw (fst c) (snd c) k"
proof -
  have eq: "offsets mw1 i = offsets mw i" if "fst c \<le> i" "i \<le> snd c" for i
  proof -
    from that assms(2) have "i < t_lo \<or> t_hi < i"
      by (auto simp: in_range_def)
    then show ?thesis by (intro extend_range_frame [OF assms(1)]) auto
  qed
  show "offsets mw1 j = offsets mw j" if "in_range j c"
    using that eq [of j] by (simp add: in_range_def)
  show "range_terminal ker a mw1 (fst c) (j - 1) = range_terminal ker a mw (fst c) (j - 1)"
    if "in_range j c"
    by (rule range_terminal_cong) (use that eq in \<open>simp add: in_range_def\<close>)
  show rt: "range_terminal ker a mw1 (fst c) (snd c) = range_terminal ker a mw (fst c) (snd c)"
    by (rule range_terminal_cong) (use eq in simp)
  show "first_terminal ker a mw1 (fst c) (snd c) k = first_terminal ker a mw (fst c) (snd c) k"
  proof (cases "fst c \<le> k \<and> k \<le> snd c")
    case True
    have "range_terminal ker a mw1 k k = range_terminal ker a mw k k"
      by (rule range_terminal_cong) (use True eq in simp)
    moreover
    have "range_terminal ker a mw1 (fst c) (k - 1) = range_terminal ker a mw (fst c) (k - 1)"
      by (rule range_terminal_cong) (use True eq in simp)
    ultimately show ?thesis by (simp add: first_terminal_def)
  next
    case False
    then show ?thesis by (auto simp: first_terminal_def)
  qed
qed

lemma parallel_range_split:
  assumes "parallel_range ker ef a mw r0 ((t_lo, t_hi) # rs) = Some (r, mw')"
  obtains r1 mw1 where "extend_range ker ef a mw t_lo t_hi = Some (r1, mw1)"
    and "parallel_range ker ef a mw1 (if r1 then True else r0) rs = Some (r, mw')"
  using assms by (auto split: option.splits)

lemma parallel_range_reached:
  assumes "parallel_range ker ef a mw r0 rs = Some (r, mw')"
    and "\<And>j. length (filter (in_range j) rs) \<le> 1"
    and "c \<in> set rs" "in_range j c"
    and "\<not> (ef \<and> range_terminal ker a mw (fst c) (j - 1))"
    and "offsets mw j \<noteq> WAVEFRONT_OFFSET_NULL"
  shows "ker j (offsets mw j) = Some (offsets mw' j)"
  using assms
proof (induction rs arbitrary: mw r0)
  case Nil
  then show ?case by simp
next
  case (Cons d rs)
  obtain t_lo t_hi where d: "d = (t_lo, t_hi)" by (cases d)
  from Cons.prems(1) [unfolded d] obtain r1 mw1 where
    chunk: "extend_range ker ef a mw t_lo t_hi = Some (r1, mw1)"
    and rest: "parallel_range ker ef a mw1 (if r1 then True else r0) rs = Some (r, mw')"
    by (rule parallel_range_split)
  note dj = in_range_Cons [OF Cons.prems(2)]
  show ?case
  proof (cases "in_range j d")
    case True
    then have jd: "t_lo \<le> j" "j \<le> t_hi" by (simp_all add: d in_range_def)
    have cd: "c = d"
    proof (rule ccontr)
      assume "c \<noteq> d"
      with Cons.prems(3) have "c \<in> set rs" by simp
      from dj(2) [OF True this] Cons.prems(4) show False by simp
    qed
    with Cons.prems(5) have "\<not> (ef \<and> range_terminal ker a mw t_lo (j - 1))"
      by (simp add: d)
    from extend_range_reached [OF chunk jd this Cons.prems(6)]
    have "ker j (offsets mw j) = Some (offsets mw1 j)" .
    moreover have "offsets mw' j = offsets mw1 j"
    proof -
      have "\<forall>c'\<in>set rs. \<not> in_range j c'"
        using dj(2) [OF True] by blast
      with rest show ?thesis
      proof (induction rs arbitrary: mw1 r1 r0)
        case Nil
        then show ?case by simp
      next
        case (Cons e rs)
        obtain u_lo u_hi where e: "e = (u_lo, u_hi)" by (cases e)
        from Cons.prems(1) [unfolded e] obtain r2 mw2 where
          chunk2: "extend_range ker ef a mw1 u_lo u_hi = Some (r2, mw2)"
          and rest2: "parallel_range ker ef a mw2 (if r2 then True else (if r1 then True else r0)) rs
                      = Some (r, mw')"
          by (rule parallel_range_split)
        from Cons.prems(2) have "j < u_lo \<or> u_hi < j"
          by (auto simp: e in_range_def)
        then have "offsets mw2 j = offsets mw1 j"
          by (intro extend_range_frame [OF chunk2]) auto
        moreover have "offsets mw' j = offsets mw2 j"
          using Cons.IH [of mw2 "r2 \<or> r1" r0] rest2 Cons.prems(2)
          by (cases r2; cases r1) auto
        ultimately show ?case by simp
      qed
    qed
    ultimately show ?thesis by simp
  next
    case False
    with Cons.prems(3,4) have crs: "c \<in> set rs" by auto
    have sep: "\<forall>i. in_range i c \<longrightarrow> i < t_lo \<or> t_hi < i"
    proof (intro allI impI, rule ccontr)
      fix i
      assume i: "in_range i c" and "\<not> (i < t_lo \<or> t_hi < i)"
      then have "in_range i d" by (simp add: d in_range_def)
      from dj(2) [OF this crs] i show False by simp
    qed
    note tr = chunk_transfer [OF chunk sep]
    from Cons.prems(5,6) tr(1,2) [OF Cons.prems(4)]
    have "ker j (offsets mw1 j) = Some (offsets mw' j)"
      by (intro Cons.IH [OF rest dj(1) crs Cons.prems(4)]) simp_all
    with tr(1) [OF Cons.prems(4)] show ?thesis by simp
  qed
qed

lemma parallel_range_unreached:
  assumes "parallel_range ker ef a mw r0 rs = Some (r, mw')"
    and "\<And>j. length (filter (in_range j) rs) \<le> 1"
    and "(\<forall>c\<in>set rs. in_range j c \<longrightarrow> ef \<and> range_terminal ker a mw (fst c) (j - 1))
         \<or> offsets mw j = WAVEFRONT_OFFSET_NULL"
  shows "offsets mw' j = offsets mw j"
  using assms
proof (induction rs arbitrary: mw r0)
  case Nil
  then show ?case by simp
next
  case (Cons d rs)
  obtain t_lo t_hi where d: "d = (t_lo, t_hi)" by (cases d)
  from Cons.prems(1) [unfolded d] obtain r1 mw1 where
    chunk: "extend_range ker ef a mw t_lo t_hi = Some (r1, mw1)"
    and rest: "parallel_range ker ef a mw1 (if r1 then True else r0) rs = Some (r, mw')"
    by (rule parallel_range_split)
  note dj = in_range_Cons [OF Cons.prems(2)]
  have first: "offsets mw1 j = offsets mw j"
  proof (rule extend_range_unreached [OF chunk])
    from Cons.prems(3)
    show "j < t_lo \<or> t_hi < j \<or> ef \<and> range_terminal ker a mw t_lo (j - 1)
          \<or> offsets mw j = WAVEFRONT_OFFSET_NULL"
      by (auto simp: d in_range_def)
  qed
  have "(\<forall>c\<in>set rs. in_range j c \<longrightarrow> ef \<and> range_terminal ker a mw1 (fst c) (j - 1))
        \<or> offsets mw1 j = WAVEFRONT_OFFSET_NULL"
  proof (cases "offsets mw j = WAVEFRONT_OFFSET_NULL")
    case True
    with first show ?thesis by simp
  next
    case False
    have "ef \<and> range_terminal ker a mw1 (fst c) (j - 1)" if c: "c \<in> set rs" "in_range j c" for c
    proof -
      have sep: "\<forall>i. in_range i c \<longrightarrow> i < t_lo \<or> t_hi < i"
      proof (intro allI impI, rule ccontr)
        fix i
        assume i: "in_range i c" and "\<not> (i < t_lo \<or> t_hi < i)"
        then have "in_range i d" by (simp add: d in_range_def)
        from dj(2) [OF this c(1)] i show False by simp
      qed
      from Cons.prems(3) False c have "ef \<and> range_terminal ker a mw (fst c) (j - 1)"
        by auto
      with chunk_transfer(2) [OF chunk sep c(2)] show ?thesis by simp
    qed
    then show ?thesis by blast
  qed
  from Cons.IH [OF rest dj(1) this] first show ?case by simp
qed

lemma first_terminal_range:
  "first_terminal ker a mw k khi j \<Longrightarrow> range_terminal ker a mw k khi"
  unfolding first_terminal_def
  using range_terminal_mono [of ker a mw j j k khi] by simp

lemma parallel_range_chunks:
  assumes "parallel_range ker ef a mw r0 rs = Some (r, mw')"
    and "\<And>j. length (filter (in_range j) rs) \<le> 1"
  shows "(r \<longleftrightarrow> r0 \<or> ef \<and> (\<exists>c\<in>set rs. range_terminal ker a mw (fst c) (snd c)))
    \<and> (k_alignment_end mw' = k_alignment_end mw
         \<or> ef \<and> (\<exists>c\<in>set rs. first_terminal ker a mw (fst c) (snd c) (k_alignment_end mw')))
    \<and> (ef \<and> (\<exists>c\<in>set rs. range_terminal ker a mw (fst c) (snd c))
         \<longrightarrow> (\<exists>c\<in>set rs. first_terminal ker a mw (fst c) (snd c) (k_alignment_end mw')))"
  using assms
proof (induction rs arbitrary: mw r0)
  case Nil
  then show ?case by simp
next
  case (Cons d rs)
  obtain t_lo t_hi where d: "d = (t_lo, t_hi)" by (cases d)
  from Cons.prems(1) [unfolded d] obtain r1 mw1 where
    chunk: "extend_range ker ef a mw t_lo t_hi = Some (r1, mw1)"
    and rest: "parallel_range ker ef a mw1 (if r1 then True else r0) rs = Some (r, mw')"
    by (rule parallel_range_split)
  note dj = in_range_Cons [OF Cons.prems(2)]
  have sep: "\<forall>i. in_range i c \<longrightarrow> i < t_lo \<or> t_hi < i" if c: "c \<in> set rs" for c
  proof (intro allI impI, rule ccontr)
    fix i
    assume i: "in_range i c" and "\<not> (i < t_lo \<or> t_hi < i)"
    then have "in_range i d" by (simp add: d in_range_def)
    from dj(2) [OF this c] i show False by simp
  qed
  have rt: "range_terminal ker a mw1 (fst c) (snd c) = range_terminal ker a mw (fst c) (snd c)"
    if "c \<in> set rs" for c
    by (rule chunk_transfer(3) [OF chunk sep [OF that]])
  have ft: "first_terminal ker a mw1 (fst c) (snd c) k = first_terminal ker a mw (fst c) (snd c) k"
    if "c \<in> set rs" for c k
    by (rule chunk_transfer(4) [OF chunk sep [OF that]])
  note ih = Cons.IH [OF rest dj(1)]
  note v1 = extend_range_verdict [OF chunk]
  note k1 = extend_range_k_alignment_end [OF chunk]
  have f1: "first_terminal ker a mw t_lo t_hi (k_alignment_end mw1)" if r1
    using extend_range_first_terminal [of ker ef a mw t_lo t_hi mw1] chunk that by simp
  have verdict: "r \<longleftrightarrow> r0 \<or> ef \<and> (\<exists>c\<in>set (d # rs). range_terminal ker a mw (fst c) (snd c))"
    using ih v1 rt by (auto simp: d)
  have same: "k_alignment_end mw' = k_alignment_end mw
      \<or> ef \<and> (\<exists>c\<in>set (d # rs). first_terminal ker a mw (fst c) (snd c) (k_alignment_end mw'))"
  proof (cases "k_alignment_end mw' = k_alignment_end mw1")
    case True
    show ?thesis
    proof (cases r1)
      case True
      with f1 k1 \<open>k_alignment_end mw' = k_alignment_end mw1\<close> show ?thesis by (simp add: d)
    next
      case False
      with k1 \<open>k_alignment_end mw' = k_alignment_end mw1\<close> show ?thesis by simp
    qed
  next
    case False
    with ih obtain c where "ef" "c \<in> set rs"
      "first_terminal ker a mw1 (fst c) (snd c) (k_alignment_end mw')"
      by blast
    with ft [of c] show ?thesis by auto
  qed
  have some: "\<exists>c\<in>set (d # rs). first_terminal ker a mw (fst c) (snd c) (k_alignment_end mw')"
    if ef and "\<exists>c\<in>set (d # rs). range_terminal ker a mw (fst c) (snd c)"
  proof (cases "\<exists>c\<in>set rs. range_terminal ker a mw (fst c) (snd c)")
    case True
    with rt have "\<exists>c\<in>set rs. range_terminal ker a mw1 (fst c) (snd c)" by blast
    with ih \<open>ef\<close> obtain c where "c \<in> set rs"
      "first_terminal ker a mw1 (fst c) (snd c) (k_alignment_end mw')"
      by blast
    with ft [of c] show ?thesis by auto
  next
    case False
    with that(2) have "range_terminal ker a mw t_lo t_hi" by (simp add: d)
    with v1 \<open>ef\<close> have r1 by simp
    have "k_alignment_end mw' = k_alignment_end mw1"
    proof (rule ccontr)
      assume "k_alignment_end mw' \<noteq> k_alignment_end mw1"
      with ih obtain c where c: "c \<in> set rs"
        "first_terminal ker a mw1 (fst c) (snd c) (k_alignment_end mw')"
        by blast
      from first_terminal_range [OF c(2)] rt [OF c(1)] c(1) False show False by blast
    qed
    with f1 [OF \<open>r1\<close>] show ?thesis by (simp add: d)
  qed
  from verdict same some show ?case by blast
qed

text \<open>Sub-ranges that cover a range.\<close>

lemma covers_in:
  assumes "covers klo khi rs" and "klo \<le> j" "j \<le> khi"
  shows "length (filter (in_range j) rs) = 1" and "\<exists>c\<in>set rs. in_range j c"
proof -
  from assms show one: "length (filter (in_range j) rs) = 1"
    by (auto simp: covers_def list_all_iff)
  then have "filter (in_range j) rs \<noteq> []" by auto
  then show "\<exists>c\<in>set rs. in_range j c"
    by (auto simp: filter_empty_conv)
qed

lemma covers_inside:
  assumes "covers klo khi rs" and "c \<in> set rs" and "in_range j c"
  shows "klo \<le> j \<and> j \<le> khi"
  using assms by (cases c) (auto simp: covers_def list_all_iff in_range_def)

lemma covers_disjoint:
  assumes "covers klo khi rs"
  shows "length (filter (in_range j) rs) \<le> 1"
proof (cases "klo \<le> j \<and> j \<le> khi")
  case True
  with covers_in(1) [OF assms, of j] show ?thesis by simp
next
  case False
  with covers_inside [OF assms, of _ j] have "filter (in_range j) rs = []"
    by (auto simp: filter_empty_conv)
  then show ?thesis by simp
qed

lemma covers_range_terminal:
  assumes "covers klo khi rs"
  shows "(\<exists>c\<in>set rs. range_terminal ker a mw (fst c) (snd c))
         \<longleftrightarrow> range_terminal ker a mw klo khi"
proof
  assume "\<exists>c\<in>set rs. range_terminal ker a mw (fst c) (snd c)"
  then obtain c j where c: "c \<in> set rs" and j: "fst c \<le> j" "j \<le> snd c"
    and t: "offsets mw j \<noteq> WAVEFRONT_OFFSET_NULL
      \<and> (case ker j (offsets mw j) of None \<Rightarrow> False | Some e \<Rightarrow> endsfree_terminal a e j)"
    by (auto simp: range_terminal_def)
  from covers_inside [OF assms c, of j] j have "j \<in> {klo..khi}"
    by (simp add: in_range_def)
  with t show "range_terminal ker a mw klo khi"
    unfolding range_terminal_def by blast
next
  assume "range_terminal ker a mw klo khi"
  then obtain j where j: "klo \<le> j" "j \<le> khi"
    and t: "offsets mw j \<noteq> WAVEFRONT_OFFSET_NULL
      \<and> (case ker j (offsets mw j) of None \<Rightarrow> False | Some e \<Rightarrow> endsfree_terminal a e j)"
    by (auto simp: range_terminal_def)
  from covers_in(2) [OF assms j] obtain c where c: "c \<in> set rs" "in_range j c" by blast
  then have "j \<in> {fst c..snd c}" by (simp add: in_range_def)
  with t have "range_terminal ker a mw (fst c) (snd c)"
    unfolding range_terminal_def by blast
  with c(1) show "\<exists>c\<in>set rs. range_terminal ker a mw (fst c) (snd c)" by blast
qed

lemma parallel_range_verdict:
  assumes "covers klo khi rs"
    and "parallel_range ker ef a mw r0 rs = Some (r, mw')"
  shows "r \<longleftrightarrow> r0 \<or> ef \<and> range_terminal ker a mw klo khi"
  using parallel_range_chunks [OF assms(2) covers_disjoint [OF assms(1)]]
    covers_range_terminal [OF assms(1), of ker a mw]
  by simp

lemma parallel_range_extended:
  assumes "covers klo khi rs"
    and "parallel_range ker ef a mw r0 rs = Some (r, mw')"
    and "klo \<le> j" "j \<le> khi" "offsets mw j \<noteq> WAVEFRONT_OFFSET_NULL"
    and "\<not> (ef \<and> range_terminal ker a mw klo (j - 1))"
  shows "ker j (offsets mw j) = Some (offsets mw' j)"
proof -
  from covers_in(2) [OF assms(1,3,4)] obtain c where c: "c \<in> set rs" "in_range j c" by blast
  from covers_inside [OF assms(1) c(1), of "fst c"] c(2) have "klo \<le> fst c"
    by (simp add: in_range_def)
  with assms(6) range_terminal_mono [of ker a mw "fst c" "j - 1" klo "j - 1"]
  have "\<not> (ef \<and> range_terminal ker a mw (fst c) (j - 1))" by auto
  from parallel_range_reached [OF assms(2) covers_disjoint [OF assms(1)] c this assms(5)]
  show ?thesis .
qed

lemma parallel_range_outside:
  assumes "covers klo khi rs"
    and "parallel_range ker ef a mw r0 rs = Some (r, mw')"
    and "j < klo \<or> khi < j \<or> offsets mw j = WAVEFRONT_OFFSET_NULL"
  shows "offsets mw' j = offsets mw j"
proof (rule parallel_range_unreached [OF assms(2) covers_disjoint [OF assms(1)]])
  have "\<not> in_range j c" if "c \<in> set rs" "j < klo \<or> khi < j" for c
    using covers_inside [OF assms(1) that(1), of j] that(2) by auto
  with assms(3)
  show "(\<forall>c\<in>set rs. in_range j c \<longrightarrow> ef \<and> range_terminal ker a mw (fst c) (j - 1))
        \<or> offsets mw j = WAVEFRONT_OFFSET_NULL"
    by blast
qed

lemma parallel_range_not_terminal:
  assumes "covers klo khi rs"
    and "parallel_range ker ef a mw r0 rs = Some (False, mw')"
  shows "mw' = mw\<lparr>offsets := extended_offsets ker mw klo khi\<rparr>"
proof (rule wavefront_eqI)
  from parallel_range_k_alignment_end [OF assms(2)]
  show "lo mw' = lo (mw\<lparr>offsets := extended_offsets ker mw klo khi\<rparr>)"
    and "hi mw' = hi (mw\<lparr>offsets := extended_offsets ker mw klo khi\<rparr>)"
    and "k_alignment_end mw' = k_alignment_end (mw\<lparr>offsets := extended_offsets ker mw klo khi\<rparr>)"
    by simp_all
  from parallel_range_verdict [OF assms] have nt: "\<not> (ef \<and> range_terminal ker a mw klo khi)"
    by simp
  fix j
  show "offsets mw' j = offsets (mw\<lparr>offsets := extended_offsets ker mw klo khi\<rparr>) j"
  proof (cases "klo \<le> j \<and> j \<le> khi \<and> offsets mw j \<noteq> WAVEFRONT_OFFSET_NULL")
    case True
    from nt range_terminal_mono [of ker a mw klo "j - 1" klo khi] True
    have "\<not> (ef \<and> range_terminal ker a mw klo (j - 1))" by auto
    with parallel_range_extended [OF assms, of j] True
    have "ker j (offsets mw j) = Some (offsets mw' j)" by simp
    with True show ?thesis by (simp add: extended_offsets_def)
  next
    case False
    with parallel_range_outside [OF assms, of j] show ?thesis
      by (auto simp: extended_offsets_def)
  qed
qed


lemma extend_range_total:
  assumes "\<And>j. k \<le> j \<Longrightarrow> j \<le> khi \<Longrightarrow> offsets mw j \<noteq> WAVEFRONT_OFFSET_NULL \<Longrightarrow>
             ker j (offsets mw j) \<noteq> None"
  shows "\<exists>r mw'. extend_range ker ef a mw k khi = Some (r, mw')"
  using assms
proof (induction ker ef a mw k khi rule: extend_range.induct)
  case (1 ker ef a mw k khi)
  note unfold = extend_range.simps [of ker ef a mw k khi]
  show ?case
  proof (cases "k \<le> khi")
    case False
    then show ?thesis unfolding unfold by auto
  next
    case True
    show ?thesis
    proof (cases "offsets mw k = WAVEFRONT_OFFSET_NULL")
      case null: True
      have "\<exists>r mw'. extend_range ker ef a mw (k + 1) khi = Some (r, mw')"
        by (rule "1.IH"(1) [OF True null]) (simp add: "1.prems")
      with True null show ?thesis unfolding unfold by auto
    next
      case nonnull: False
      with True "1.prems" [of k] obtain e where e: "ker k (offsets mw k) = Some e"
        by auto
      show ?thesis
      proof (cases "ef \<and> endsfree_terminal a e k")
        case True
        with \<open>k \<le> khi\<close> nonnull e show ?thesis unfolding unfold by auto
      next
        case False
        have "\<exists>r mw'. extend_range ker ef a (mw\<lparr>offsets := (offsets mw)(k := e)\<rparr>) (k + 1) khi
                = Some (r, mw')"
          by (rule "1.IH"(2) [OF True nonnull e False]) (simp add: "1.prems")
        with True nonnull e False show ?thesis unfolding unfold by auto
      qed
    qed
  qed
qed


lemma parallel_range_total_disjoint:
  assumes "\<And>j. length (filter (in_range j) rs) \<le> 1"
    and "\<And>c j. c \<in> set rs \<Longrightarrow> in_range j c \<Longrightarrow> offsets mw j \<noteq> WAVEFRONT_OFFSET_NULL \<Longrightarrow>
           ker j (offsets mw j) \<noteq> None"
  shows "\<exists>r mw'. parallel_range ker ef a mw r0 rs = Some (r, mw')"
  using assms
proof (induction rs arbitrary: mw r0)
  case Nil
  then show ?case by simp
next
  case (Cons d rs)
  obtain t_lo t_hi where d: "d = (t_lo, t_hi)" by (cases d)
  note dj = in_range_Cons [OF Cons.prems(1)]
  have "\<exists>r mw'. extend_range ker ef a mw t_lo t_hi = Some (r, mw')"
  proof (rule extend_range_total)
    fix j
    assume "t_lo \<le> j" "j \<le> t_hi" "offsets mw j \<noteq> WAVEFRONT_OFFSET_NULL"
    with Cons.prems(2) [of d j] show "ker j (offsets mw j) \<noteq> None"
      by (simp add: d in_range_def)
  qed
  then obtain r1 mw1 where chunk: "extend_range ker ef a mw t_lo t_hi = Some (r1, mw1)"
    by blast
  have "\<exists>r mw'. parallel_range ker ef a mw1 (if r1 then True else r0) rs = Some (r, mw')"
  proof (rule Cons.IH [OF dj(1)])
    fix c j
    assume c: "c \<in> set rs" "in_range j c" "offsets mw1 j \<noteq> WAVEFRONT_OFFSET_NULL"
    have sep: "\<forall>i. in_range i c \<longrightarrow> i < t_lo \<or> t_hi < i"
    proof (intro allI impI, rule ccontr)
      fix i
      assume i: "in_range i c" and "\<not> (i < t_lo \<or> t_hi < i)"
      then have "in_range i d" by (simp add: d in_range_def)
      from dj(2) [OF this c(1)] i show False by simp
    qed
    from chunk_transfer(1) [OF chunk sep c(2)] c Cons.prems(2) [of c j]
    show "ker j (offsets mw1 j) \<noteq> None" by simp
  qed
  with chunk show ?case by (simp add: d)
qed

lemma parallel_range_total:
  assumes "covers klo khi rs"
    and "\<And>j. klo \<le> j \<Longrightarrow> j \<le> khi \<Longrightarrow> offsets mw j \<noteq> WAVEFRONT_OFFSET_NULL \<Longrightarrow>
           ker j (offsets mw j) \<noteq> None"
  shows "\<exists>r mw'. parallel_range ker ef a mw r0 rs = Some (r, mw')"
proof (rule parallel_range_total_disjoint)
  show "length (filter (in_range j) rs) \<le> 1" for j
    by (rule covers_disjoint [OF assms(1)])
  show "ker j (offsets mw j) \<noteq> None"
    if "c \<in> set rs" "in_range j c" "offsets mw j \<noteq> WAVEFRONT_OFFSET_NULL" for c j
    using covers_inside [OF assms(1) that(1,2)] that(3) assms(2) [of j] by simp
qed

lemma extend_range_extended:
  assumes "extend_range ker ef a mw k khi = Some (False, mw')"
    and "k \<le> j" "j \<le> khi" "offsets mw j \<noteq> WAVEFRONT_OFFSET_NULL"
  shows "ker j (offsets mw j) = Some (offsets mw' j)"
proof -
  from extend_range_verdict [OF assms(1)] have "\<not> (ef \<and> range_terminal ker a mw k khi)"
    by simp
  with range_terminal_mono [of ker a mw k "j - 1" k khi] assms(3)
  have "\<not> (ef \<and> range_terminal ker a mw k (j - 1))" by auto
  from extend_range_reached [OF assms(1,2,3) this assms(4)] show ?thesis .
qed

lemma parallel_range_no_check_eq:
  assumes "covers klo khi rs"
  shows "parallel_range ker False a mw False rs = extend_range ker False a mw klo khi"
proof (cases "\<forall>j. klo \<le> j \<and> j \<le> khi \<and> offsets mw j \<noteq> WAVEFRONT_OFFSET_NULL
                 \<longrightarrow> ker j (offsets mw j) \<noteq> None")
  case True
  from extend_range_total [of klo khi mw ker False a] True
  obtain r1 mw1 where one: "extend_range ker False a mw klo khi = Some (r1, mw1)" by blast
  from parallel_range_total [OF assms, of mw ker False a False] True
  obtain rN mwN where many: "parallel_range ker False a mw False rs = Some (rN, mwN)" by blast
  from extend_range_verdict [OF one] have r1: "\<not> r1" by simp
  from parallel_range_verdict [OF assms many] have rN: "\<not> rN" by simp
  from one r1 have "mw1 = mw\<lparr>offsets := extended_offsets ker mw klo khi\<rparr>"
    by (simp add: extend_range_not_terminal)
  moreover from many rN have "mwN = mw\<lparr>offsets := extended_offsets ker mw klo khi\<rparr>"
    by (simp add: parallel_range_not_terminal [OF assms])
  ultimately show ?thesis using one many r1 rN by simp
next
  case False
  then obtain j where j: "klo \<le> j" "j \<le> khi" "offsets mw j \<noteq> WAVEFRONT_OFFSET_NULL"
    "ker j (offsets mw j) = None"
    by blast
  have "extend_range ker False a mw klo khi = None"
  proof (rule ccontr)
    assume "extend_range ker False a mw klo khi \<noteq> None"
    then obtain r1 mw1 where one: "extend_range ker False a mw klo khi = Some (r1, mw1)"
      by auto
    from extend_range_reached [OF one j(1,2) _ j(3)] j(4) show False by simp
  qed
  moreover have "parallel_range ker False a mw False rs = None"
  proof (rule ccontr)
    assume "parallel_range ker False a mw False rs \<noteq> None"
    then obtain rN mwN where many: "parallel_range ker False a mw False rs = Some (rN, mwN)"
      by auto
    from parallel_range_extended [OF assms many j(1,2,3)] j(4) show False by simp
  qed
  ultimately show ?thesis by simp
qed


lemma dispatch_total:
  assumes "wavefront_compute_num_threads ext a (lo mw) (hi mw) = 1
         \<or> WFA_PARALLEL ext
           \<and> covers (lo mw) (hi mw)
                (thread_ranges ext (wavefront_compute_num_threads ext a (lo mw) (hi mw))
                   (lo mw) (hi mw))"
  shows "(\<forall>k. lo mw \<le> k \<and> k \<le> hi mw \<and> offsets mw k \<noteq> WAVEFRONT_OFFSET_NULL \<longrightarrow>
            wavefront_extend_matches_packed_kernel a k (offsets mw k) \<noteq> None)
         \<Longrightarrow> endsfree_dispatch ext a mw score \<noteq> None"
    and "(\<forall>k. lo mw \<le> k \<and> k \<le> hi mw \<and> offsets mw k \<noteq> WAVEFRONT_OFFSET_NULL \<longrightarrow>
            custom_kernel a k (offsets mw k) \<noteq> None)
         \<Longrightarrow> custom_dispatch ext a mw score ef \<noteq> None"
proof -
  let ?n = "wavefront_compute_num_threads ext a (lo mw) (hi mw)"
  have *: "(if ?n = 1 then extend_range ker ef a mw (lo mw) (hi mw)
            else if WFA_PARALLEL ext
            then parallel_range ker ef a mw False (thread_ranges ext ?n (lo mw) (hi mw))
            else Some (False, mw)) \<noteq> None"
    if "\<forall>k. lo mw \<le> k \<and> k \<le> hi mw \<and> offsets mw k \<noteq> WAVEFRONT_OFFSET_NULL \<longrightarrow>
            ker k (offsets mw k) \<noteq> None" for ker ef
  proof (cases "?n = 1")
    case True
    with extend_range_total [of "lo mw" "hi mw" mw ker ef a] that show ?thesis by auto
  next
    case False
    with assms have "WFA_PARALLEL ext"
      and "covers (lo mw) (hi mw) (thread_ranges ext ?n (lo mw) (hi mw))"
      by simp_all
    with False parallel_range_total [of "lo mw" "hi mw" _ mw ker ef a False] that
    show ?thesis by auto
  qed
  show "(\<forall>k. lo mw \<le> k \<and> k \<le> hi mw \<and> offsets mw k \<noteq> WAVEFRONT_OFFSET_NULL \<longrightarrow>
            wavefront_extend_matches_packed_kernel a k (offsets mw k) \<noteq> None)
         \<Longrightarrow> endsfree_dispatch ext a mw score \<noteq> None"
    unfolding endsfree_dispatch_def Let_def packed_endsfree_eq parallel_packed_endsfree_eq
    by (rule *)
  show "(\<forall>k. lo mw \<le> k \<and> k \<le> hi mw \<and> offsets mw k \<noteq> WAVEFRONT_OFFSET_NULL \<longrightarrow>
            custom_kernel a k (offsets mw k) \<noteq> None)
         \<Longrightarrow> custom_dispatch ext a mw score ef \<noteq> None"
    unfolding custom_dispatch_def Let_def custom_eq parallel_custom_eq
    by (rule *)
qed

subsection \<open>The dispatchers and the heuristic cut-off\<close>

lemma end2end_check_False:
  "wavefront_extend_end2end_check_termination a mw = (False, mw') \<Longrightarrow> mw' = mw"
  by (auto simp: wavefront_extend_end2end_check_termination_def Let_def split: if_splits)

lemma end2end_dispatch_not_terminal:
  assumes "end2end_dispatch ext a mw score = Some (False, mw')"
  shows "k_alignment_end mw' = k_alignment_end mw"
proof -
  let ?n = "wavefront_compute_num_threads ext a (lo mw) (hi mw)"
  let ?ker = "wavefront_extend_matches_packed_kernel a"
  consider (one) "?n = 1" | (many) "?n \<noteq> 1" "WFA_PARALLEL ext" | (none) "?n \<noteq> 1" "\<not> WFA_PARALLEL ext"
    by blast
  then show ?thesis
  proof cases
    case one
    with assms obtain r mw1 where
      run: "extend_range ?ker False a mw (lo mw) (hi mw) = Some (r, mw1)"
      and chk: "wavefront_extend_end2end_check_termination a mw1 = (False, mw')"
      by (auto simp: end2end_dispatch_def packed_end2end_eq)
    from extend_range_k_alignment_end [OF run] end2end_check_False [OF chk]
    show ?thesis by simp
  next
    case many
    with assms obtain r mw1 where
      run: "parallel_range ?ker False a mw False (thread_ranges ext ?n (lo mw) (hi mw))
            = Some (r, mw1)"
      and chk: "wavefront_extend_end2end_check_termination a mw1 = (False, mw')"
      by (auto simp: end2end_dispatch_def parallel_packed_end2end_eq [where ?r0.0 = False])
    from parallel_range_k_alignment_end [OF run] end2end_check_False [OF chk]
    show ?thesis by auto
  next
    case none
    with assms show ?thesis by (simp add: end2end_dispatch_def)
  qed
qed

lemma endsfree_dispatch_not_terminal:
  assumes "endsfree_dispatch ext a mw score = Some (False, mw')"
  shows "k_alignment_end mw' = k_alignment_end mw"
proof -
  let ?n = "wavefront_compute_num_threads ext a (lo mw) (hi mw)"
  let ?ker = "wavefront_extend_matches_packed_kernel a"
  consider (one) "?n = 1" | (many) "?n \<noteq> 1" "WFA_PARALLEL ext" | (none) "?n \<noteq> 1" "\<not> WFA_PARALLEL ext"
    by blast
  then show ?thesis
  proof cases
    case one
    with assms have "extend_range ?ker True a mw (lo mw) (hi mw) = Some (False, mw')"
      by (simp add: endsfree_dispatch_def packed_endsfree_eq)
    from extend_range_k_alignment_end [OF this] show ?thesis by simp
  next
    case many
    with assms have "parallel_range ?ker True a mw False
        (thread_ranges ext ?n (lo mw) (hi mw)) = Some (False, mw')"
      by (simp add: endsfree_dispatch_def parallel_packed_endsfree_eq)
    from parallel_range_k_alignment_end [OF this] show ?thesis by simp
  next
    case none
    with assms show ?thesis by (simp add: endsfree_dispatch_def)
  qed
qed

lemma custom_dispatch_k_alignment_end:
  assumes "custom_dispatch ext a mw score ef = Some (r, mw')"
  shows "(r \<longrightarrow> ef) \<and> (\<not> r \<longrightarrow> k_alignment_end mw' = k_alignment_end mw)"
proof -
  let ?n = "wavefront_compute_num_threads ext a (lo mw) (hi mw)"
  consider (one) "?n = 1" | (many) "?n \<noteq> 1" "WFA_PARALLEL ext" | (none) "?n \<noteq> 1" "\<not> WFA_PARALLEL ext"
    by blast
  then show ?thesis
  proof cases
    case one
    with assms have "extend_range (custom_kernel a) ef a mw (lo mw) (hi mw) = Some (r, mw')"
      by (simp add: custom_dispatch_def custom_eq)
    from extend_range_k_alignment_end [OF this] show ?thesis .
  next
    case many
    with assms have "parallel_range (custom_kernel a) ef a mw False
        (thread_ranges ext ?n (lo mw) (hi mw)) = Some (r, mw')"
      by (simp add: custom_dispatch_def parallel_custom_eq)
    from parallel_range_k_alignment_end [OF this] show ?thesis by simp
  next
    case none
    with assms show ?thesis by (simp add: custom_dispatch_def)
  qed
qed

lemma store_mwavefront_fields:
  "strategy (heuristic (store_mwavefront a score mw)) = strategy (heuristic a)"
  "mwavefronts (wf_components (store_mwavefront a score mw)) score = Some mw"
  "align_status (store_mwavefront a score mw) = align_status a"
  by (simp_all add: store_mwavefront_def)

text \<open>
  C9. When the extension of a wavefront is not terminal, each of the three functions leaves
  \<open>k_alignment_end\<close> as it was and goes on to the heuristic cut-off: with a strategy
  configured and a cut-off that reports the wavefront dropped it returns true with the
  status "heuristically dropped" set on the aligner the cut-off left (and nothing else
  changed); with a cut-off that reports no drop, or with no strategy, it returns false.
\<close>

theorem heuristic_cutoff_not_terminal:
  assumes "modular_score wf_aligner score0 = Some score"
    and "mwavefronts (wf_components wf_aligner) score = Some mwavefront"
    and "end2end_dispatch ext wf_aligner mwavefront score = Some (False, mwavefront')
           \<and> extend_fn = wavefront_extend_end2end
         \<or> endsfree_dispatch ext wf_aligner mwavefront score = Some (False, mwavefront')
           \<and> extend_fn = wavefront_extend_endsfree
         \<or> (\<exists>r. custom_dispatch ext wf_aligner mwavefront score
                   (span (alignment_form wf_aligner) = alignment_endsfree) = Some r
               \<and> custom_recheck wf_aligner
                   (span (alignment_form wf_aligner) = alignment_endsfree) r
                   = (False, mwavefront'))
           \<and> extend_fn = wavefront_extend_custom"
  shows "k_alignment_end mwavefront' = k_alignment_end mwavefront
    \<and> (strategy (heuristic wf_aligner) \<noteq> wf_heuristic_none
         \<and> wavefront_heuristic_cufoff ext
              (store_mwavefront wf_aligner score mwavefront') score = (True, wf_aligner')
       \<longrightarrow> extend_fn ext wf_aligner score0
             = Some (True, wf_aligner'\<lparr>align_status :=
                 (align_status wf_aligner')\<lparr>status := WF_STATUS_HEURISTICALY_DROPPED\<rparr>\<rparr>))
    \<and> (strategy (heuristic wf_aligner) \<noteq> wf_heuristic_none
         \<and> wavefront_heuristic_cufoff ext
              (store_mwavefront wf_aligner score mwavefront') score = (False, wf_aligner')
       \<longrightarrow> extend_fn ext wf_aligner score0 = Some (False, wf_aligner'))
    \<and> (strategy (heuristic wf_aligner) = wf_heuristic_none
       \<longrightarrow> extend_fn ext wf_aligner score0
             = Some (False, store_mwavefront wf_aligner score mwavefront'))"
proof -
  let ?ef = "span (alignment_form wf_aligner) = alignment_endsfree"
  let ?a = "store_mwavefront wf_aligner score mwavefront'"
  have finish: "extend_finish ext ?a score False
      = (if strategy (heuristic wf_aligner) \<noteq> wf_heuristic_none
         then (case wavefront_heuristic_cufoff ext ?a score of
                 (True, a') \<Rightarrow> (True, set_status a' WF_STATUS_HEURISTICALY_DROPPED)
               | (False, a') \<Rightarrow> (False, a'))
         else (False, ?a))"
    by (simp add: extend_finish_def store_mwavefront_fields)
  from assms(3) consider
    (e2e) "end2end_dispatch ext wf_aligner mwavefront score = Some (False, mwavefront')"
      "extend_fn = wavefront_extend_end2end"
  | (ef) "endsfree_dispatch ext wf_aligner mwavefront score = Some (False, mwavefront')"
      "extend_fn = wavefront_extend_endsfree"
  | (cu) r where "custom_dispatch ext wf_aligner mwavefront score ?ef = Some r"
      "custom_recheck wf_aligner ?ef r = (False, mwavefront')"
      "extend_fn = wavefront_extend_custom"
    by blast
  then have "k_alignment_end mwavefront' = k_alignment_end mwavefront
      \<and> extend_fn ext wf_aligner score0 = Some (extend_finish ext ?a score False)"
  proof cases
    case e2e
    with assms(1,2) end2end_dispatch_not_terminal [OF e2e(1)] show ?thesis
      by (simp add: wavefront_extend_end2end_def)
  next
    case ef
    with assms(1,2) endsfree_dispatch_not_terminal [OF ef(1)] show ?thesis
      by (simp add: wavefront_extend_endsfree_def)
  next
    case cu
    obtain r1 mw1 where r: "r = (r1, mw1)" by (cases r)
    have "k_alignment_end mwavefront' = k_alignment_end mwavefront"
    proof (cases ?ef)
      case True
      with cu(2) r have "r1 = False" "mw1 = mwavefront'"
        by (simp_all add: custom_recheck_def)
      with custom_dispatch_k_alignment_end [OF cu(1) [unfolded r]] show ?thesis by simp
    next
      case False
      with cu(2) r have "mwavefront' = mw1"
        by (auto simp: custom_recheck_def dest: end2end_check_False)
      with custom_dispatch_k_alignment_end [OF cu(1) [unfolded r]] False show ?thesis by auto
    qed
    with assms(1,2) cu show ?thesis
      by (simp add: wavefront_extend_custom_def Let_def)
  qed
  then show ?thesis
    by (auto simp: finish set_status_def)
qed

lemma ex_wavefront_fields:
  "lo ex_wavefront = 0" "hi ex_wavefront = 3" "k_alignment_end ex_wavefront = - 1"
  "offsets ex_wavefront 0 = 0" "offsets ex_wavefront 1 = 3" "offsets ex_wavefront 2 = 6"
  "offsets ex_wavefront 3 = WAVEFRONT_OFFSET_NULL"
  by (simp_all add: ex_wavefront_def)

lemma ex_wavefront0_fields:
  "lo ex_wavefront0 = 0" "hi ex_wavefront0 = 0" "k_alignment_end ex_wavefront0 = - 1"
  "offsets ex_wavefront0 0 = 0"
  by (simp_all add: ex_wavefront0_def)

lemma null_neq:
  "0 \<noteq> WAVEFRONT_OFFSET_NULL" "3 \<noteq> WAVEFRONT_OFFSET_NULL" "6 \<noteq> WAVEFRONT_OFFSET_NULL"
  by (simp_all add: WAVEFRONT_OFFSET_NULL_def)

lemma ex_aligner_heur_fields:
  "memory_modular (wf_components ex_aligner_heur)"
  "max_score_scope (wf_components ex_aligner_heur) = 5"
  "mwavefronts (wf_components ex_aligner_heur) s = (if s = 2 then Some ex_wavefront else None)"
  "strategy (heuristic ex_aligner_heur) = wf_heuristic_other 1"
  "pattern_length ex_aligner_heur = 7" "text_length ex_aligner_heur = 10"
  by (simp_all add: ex_aligner_heur_def ex_aligner_def)

lemma ex_aligner_heur_kernel:
  "wavefront_extend_matches_packed_kernel ex_aligner_heur
   = wavefront_extend_matches_packed_kernel ex_aligner"
proof -
  have "packed_kernel_blocks (a\<lparr>heuristic := s\<rparr>) p t offset = packed_kernel_blocks a p t offset"
    for a s p t offset
  proof (induction a p t offset rule: packed_kernel_blocks.induct)
    case (1 a p t offset)
    show ?case
      apply (subst packed_kernel_blocks.simps)
      apply (subst (2) packed_kernel_blocks.simps)
      using 1 by (auto split: option.splits)
  qed
  then show ?thesis
    by (intro ext) (simp add: wavefront_extend_matches_packed_kernel_def ex_aligner_heur_def)
qed

lemma ex_end2end_all:
  "wavefront_extend_matches_packed_end2end ex_aligner_heur ex_wavefront 2 0 3
   = Some (ex_wavefront\<lparr>offsets := (offsets ex_wavefront)(0 := 7, 1 := 4, 2 := 7)\<rparr>)"
  by (simp add: wavefront_extend_matches_packed_end2end.simps ex_wavefront_fields
      ex_aligner_heur_kernel ex_aligner_kernel null_neq)

lemma ex_end2end_dispatch:
  "end2end_dispatch (ex_externs 1 d) ex_aligner_heur ex_wavefront 2
   = Some (False, ex_wavefront\<lparr>offsets := (offsets ex_wavefront)(0 := 7, 1 := 4, 2 := 7)\<rparr>)"
  by (simp add: end2end_dispatch_def ex_externs_def ex_wavefront_fields ex_end2end_all
      wavefront_extend_end2end_check_termination_def WAVEFRONT_DIAGONAL_def WAVEFRONT_OFFSET_def
      ex_aligner_heur_fields WAVEFRONT_OFFSET_NULL_def)

lemma ex_modular_score:
  "modular_score ex_aligner 2 = Some 2" "modular_score ex_aligner_heur 2 = Some 2"
  "modular_score ex_aligner_e2e 0 = Some 0"
  by (simp_all add: modular_score_def c_rem_def ex_aligner_fields ex_aligner_heur_fields
      ex_aligner_e2e_fields)

theorem heuristic_cutoff_not_terminal_witness:
  "wavefront_extend_end2end (ex_externs 1 True) ex_aligner_heur 2
     = Some (True,
         (store_mwavefront ex_aligner_heur 2
            (ex_wavefront\<lparr>offsets := (offsets ex_wavefront)(0 := 7, 1 := 4, 2 := 7)\<rparr>))
         \<lparr>align_status := \<lparr>status = WF_STATUS_HEURISTICALY_DROPPED\<rparr>\<rparr>)
   \<and> wavefront_extend_end2end (ex_externs 1 False) ex_aligner_heur 2
     = Some (False,
         store_mwavefront ex_aligner_heur 2
           (ex_wavefront\<lparr>offsets := (offsets ex_wavefront)(0 := 7, 1 := 4, 2 := 7)\<rparr>))
   \<and> k_alignment_end (ex_wavefront\<lparr>offsets := (offsets ex_wavefront)(0 := 7, 1 := 4, 2 := 7)\<rparr>)
     = k_alignment_end ex_wavefront"
proof -
  let ?w = "ex_wavefront\<lparr>offsets := (offsets ex_wavefront)(0 := 7, 1 := 4, 2 := 7)\<rparr>"
  have mw: "mwavefronts (wf_components ex_aligner_heur) 2 = Some ex_wavefront"
    by (simp add: ex_aligner_heur_fields)
  have run: "end2end_dispatch (ex_externs 1 d) ex_aligner_heur ex_wavefront 2 = Some (False, ?w)
      \<and> wavefront_extend_end2end = wavefront_extend_end2end
    \<or> endsfree_dispatch (ex_externs 1 d) ex_aligner_heur ex_wavefront 2 = Some (False, ?w)
      \<and> wavefront_extend_end2end = wavefront_extend_endsfree
    \<or> (\<exists>r. custom_dispatch (ex_externs 1 d) ex_aligner_heur ex_wavefront 2
               (span (alignment_form ex_aligner_heur) = alignment_endsfree) = Some r
           \<and> custom_recheck ex_aligner_heur
               (span (alignment_form ex_aligner_heur) = alignment_endsfree) r = (False, ?w))
      \<and> wavefront_extend_end2end = wavefront_extend_custom" for d
    by (simp add: ex_end2end_dispatch)
  have hook: "wavefront_heuristic_cufoff (ex_externs 1 d) a s = (d, a)" for d a s
    by (simp add: ex_externs_def)
  from heuristic_cutoff_not_terminal [OF ex_modular_score(2) mw run [of True],
      of "store_mwavefront ex_aligner_heur 2 ?w"]
    heuristic_cutoff_not_terminal [OF ex_modular_score(2) mw run [of False],
      of "store_mwavefront ex_aligner_heur 2 ?w"]
  show ?thesis
    by (simp add: hook ex_aligner_heur_fields store_mwavefront_fields)
qed

subsection \<open>The custom function when the form is not ends-free\<close>

lemma custom_dispatch_extended:
  assumes "custom_dispatch ext a mw score False = Some (r, mw')"
    and "wavefront_compute_num_threads ext a (lo mw) (hi mw) = 1
         \<or> WFA_PARALLEL ext
           \<and> covers (lo mw) (hi mw)
                (thread_ranges ext (wavefront_compute_num_threads ext a (lo mw) (hi mw))
                   (lo mw) (hi mw))"
  shows "extend_range (custom_kernel a) False a mw (lo mw) (hi mw) = Some (False, mw')"
proof -
  let ?n = "wavefront_compute_num_threads ext a (lo mw) (hi mw)"
  from custom_dispatch_k_alignment_end [OF assms(1)] have r: "\<not> r" by simp
  show ?thesis
  proof (cases "?n = 1")
    case True
    with assms(1) r show ?thesis
      by (simp add: custom_dispatch_def custom_eq)
  next
    case False
    with assms(2) have par: "WFA_PARALLEL ext"
      and cov: "covers (lo mw) (hi mw) (thread_ranges ext ?n (lo mw) (hi mw))"
      by simp_all
    from assms(1) False par r
    have "parallel_range (custom_kernel a) False a mw False
            (thread_ranges ext ?n (lo mw) (hi mw)) = Some (False, mw')"
      by (simp add: custom_dispatch_def parallel_custom_eq)
    then show ?thesis
      by (simp add: parallel_range_no_check_eq [OF cov])
  qed
qed


lemma custom_not_endsfree_run:
  assumes "span (alignment_form wf_aligner) \<noteq> alignment_endsfree"
    and "modular_score wf_aligner score0 = Some score"
    and "mwavefronts (wf_components wf_aligner) score = Some mwavefront"
    and "custom_dispatch ext wf_aligner mwavefront score False = Some (r, mwavefront')"
  shows "\<not> r" and "k_alignment_end mwavefront' = k_alignment_end mwavefront"
    and "wavefront_extend_custom ext wf_aligner score0
        = Some (extend_finish ext
            (store_mwavefront wf_aligner score
               (snd (wavefront_extend_end2end_check_termination wf_aligner mwavefront')))
            score (fst (wavefront_extend_end2end_check_termination wf_aligner mwavefront')))"
    and "wavefront_compute_num_threads ext wf_aligner (lo mwavefront) (hi mwavefront) = 1
         \<or> WFA_PARALLEL ext
           \<and> covers (lo mwavefront) (hi mwavefront)
                (thread_ranges ext
                   (wavefront_compute_num_threads ext wf_aligner (lo mwavefront) (hi mwavefront))
                   (lo mwavefront) (hi mwavefront))
       \<longrightarrow> (\<forall>k. lo mwavefront \<le> k \<and> k \<le> hi mwavefront
                 \<and> offsets mwavefront k \<noteq> WAVEFRONT_OFFSET_NULL \<longrightarrow>
               custom_match_loop (match_funct wf_aligner)
                 (WAVEFRONT_V k (offsets mwavefront k)) (WAVEFRONT_H k (offsets mwavefront k))
                 (offsets mwavefront k)
               = Some (offsets mwavefront' k))"
    and "\<forall>mw klo khi r' mw'.
          wavefront_extend_matches_custom wf_aligner mw score klo khi False = Some (r', mw')
          \<longrightarrow> \<not> r' \<and> k_alignment_end mw' = k_alignment_end mw"
proof -
  let ?chk = "wavefront_extend_end2end_check_termination wf_aligner mwavefront'"
  from custom_dispatch_k_alignment_end [OF assms(4)]
  show "\<not> r" and "k_alignment_end mwavefront' = k_alignment_end mwavefront"
    by simp_all
  show "wavefront_extend_custom ext wf_aligner score0
      = Some (extend_finish ext (store_mwavefront wf_aligner score (snd ?chk)) score (fst ?chk))"
    using assms by (simp add: wavefront_extend_custom_def custom_recheck_def split: prod.splits)
  show "wavefront_compute_num_threads ext wf_aligner (lo mwavefront) (hi mwavefront) = 1
         \<or> WFA_PARALLEL ext
           \<and> covers (lo mwavefront) (hi mwavefront)
                (thread_ranges ext
                   (wavefront_compute_num_threads ext wf_aligner (lo mwavefront) (hi mwavefront))
                   (lo mwavefront) (hi mwavefront))
       \<longrightarrow> (\<forall>k. lo mwavefront \<le> k \<and> k \<le> hi mwavefront
                 \<and> offsets mwavefront k \<noteq> WAVEFRONT_OFFSET_NULL \<longrightarrow>
               custom_match_loop (match_funct wf_aligner)
                 (WAVEFRONT_V k (offsets mwavefront k)) (WAVEFRONT_H k (offsets mwavefront k))
                 (offsets mwavefront k)
               = Some (offsets mwavefront' k))"
  proof (intro impI allI)
    fix k
    assume w: "wavefront_compute_num_threads ext wf_aligner (lo mwavefront) (hi mwavefront) = 1
         \<or> WFA_PARALLEL ext
           \<and> covers (lo mwavefront) (hi mwavefront)
                (thread_ranges ext
                   (wavefront_compute_num_threads ext wf_aligner (lo mwavefront) (hi mwavefront))
                   (lo mwavefront) (hi mwavefront))"
      and k: "lo mwavefront \<le> k \<and> k \<le> hi mwavefront
                 \<and> offsets mwavefront k \<noteq> WAVEFRONT_OFFSET_NULL"
    from extend_range_extended [OF custom_dispatch_extended [OF assms(4) w], of k] k
    show "custom_match_loop (match_funct wf_aligner)
            (WAVEFRONT_V k (offsets mwavefront k)) (WAVEFRONT_H k (offsets mwavefront k))
            (offsets mwavefront k)
          = Some (offsets mwavefront' k)"
      by (simp add: custom_kernel_def)
  qed
  show "\<forall>mw klo khi r' mw'.
          wavefront_extend_matches_custom wf_aligner mw score klo khi False = Some (r', mw')
          \<longrightarrow> \<not> r' \<and> k_alignment_end mw' = k_alignment_end mw"
    using extend_range_k_alignment_end [of "custom_kernel wf_aligner" False wf_aligner]
    unfolding custom_eq by blast
qed

lemma extend_finish_status:
  "extend_finish ext (store_mwavefront a score mw) score True
   = (True, a\<lparr>wf_components := (wf_components a)
                \<lparr>mwavefronts := (mwavefronts (wf_components a))(score := Some mw)\<rparr>,
              align_status := (align_status a)\<lparr>status := WF_STATUS_SUCCESSFUL\<rparr>\<rparr>)"
  "strategy (heuristic a) = wf_heuristic_none \<Longrightarrow>
   extend_finish ext (store_mwavefront a score mw) score False
   = (False, a\<lparr>wf_components := (wf_components a)
                 \<lparr>mwavefronts := (mwavefronts (wf_components a))(score := Some mw)\<rparr>\<rparr>)"
  "strategy (heuristic a) \<noteq> wf_heuristic_none \<Longrightarrow>
   wavefront_heuristic_cufoff ext
     (a\<lparr>wf_components := (wf_components a)
          \<lparr>mwavefronts := (mwavefronts (wf_components a))(score := Some mw)\<rparr>\<rparr>) score
   = (dropped, a') \<Longrightarrow>
   extend_finish ext (store_mwavefront a score mw) score False
   = (dropped,
      if dropped
      then a'\<lparr>align_status := (align_status a')\<lparr>status := WF_STATUS_HEURISTICALY_DROPPED\<rparr>\<rparr>
      else a')"
  by (simp_all add: extend_finish_def store_mwavefront_def set_status_def)

text \<open>
  C5. In \<open>wavefront_extend_custom\<close>, when the form is not ends-free: the custom driver makes
  no ends-free check (it returns false and leaves \<open>k_alignment_end\<close> as it was, whatever
  the diagonals reach); the dispatcher's verdict is not used, and the end-to-end check of
  the wavefront, made after the extension, decides. With a true verdict the function
  returns true, and the aligner it leaves is the one it was given with the extended
  wavefront in the slot of the score, the alignment diagonal in its \<open>k_alignment_end\<close>, and
  the status "successful". With a false verdict the status is not set to "successful":
  without a heuristic strategy the function returns false and only the slot of the score
  has changed; with a strategy the cut-off decides, and a drop sets the status
  "heuristically dropped". With one worker, or with workers whose sub-ranges cover the
  range, the checked wavefront holds the extension of every diagonal of \<open>[lo,hi]\<close> that is
  not NULL, and the function returns whenever the matching loop ends on each of these
  diagonals.
\<close>

theorem custom_end2end_check_after_extension:
  assumes "span (alignment_form wf_aligner) \<noteq> alignment_endsfree"
    and "modular_score wf_aligner score0 = Some score"
    and "mwavefronts (wf_components wf_aligner) score = Some mwavefront"
  shows "(custom_dispatch ext wf_aligner mwavefront score False = Some (r, mwavefront') \<longrightarrow>
    \<not> r \<and> k_alignment_end mwavefront' = k_alignment_end mwavefront
      \<and> wavefront_extend_custom ext wf_aligner score0
          = Some (extend_finish ext
              (store_mwavefront wf_aligner score
                 (snd (wavefront_extend_end2end_check_termination wf_aligner mwavefront')))
              score (fst (wavefront_extend_end2end_check_termination wf_aligner mwavefront')))
      \<and> (fst (wavefront_extend_end2end_check_termination wf_aligner mwavefront') \<longrightarrow>
           wavefront_extend_custom ext wf_aligner score0
           = Some (True,
               wf_aligner\<lparr>wf_components := (wf_components wf_aligner)
                   \<lparr>mwavefronts := (mwavefronts (wf_components wf_aligner))
                      (score := Some (mwavefront'\<lparr>k_alignment_end :=
                         WAVEFRONT_DIAGONAL (text_length wf_aligner)
                           (pattern_length wf_aligner)\<rparr>))\<rparr>,
                 align_status := (align_status wf_aligner)
                   \<lparr>status := WF_STATUS_SUCCESSFUL\<rparr>\<rparr>))
      \<and> (\<not> fst (wavefront_extend_end2end_check_termination wf_aligner mwavefront')
           \<and> strategy (heuristic wf_aligner) = wf_heuristic_none \<longrightarrow>
           wavefront_extend_custom ext wf_aligner score0
           = Some (False,
               wf_aligner\<lparr>wf_components := (wf_components wf_aligner)
                   \<lparr>mwavefronts := (mwavefronts (wf_components wf_aligner))
                      (score := Some mwavefront')\<rparr>\<rparr>))
      \<and> (\<not> fst (wavefront_extend_end2end_check_termination wf_aligner mwavefront')
           \<and> strategy (heuristic wf_aligner) \<noteq> wf_heuristic_none \<longrightarrow>
           (\<forall>dropped wf_aligner'.
              wavefront_heuristic_cufoff ext
                (wf_aligner\<lparr>wf_components := (wf_components wf_aligner)
                    \<lparr>mwavefronts := (mwavefronts (wf_components wf_aligner))
                       (score := Some mwavefront')\<rparr>\<rparr>) score
              = (dropped, wf_aligner')
              \<longrightarrow> wavefront_extend_custom ext wf_aligner score0
                  = Some (dropped,
                      if dropped
                      then wf_aligner'\<lparr>align_status := (align_status wf_aligner')
                             \<lparr>status := WF_STATUS_HEURISTICALY_DROPPED\<rparr>\<rparr>
                      else wf_aligner')))
      \<and> (wavefront_compute_num_threads ext wf_aligner (lo mwavefront) (hi mwavefront) = 1
           \<or> WFA_PARALLEL ext
             \<and> covers (lo mwavefront) (hi mwavefront)
                  (thread_ranges ext
                     (wavefront_compute_num_threads ext wf_aligner (lo mwavefront) (hi mwavefront))
                     (lo mwavefront) (hi mwavefront))
         \<longrightarrow> (\<forall>k. lo mwavefront \<le> k \<and> k \<le> hi mwavefront
                   \<and> offsets mwavefront k \<noteq> WAVEFRONT_OFFSET_NULL \<longrightarrow>
                 custom_match_loop (match_funct wf_aligner)
                   (WAVEFRONT_V k (offsets mwavefront k)) (WAVEFRONT_H k (offsets mwavefront k))
                   (offsets mwavefront k)
                 = Some (offsets mwavefront' k)))
      \<and> (\<forall>mw klo khi r' mw'.
            wavefront_extend_matches_custom wf_aligner mw score klo khi False = Some (r', mw')
            \<longrightarrow> \<not> r' \<and> k_alignment_end mw' = k_alignment_end mw))
    \<and> ((wavefront_compute_num_threads ext wf_aligner (lo mwavefront) (hi mwavefront) = 1
          \<or> WFA_PARALLEL ext
            \<and> covers (lo mwavefront) (hi mwavefront)
                 (thread_ranges ext
                    (wavefront_compute_num_threads ext wf_aligner (lo mwavefront) (hi mwavefront))
                    (lo mwavefront) (hi mwavefront)))
         \<and> (\<forall>k. lo mwavefront \<le> k \<and> k \<le> hi mwavefront
                 \<and> offsets mwavefront k \<noteq> WAVEFRONT_OFFSET_NULL \<longrightarrow>
               custom_match_loop (match_funct wf_aligner)
                 (WAVEFRONT_V k (offsets mwavefront k)) (WAVEFRONT_H k (offsets mwavefront k))
                 (offsets mwavefront k) \<noteq> None)
       \<longrightarrow> wavefront_extend_custom ext wf_aligner score0 \<noteq> None)"
  (is "(?D \<longrightarrow> ?nr \<and> ?k \<and> ?run \<and> (?v \<longrightarrow> ?yes) \<and> (\<not> ?v \<and> ?none \<longrightarrow> ?no)
         \<and> (\<not> ?v \<and> \<not> ?none \<longrightarrow> ?cut) \<and> ?ext \<and> ?drv) \<and> (?W \<longrightarrow> ?ret)")
proof -
  let ?chk = "wavefront_extend_end2end_check_termination wf_aligner mwavefront'"
  have ret: ?ret if ?W
  proof -
    from that have "custom_dispatch ext wf_aligner mwavefront score False \<noteq> None"
      by (intro dispatch_total(2)) (simp_all add: custom_kernel_def)
    with assms show ?thesis
      by (auto simp: wavefront_extend_custom_def split: prod.splits)
  qed
  have first: "?nr \<and> ?k \<and> ?run \<and> (?v \<longrightarrow> ?yes) \<and> (\<not> ?v \<and> ?none \<longrightarrow> ?no)
         \<and> (\<not> ?v \<and> \<not> ?none \<longrightarrow> ?cut) \<and> ?ext \<and> ?drv" if d: ?D
  proof -
    note run = custom_not_endsfree_run [OF assms d]
    have snd_yes: "snd ?chk = mwavefront'\<lparr>k_alignment_end :=
        WAVEFRONT_DIAGONAL (text_length wf_aligner) (pattern_length wf_aligner)\<rparr>" if ?v
      using that
      by (auto simp: wavefront_extend_end2end_check_termination_def Let_def split: if_splits)
    have snd_no: "snd ?chk = mwavefront'" if "\<not> ?v"
      using that end2end_check_False [of wf_aligner mwavefront' "snd ?chk"]
      by (cases ?chk) simp
    have yes: ?yes if ?v
      using that by (simp add: run(3) snd_yes [OF that] extend_finish_status(1))
    have no: ?no if "\<not> ?v" ?none
      using that by (simp add: run(3) snd_no [OF that(1)] extend_finish_status(2))
    have cut: ?cut if "\<not> ?v" "\<not> ?none"
    proof (intro allI impI)
      fix dropped wf_aligner'
      assume "wavefront_heuristic_cufoff ext
                (wf_aligner\<lparr>wf_components := (wf_components wf_aligner)
                    \<lparr>mwavefronts := (mwavefronts (wf_components wf_aligner))
                       (score := Some mwavefront')\<rparr>\<rparr>) score
              = (dropped, wf_aligner')"
      from extend_finish_status(3) [OF that(2) this]
      show "wavefront_extend_custom ext wf_aligner score0
                  = Some (dropped,
                      if dropped
                      then wf_aligner'\<lparr>align_status := (align_status wf_aligner')
                             \<lparr>status := WF_STATUS_HEURISTICALY_DROPPED\<rparr>\<rparr>
                      else wf_aligner')"
        by (simp only: run(3) snd_no [OF that(1)] that(1) simp_thms)
    qed
    from yes have y: "?v \<longrightarrow> ?yes" by (rule impI)
    from no have n: "\<not> ?v \<and> ?none \<longrightarrow> ?no" by (intro impI) (elim conjE)
    from cut have c: "\<not> ?v \<and> \<not> ?none \<longrightarrow> ?cut" by (intro impI) (elim conjE)
    show ?thesis
      by (rule conjI [OF run(1) conjI [OF run(2) conjI [OF run(3) conjI [OF y
            conjI [OF n conjI [OF c conjI [OF run(4) run(5)]]]]]]])
  qed
  show ?thesis
    by (rule conjI) (rule impI, erule first, rule impI, erule ret)
qed


lemma ex_externs_fields:
  "WFA_PARALLEL (ex_externs n d)"
  "wavefront_compute_num_threads (ex_externs n d) a klo khi = n"
  "wavefront_heuristic_cufoff (ex_externs n d) a s = (d, a)"
  "wavefront_compute_thread_limits (ex_externs n d) = ex_thread_limits"
  "omp_get_num_threads (ex_externs n d) m = m"
  "omp_schedule (ex_externs n d) team = [0..team - 1]"
  by (simp_all add: ex_externs_def)

lemma ex_custom_kernel_e2e: "custom_kernel ex_aligner_e2e 0 0 = Some 12"
  by (simp add: custom_kernel_def custom_match_loop.simps ex_aligner_e2e_def
      WAVEFRONT_V_def WAVEFRONT_H_def)

lemma ex_custom_dispatch_e2e:
  "custom_dispatch (ex_externs 1 d) ex_aligner_e2e ex_wavefront0 0 False
   = Some (False, ex_wavefront0\<lparr>offsets := (offsets ex_wavefront0)(0 := 12)\<rparr>)"
  by (simp add: custom_dispatch_def ex_externs_def custom_eq extend_range.simps
      ex_wavefront0_fields ex_custom_kernel_e2e null_neq)


lemma ex_aligner_e2e_with_fields:
  "span (alignment_form (ex_aligner_e2e_with w)) = alignment_end2end"
  "mwavefronts (wf_components (ex_aligner_e2e_with w)) s = (if s = 0 then Some w else None)"
  "modular_score (ex_aligner_e2e_with w) 0 = Some 0"
  "strategy (heuristic (ex_aligner_e2e_with w)) = wf_heuristic_none"
  "pattern_length (ex_aligner_e2e_with w) = 12" "text_length (ex_aligner_e2e_with w) = 12"
  "status (align_status (ex_aligner_e2e_with w)) = WF_STATUS_OTHER 1"
  "custom_kernel (ex_aligner_e2e_with w) = custom_kernel ex_aligner_e2e"
proof -
  show "custom_kernel (ex_aligner_e2e_with w) = custom_kernel ex_aligner_e2e"
    by (intro ext) (simp add: custom_kernel_def ex_aligner_e2e_with_def)
qed (simp_all add: ex_aligner_e2e_with_def ex_aligner_e2e_def modular_score_def)

lemma ex_wavefront1_fields:
  "lo ex_wavefront1 = 1" "hi ex_wavefront1 = 1" "offsets ex_wavefront1 1 = 1"
  by (simp_all add: ex_wavefront1_def)

lemma ex_custom_kernel_e2e_off: "custom_kernel ex_aligner_e2e 1 1 = Some 1"
  by (simp add: custom_kernel_def custom_match_loop.simps ex_aligner_e2e_def
      WAVEFRONT_V_def WAVEFRONT_H_def)

lemma ex_custom_dispatch_e2e_off:
  "custom_dispatch (ex_externs 1 d) (ex_aligner_e2e_with ex_wavefront1) ex_wavefront1 0 False
   = Some (False, ex_wavefront1\<lparr>offsets := (offsets ex_wavefront1)(1 := 1)\<rparr>)"
  by (simp add: custom_dispatch_def ex_externs_def custom_eq extend_range.simps
      ex_wavefront1_fields ex_aligner_e2e_with_fields ex_custom_kernel_e2e_off
      WAVEFRONT_OFFSET_NULL_def)

theorem custom_end2end_check_after_extension_witness:
  "wavefront_extend_custom (ex_externs 1 False) ex_aligner_e2e 0
   = Some (True,
       ex_aligner_e2e\<lparr>wf_components := (wf_components ex_aligner_e2e)
           \<lparr>mwavefronts := (mwavefronts (wf_components ex_aligner_e2e))
              (0 := Some (ex_wavefront0\<lparr>offsets := (offsets ex_wavefront0)(0 := 12),
                                         k_alignment_end := 0\<rparr>))\<rparr>,
         align_status := \<lparr>status = WF_STATUS_SUCCESSFUL\<rparr>\<rparr>)
   \<and> map_option (\<lambda>(r, a). (r, status (align_status a)))
       (wavefront_extend_custom (ex_externs 1 False) ex_aligner_e2e 0)
     = Some (True, WF_STATUS_SUCCESSFUL)
   \<and> custom_match_loop (match_funct ex_aligner_e2e) 0 0 0 = Some 12
   \<and> map_option (\<lambda>(r, a). (r, status (align_status a)))
       (wavefront_extend_custom (ex_externs 1 False) (ex_aligner_e2e_with ex_wavefront1) 0)
     = Some (False, WF_STATUS_OTHER 1)"
proof -
  let ?w = "ex_wavefront0\<lparr>offsets := (offsets ex_wavefront0)(0 := 12)\<rparr>"
  have span: "span (alignment_form ex_aligner_e2e) \<noteq> alignment_endsfree"
    by (simp add: ex_aligner_e2e_fields)
  have mw: "mwavefronts (wf_components ex_aligner_e2e) 0 = Some ex_wavefront0"
    by (simp add: ex_aligner_e2e_fields)
  have chk: "wavefront_extend_end2end_check_termination ex_aligner_e2e ?w
             = (True, ?w\<lparr>k_alignment_end := 0\<rparr>)"
    by (simp add: wavefront_extend_end2end_check_termination_def ex_aligner_e2e_seqs
        WAVEFRONT_DIAGONAL_def WAVEFRONT_OFFSET_def ex_wavefront0_fields)
  note th = custom_end2end_check_after_extension [OF span ex_modular_score(3) mw,
      THEN conjunct1, THEN mp, OF ex_custom_dispatch_e2e [of False]]
  have v: "fst (wavefront_extend_end2end_check_termination ex_aligner_e2e ?w)"
    by (simp add: chk)
  have st0: "(align_status ex_aligner_e2e)\<lparr>status := WF_STATUS_SUCCESSFUL\<rparr>
      = \<lparr>status = WF_STATUS_SUCCESSFUL\<rparr>"
    by (simp add: ex_aligner_e2e_def)
  from th [THEN conjunct2, THEN conjunct2, THEN conjunct2, THEN conjunct1, THEN mp, OF v]
  have run: "wavefront_extend_custom (ex_externs 1 False) ex_aligner_e2e 0
      = Some (True,
          ex_aligner_e2e\<lparr>wf_components := (wf_components ex_aligner_e2e)
              \<lparr>mwavefronts := (mwavefronts (wf_components ex_aligner_e2e))
                 (0 := Some (ex_wavefront0\<lparr>offsets := (offsets ex_wavefront0)(0 := 12),
                                            k_alignment_end := 0\<rparr>))\<rparr>,
            align_status := \<lparr>status = WF_STATUS_SUCCESSFUL\<rparr>\<rparr>)"
    by (simp add: st0 ex_aligner_e2e_seqs WAVEFRONT_DIAGONAL_def)
  then have st: "map_option (\<lambda>(r, a). (r, status (align_status a)))
       (wavefront_extend_custom (ex_externs 1 False) ex_aligner_e2e 0)
     = Some (True, WF_STATUS_SUCCESSFUL)"
    by simp
  from th [THEN conjunct2, THEN conjunct2, THEN conjunct2, THEN conjunct2, THEN conjunct2,
      THEN conjunct2, THEN conjunct1]
  have "\<forall>k. lo ex_wavefront0 \<le> k \<and> k \<le> hi ex_wavefront0
        \<and> offsets ex_wavefront0 k \<noteq> WAVEFRONT_OFFSET_NULL \<longrightarrow>
      custom_match_loop (match_funct ex_aligner_e2e)
        (WAVEFRONT_V k (offsets ex_wavefront0 k)) (WAVEFRONT_H k (offsets ex_wavefront0 k))
        (offsets ex_wavefront0 k) = Some (offsets ?w k)"
    by (simp add: ex_externs_fields)
  from this [rule_format, of 0]
  have "custom_match_loop (match_funct ex_aligner_e2e)
        (WAVEFRONT_V 0 (offsets ex_wavefront0 0)) (WAVEFRONT_H 0 (offsets ex_wavefront0 0))
        (offsets ex_wavefront0 0) = Some (offsets ?w 0)"
    by (simp add: ex_wavefront0_fields null_neq)
  then have loop: "custom_match_loop (match_funct ex_aligner_e2e) 0 0 0 = Some 12"
    by (simp add: ex_wavefront0_fields WAVEFRONT_V_def WAVEFRONT_H_def)
  let ?a = "ex_aligner_e2e_with ex_wavefront1"
  let ?w1 = "ex_wavefront1\<lparr>offsets := (offsets ex_wavefront1)(1 := 1)\<rparr>"
  have span1: "span (alignment_form ?a) \<noteq> alignment_endsfree"
    by (simp add: ex_aligner_e2e_with_fields)
  have mw1: "mwavefronts (wf_components ?a) 0 = Some ex_wavefront1"
    by (simp add: ex_aligner_e2e_with_fields)
  have chk1: "\<not> fst (wavefront_extend_end2end_check_termination ?a ?w1)"
    by (simp add: wavefront_extend_end2end_check_termination_def ex_aligner_e2e_with_fields
        WAVEFRONT_DIAGONAL_def ex_wavefront1_fields)
  note th1 = custom_end2end_check_after_extension [OF span1 ex_aligner_e2e_with_fields(3) mw1,
      THEN conjunct1, THEN mp, OF ex_custom_dispatch_e2e_off [of False]]
  from th1 [THEN conjunct2, THEN conjunct2, THEN conjunct2, THEN conjunct2, THEN conjunct1]
    chk1
  have "wavefront_extend_custom (ex_externs 1 False) ?a 0
      = Some (False, ?a\<lparr>wf_components := (wf_components ?a)
           \<lparr>mwavefronts := (mwavefronts (wf_components ?a))(0 := Some ?w1)\<rparr>\<rparr>)"
    by (simp add: ex_aligner_e2e_with_fields)
  then have no: "map_option (\<lambda>(r, a). (r, status (align_status a)))
       (wavefront_extend_custom (ex_externs 1 False) ?a 0)
     = Some (False, WF_STATUS_OTHER 1)"
    by (simp add: ex_aligner_e2e_with_fields)
  from run st loop no show ?thesis by (intro conjI)
qed


subsection \<open>One worker and several workers\<close>

lemma covers_single: "covers klo khi [(klo, khi)]"
  by (auto simp: covers_def in_range_def list_all_iff)

lemma parallel_range_single:
  "parallel_range ker ef a mw False [(klo, khi)] = extend_range ker ef a mw klo khi"
  by (auto split: option.splits)

lemma parallel_range_same_verdict:
  assumes "covers klo khi rs"
    and "parallel_range ker ef a mw False rs = Some (rN, mwN)"
    and "extend_range ker ef a mw klo khi = Some (r1, mw1)"
  shows "rN = r1 \<and> (\<not> r1 \<longrightarrow> mwN = mw1)"
proof -
  from parallel_range_verdict [OF assms(1,2)] extend_range_verdict [OF assms(3)]
  have eq: "rN = r1" by simp
  moreover have "mwN = mw1" if "\<not> r1"
    using that eq parallel_range_not_terminal [OF assms(1), of ker ef a mw False mwN]
      extend_range_not_terminal [of ker ef a mw klo khi mw1] assms(2,3)
    by simp
  ultimately show ?thesis by simp
qed

text \<open>
  What a run of workers whose sub-ranges cover \<open>[klo,khi]\<close> leaves on a terminal wavefront.
\<close>

lemma parallel_range_offsets:
  assumes "covers klo khi rs"
    and "parallel_range ker ef a mw r0 rs = Some (r, mw')"
  shows "\<not> (ef \<and> range_terminal ker a mw klo (j - 1)) \<or> j < klo \<or> khi < j \<Longrightarrow>
         offsets mw' j = extended_offsets ker mw klo khi j"
    and "offsets mw' j = offsets mw j
         \<or> offsets mw j \<noteq> WAVEFRONT_OFFSET_NULL \<and> ker j (offsets mw j) = Some (offsets mw' j)"
proof -
  show "offsets mw' j = extended_offsets ker mw klo khi j"
    if "\<not> (ef \<and> range_terminal ker a mw klo (j - 1)) \<or> j < klo \<or> khi < j"
  proof (cases "klo \<le> j \<and> j \<le> khi \<and> offsets mw j \<noteq> WAVEFRONT_OFFSET_NULL")
    case True
    with that parallel_range_extended [OF assms, of j]
    have "ker j (offsets mw j) = Some (offsets mw' j)" by auto
    with True show ?thesis by (simp add: extended_offsets_def)
  next
    case False
    with parallel_range_outside [OF assms, of j] show ?thesis
      by (auto simp: extended_offsets_def)
  qed
  show "offsets mw' j = offsets mw j
        \<or> offsets mw j \<noteq> WAVEFRONT_OFFSET_NULL \<and> ker j (offsets mw j) = Some (offsets mw' j)"
  proof (cases "\<exists>c\<in>set rs. in_range j c
      \<and> \<not> (ef \<and> range_terminal ker a mw (fst c) (j - 1))
      \<and> offsets mw j \<noteq> WAVEFRONT_OFFSET_NULL")
    case True
    then obtain c where c: "c \<in> set rs" "in_range j c"
      "\<not> (ef \<and> range_terminal ker a mw (fst c) (j - 1))"
      "offsets mw j \<noteq> WAVEFRONT_OFFSET_NULL"
      by blast
    from parallel_range_reached [OF assms(2) covers_disjoint [OF assms(1)] c] c(4)
    show ?thesis by simp
  next
    case False
    then have "(\<forall>c\<in>set rs. in_range j c \<longrightarrow> ef \<and> range_terminal ker a mw (fst c) (j - 1))
        \<or> offsets mw j = WAVEFRONT_OFFSET_NULL"
      by blast
    from parallel_range_unreached [OF assms(2) covers_disjoint [OF assms(1)] this]
    show ?thesis by simp
  qed
qed

lemma parallel_range_recorded:
  assumes "covers klo khi rs"
    and "parallel_range ker ef a mw False rs = Some (True, mw')"
  shows "klo \<le> k_alignment_end mw'" "k_alignment_end mw' \<le> khi"
    and "range_terminal ker a mw (k_alignment_end mw') (k_alignment_end mw')"
    and "ker (k_alignment_end mw') (offsets mw (k_alignment_end mw'))
         = Some (offsets mw' (k_alignment_end mw'))"
    and "first_terminal ker a mw klo khi k1 \<Longrightarrow> k1 \<le> k_alignment_end mw'"
proof -
  let ?k = "k_alignment_end mw'"
  note dj = covers_disjoint [OF assms(1)]
  from parallel_range_chunks [OF assms(2) dj]
  obtain c where ef: ef and c: "c \<in> set rs" "first_terminal ker a mw (fst c) (snd c) ?k"
    by auto
  from c(2) have inr: "in_range ?k c" and t: "range_terminal ker a mw ?k ?k"
    and before: "\<not> range_terminal ker a mw (fst c) (?k - 1)"
    by (simp_all add: first_terminal_def in_range_def)
  from covers_inside [OF assms(1) c(1) inr] show lo: "klo \<le> ?k" and hi: "?k \<le> khi"
    by simp_all
  from t show "range_terminal ker a mw ?k ?k" .
  from t have nn: "offsets mw ?k \<noteq> WAVEFRONT_OFFSET_NULL"
    by (simp add: range_terminal_single)
  from before have "\<not> (ef \<and> range_terminal ker a mw (fst c) (?k - 1))" by simp
  from parallel_range_reached [OF assms(2) dj c(1) inr this nn]
  show "ker ?k (offsets mw ?k) = Some (offsets mw' ?k)" .
  show "k1 \<le> ?k" if "first_terminal ker a mw klo khi k1"
  proof (rule ccontr)
    assume "\<not> k1 \<le> ?k"
    then have "?k \<le> k1 - 1" by simp
    from range_terminal_mono [OF t lo this] that show False
      by (simp add: first_terminal_def)
  qed
qed


lemma workers_agree:
  assumes "covers klo khi rs"
    and "parallel_range ker ef a mw False rs = Some (rN, mwN)"
    and "extend_range ker ef a mw klo khi = Some (r1, mw1)"
  shows "rN = r1" and "r1 \<longleftrightarrow> ef \<and> range_terminal ker a mw klo khi"
    and "\<not> r1 \<Longrightarrow> mwN = mw1"
    and "r1 \<Longrightarrow>
         lo mwN = lo mw1 \<and> hi mwN = hi mw1
         \<and> (\<forall>j. \<not> range_terminal ker a mw klo (j - 1) \<or> j < klo \<or> khi < j
                \<longrightarrow> offsets mwN j = offsets mw1 j)
         \<and> (\<forall>j. range_terminal ker a mw klo (j - 1) \<longrightarrow> offsets mw1 j = offsets mw j)
         \<and> (\<forall>j. offsets mwN j = offsets mw j
                \<or> offsets mw j \<noteq> WAVEFRONT_OFFSET_NULL
                  \<and> ker j (offsets mw j) = Some (offsets mwN j))
         \<and> first_terminal ker a mw klo khi (k_alignment_end mw1)
         \<and> k_alignment_end mw1 \<le> k_alignment_end mwN \<and> k_alignment_end mwN \<le> khi
         \<and> range_terminal ker a mw (k_alignment_end mwN) (k_alignment_end mwN)
         \<and> ker (k_alignment_end mwN) (offsets mw (k_alignment_end mwN))
             = Some (offsets mwN (k_alignment_end mwN))"
proof -
  note same = parallel_range_same_verdict [OF assms]
  from same show "rN = r1" by simp
  from extend_range_verdict [OF assms(3)]
  show v: "r1 \<longleftrightarrow> ef \<and> range_terminal ker a mw klo khi" .
  from same show "mwN = mw1" if "\<not> r1" using that by simp
  have one: "parallel_range ker ef a mw False [(klo, khi)] = Some (r1, mw1)"
    using assms(3) by (simp only: parallel_range_single)
  show "lo mwN = lo mw1 \<and> hi mwN = hi mw1
         \<and> (\<forall>j. \<not> range_terminal ker a mw klo (j - 1) \<or> j < klo \<or> khi < j
                \<longrightarrow> offsets mwN j = offsets mw1 j)
         \<and> (\<forall>j. range_terminal ker a mw klo (j - 1) \<longrightarrow> offsets mw1 j = offsets mw j)
         \<and> (\<forall>j. offsets mwN j = offsets mw j
                \<or> offsets mw j \<noteq> WAVEFRONT_OFFSET_NULL
                  \<and> ker j (offsets mw j) = Some (offsets mwN j))
         \<and> first_terminal ker a mw klo khi (k_alignment_end mw1)
         \<and> k_alignment_end mw1 \<le> k_alignment_end mwN \<and> k_alignment_end mwN \<le> khi
         \<and> range_terminal ker a mw (k_alignment_end mwN) (k_alignment_end mwN)
         \<and> ker (k_alignment_end mwN) (offsets mw (k_alignment_end mwN))
             = Some (offsets mwN (k_alignment_end mwN))"
    if r1
  proof (intro conjI allI impI)
    from that v have ef: ef by simp
    from that same have many: "parallel_range ker ef a mw False rs = Some (True, mwN)"
      using assms(2) by simp
    from that have seq: "extend_range ker ef a mw klo khi = Some (True, mw1)"
      using assms(3) by simp
    from parallel_range_k_alignment_end [OF assms(2)] extend_range_fields [OF assms(3)]
    show "lo mwN = lo mw1" and "hi mwN = hi mw1" by simp_all
    show "offsets mwN j = offsets mw1 j"
      if "\<not> range_terminal ker a mw klo (j - 1) \<or> j < klo \<or> khi < j" for j
      using parallel_range_offsets(1) [OF assms(1,2), of j]
        parallel_range_offsets(1) [OF covers_single one, of j] that
      by auto
    show "offsets mw1 j = offsets mw j" if "range_terminal ker a mw klo (j - 1)" for j
      by (rule extend_range_unreached [OF assms(3)]) (use ef that in simp)
    show "offsets mwN j = offsets mw j
          \<or> offsets mw j \<noteq> WAVEFRONT_OFFSET_NULL \<and> ker j (offsets mw j) = Some (offsets mwN j)"
      for j
      by (rule parallel_range_offsets(2) [OF assms(1,2)])
    from extend_range_first_terminal [OF seq]
    show ft: "first_terminal ker a mw klo khi (k_alignment_end mw1)" .
    note rec = parallel_range_recorded [OF assms(1) many]
    from rec(5) [OF ft] show "k_alignment_end mw1 \<le> k_alignment_end mwN" .
    from rec(2) show "k_alignment_end mwN \<le> khi" .
    from rec(3) show "range_terminal ker a mw (k_alignment_end mwN) (k_alignment_end mwN)" .
    from rec(4) show "ker (k_alignment_end mwN) (offsets mw (k_alignment_end mwN))
             = Some (offsets mwN (k_alignment_end mwN))" .
  qed
qed

lemma extend_finish_one_worker:
  "extend_finish (ext\<lparr>wavefront_compute_num_threads := f\<rparr>) a score r
   = extend_finish ext a score r"
  by (simp add: extend_finish_def)

lemma dispatch_one_worker:
  "end2end_dispatch (ext\<lparr>wavefront_compute_num_threads := \<lambda>a klo khi. 1\<rparr>) a mw score
   = map_option (wavefront_extend_end2end_check_termination a)
       (map_option snd
          (extend_range (wavefront_extend_matches_packed_kernel a) False a mw (lo mw) (hi mw)))"
  "endsfree_dispatch (ext\<lparr>wavefront_compute_num_threads := \<lambda>a klo khi. 1\<rparr>) a mw score
   = extend_range (wavefront_extend_matches_packed_kernel a) True a mw (lo mw) (hi mw)"
  "custom_dispatch (ext\<lparr>wavefront_compute_num_threads := \<lambda>a klo khi. 1\<rparr>) a mw score ef
   = extend_range (custom_kernel a) ef a mw (lo mw) (hi mw)"
  by (simp_all add: end2end_dispatch_def endsfree_dispatch_def custom_dispatch_def
      packed_end2end_eq packed_endsfree_eq custom_eq)

lemma dispatch_workers:
  assumes "wavefront_compute_num_threads ext a (lo mw) (hi mw) = 1
         \<or> WFA_PARALLEL ext
           \<and> covers (lo mw) (hi mw)
                (thread_ranges ext (wavefront_compute_num_threads ext a (lo mw) (hi mw))
                   (lo mw) (hi mw))"
  obtains rs where "covers (lo mw) (hi mw) rs"
    and "end2end_dispatch ext a mw score
         = map_option (wavefront_extend_end2end_check_termination a)
             (map_option snd
                (parallel_range (wavefront_extend_matches_packed_kernel a) False a mw False rs))"
    and "endsfree_dispatch ext a mw score
         = parallel_range (wavefront_extend_matches_packed_kernel a) True a mw False rs"
    and "\<And>ef. custom_dispatch ext a mw score ef
         = parallel_range (custom_kernel a) ef a mw False rs"
proof (cases "wavefront_compute_num_threads ext a (lo mw) (hi mw) = 1")
  case True
  show ?thesis
  proof (rule that [of "[(lo mw, hi mw)]"])
    show "covers (lo mw) (hi mw) [(lo mw, hi mw)]" by (rule covers_single)
  qed (use True in \<open>simp_all add: parallel_range_single end2end_dispatch_def
        endsfree_dispatch_def custom_dispatch_def
        packed_end2end_eq packed_endsfree_eq custom_eq del: parallel_range.simps\<close>)
next
  case False
  with assms have par: "WFA_PARALLEL ext"
    and cov: "covers (lo mw) (hi mw)
      (thread_ranges ext (wavefront_compute_num_threads ext a (lo mw) (hi mw)) (lo mw) (hi mw))"
    by simp_all
  show ?thesis
  proof (rule that [OF cov])
  qed (use False par in \<open>simp_all add: end2end_dispatch_def
        endsfree_dispatch_def custom_dispatch_def
        parallel_packed_end2end_eq [where ?r0.0 = False]
        parallel_packed_endsfree_eq parallel_custom_eq\<close>)
qed

lemma extend_finish_agree:
  assumes "extend_finish ext (store_mwavefront a score mwN) score d = (rN, aN)"
    and "extend_finish ext (store_mwavefront a score mw1) score d = (r1, a1)"
  shows "mwN = mw1 \<Longrightarrow> rN = r1 \<and> aN = a1"
    and "d \<Longrightarrow> rN = r1 \<and> status (align_status aN) = status (align_status a1)
           \<and> mwavefronts (wf_components a1) score = Some mw1
           \<and> aN = a1\<lparr>wf_components := (wf_components a1)
                  \<lparr>mwavefronts := (mwavefronts (wf_components a1))(score := Some mwN)\<rparr>\<rparr>"
  using assms by (auto simp: extend_finish_def set_status_def store_mwavefront_def)


lemma orchestrator_agree:
  assumes "covers (lo mw) (hi mw) rs"
    and "parallel_range ker ef a mw False rs = Some (dN, mwN)"
    and "extend_range ker ef a mw (lo mw) (hi mw) = Some (d1, mw1)"
    and "extend_finish ext (store_mwavefront a score mwN) score dN = (rN, aN)"
    and "extend_finish ext (store_mwavefront a score mw1) score d1 = (r1, a1)"
  shows "rN = r1 \<and> status (align_status aN) = status (align_status a1)
    \<and> (\<not> (ef \<and> range_terminal ker a mw (lo mw) (hi mw)) \<longrightarrow> aN = a1)
    \<and> (ef \<and> range_terminal ker a mw (lo mw) (hi mw) \<longrightarrow>
         (\<exists>mwN mw1.
            mwavefronts (wf_components a1) score = Some mw1
            \<and> aN = a1\<lparr>wf_components := (wf_components a1)
                   \<lparr>mwavefronts := (mwavefronts (wf_components a1))(score := Some mwN)\<rparr>\<rparr>
            \<and> lo mwN = lo mw1 \<and> hi mwN = hi mw1
            \<and> (\<forall>j. \<not> range_terminal ker a mw (lo mw) (j - 1) \<or> j < lo mw \<or> hi mw < j
                   \<longrightarrow> offsets mwN j = offsets mw1 j)
            \<and> (\<forall>j. range_terminal ker a mw (lo mw) (j - 1) \<longrightarrow> offsets mw1 j = offsets mw j)
            \<and> (\<forall>j. offsets mwN j = offsets mw j
                   \<or> offsets mw j \<noteq> WAVEFRONT_OFFSET_NULL
                     \<and> ker j (offsets mw j) = Some (offsets mwN j))
            \<and> first_terminal ker a mw (lo mw) (hi mw) (k_alignment_end mw1)
            \<and> k_alignment_end mw1 \<le> k_alignment_end mwN \<and> k_alignment_end mwN \<le> hi mw
            \<and> range_terminal ker a mw (k_alignment_end mwN) (k_alignment_end mwN)
            \<and> ker (k_alignment_end mwN) (offsets mw (k_alignment_end mwN))
                = Some (offsets mwN (k_alignment_end mwN))))"
proof -
  note ag = workers_agree [OF assms(1,2,3)]
  note fN = assms(4) [unfolded ag(1)]
  show ?thesis
  proof (cases d1)
    case False
    with ag(3) have "mwN = mw1" by simp
    from False ag(2) have "\<not> (ef \<and> range_terminal ker a mw (lo mw) (hi mw))" by simp
    with extend_finish_agree(1) [OF fN assms(5) \<open>mwN = mw1\<close>] show ?thesis by blast
  next
    case True
    note fin = extend_finish_agree(2) [OF fN assms(5) True]
    from fin have v: "rN = r1" and s: "status (align_status aN) = status (align_status a1)"
      and st: "mwavefronts (wf_components a1) score = Some mw1"
      and eqN: "aN = a1\<lparr>wf_components := (wf_components a1)
                   \<lparr>mwavefronts := (mwavefronts (wf_components a1))(score := Some mwN)\<rparr>\<rparr>"
      by simp_all
    from True ag(2) have t: "ef \<and> range_terminal ker a mw (lo mw) (hi mw)" by simp
    show ?thesis
      apply (rule conjI [OF v])
      apply (rule conjI [OF s])
      apply (rule conjI)
       apply (simp only: t not_True_eq_False simp_thms)
      apply (rule impI)
      apply (rule exI [of _ mwN])
      apply (rule exI [of _ mw1])
      apply (rule conjI [OF st])
      apply (rule conjI [OF eqN])
      apply (rule ag(4) [OF True])
      done
  qed
qed


text \<open>The examples, with one worker and with two.\<close>

lemma packed_kernel_cong:
  assumes "pattern_padded_buffer a' = pattern_padded_buffer a"
    and "text_padded_buffer a' = text_padded_buffer a"
    and "pattern a' = pattern a" and "text' a' = text' a"
  shows "wavefront_extend_matches_packed_kernel a' = wavefront_extend_matches_packed_kernel a"
proof -
  have "packed_kernel_blocks a' p t offset = packed_kernel_blocks a p t offset" for p t offset
    using assms(1,2)
  proof (induction a' p t offset rule: packed_kernel_blocks.induct)
    case (1 a' p t offset)
    show ?case
      unfolding packed_kernel_blocks.simps [of a' p t offset]
        packed_kernel_blocks.simps [of a p t offset] "1.prems"
      using "1.IH" "1.prems" by (auto split: option.splits)
  qed
  with assms(3,4) show ?thesis
    by (intro ext) (simp add: wavefront_extend_matches_packed_kernel_def)
qed

lemma ex_aligner_with_fields:
  "wavefront_extend_matches_packed_kernel (ex_aligner_with w)
   = wavefront_extend_matches_packed_kernel ex_aligner"
  "endsfree_terminal (ex_aligner_with w) = endsfree_terminal ex_aligner"
  "mwavefronts (wf_components (ex_aligner_with w)) s = (if s = 2 then Some w else None)"
  "modular_score (ex_aligner_with w) 2 = Some 2"
  "strategy (heuristic (ex_aligner_with w)) = wf_heuristic_none"
  "range_terminal ker (ex_aligner_with w) mw k khi = range_terminal ker ex_aligner mw k khi"
proof -
  show "wavefront_extend_matches_packed_kernel (ex_aligner_with w)
        = wavefront_extend_matches_packed_kernel ex_aligner"
    by (rule packed_kernel_cong) (simp_all add: ex_aligner_with_def)
  show "endsfree_terminal (ex_aligner_with w) = endsfree_terminal ex_aligner"
    by (intro ext) (simp add: endsfree_terminal_def ex_aligner_with_def)
  then show "range_terminal ker (ex_aligner_with w) mw k khi
        = range_terminal ker ex_aligner mw k khi"
    unfolding range_terminal_def by (simp only:)
qed (simp_all add: ex_aligner_with_def modular_score_def c_rem_def ex_aligner_fields)

lemma ex_thread_ranges: "thread_ranges (ex_externs 2 d) 2 0 3 = [(0, 1), (2, 3)]"
  "thread_ranges (ex_externs 2 d) 2 1 3 = [(1, 1), (2, 3)]"
  "thread_ranges (ex_externs 2 d) 2 0 0 = [(0, - 1), (0, 0)]"
  by (simp_all add: thread_ranges_def ex_externs_fields ex_thread_limits_def upto.simps)

lemma ex_covers: "covers 0 3 [(0, 1), (2, 3)]" "covers 1 3 [(1, 1), (2, 3)]"
  "covers 0 0 [(0, - 1), (0, 0)]"
  by (simp_all add: covers_def in_range_def upto.simps)

lemma ex_terminal:
  "endsfree_terminal ex_aligner 7 0" "\<not> endsfree_terminal ex_aligner 4 1"
  "\<not> endsfree_terminal ex_aligner 7 2" "endsfree_terminal ex_aligner 10 3"
  by (simp_all add: endsfree_terminal_def ex_aligner_seqs ex_aligner_fields ex_form_def
      WAVEFRONT_H_def WAVEFRONT_V_def)

lemma ex_aligner_kernel_ends:
  "wavefront_extend_matches_packed_kernel ex_aligner 3 10 = Some 10"
  using kernel_sentinel_padded [OF ex_aligner_padded, of 3 10]
  by (simp add: ex_aligner_seqs WAVEFRONT_V_def WAVEFRONT_H_def)

lemma ex_wavefront_ends_fields:
  "lo ex_wavefront_ends = 0" "hi ex_wavefront_ends = 3"
  "offsets ex_wavefront_ends 0 = 0" "offsets ex_wavefront_ends 1 = 3"
  "offsets ex_wavefront_ends 2 = 6" "offsets ex_wavefront_ends 3 = 10"
  by (simp_all add: ex_wavefront_ends_def ex_wavefront_fields)

lemma ex_wavefront_mid_fields:
  "lo ex_wavefront_mid = 1" "hi ex_wavefront_mid = 3"
  "offsets ex_wavefront_mid = offsets ex_wavefront"
  by (simp_all add: ex_wavefront_mid_def ex_wavefront_fields)

lemma ex_endsfree_first:
  "extend_range (wavefront_extend_matches_packed_kernel ex_aligner) True ex_aligner ex_wavefront 0 khi
   = (if 0 \<le> khi
      then Some (True, ex_wavefront\<lparr>offsets := (offsets ex_wavefront)(0 := 7),
                                     k_alignment_end := 0\<rparr>)
      else Some (False, ex_wavefront))"
  by (simp add: extend_range.simps [of _ _ _ _ 0] ex_wavefront_fields ex_aligner_kernel
      ex_terminal null_neq)

lemma ex_endsfree_second:
  "extend_range (wavefront_extend_matches_packed_kernel ex_aligner) True ex_aligner
     (ex_wavefront\<lparr>offsets := (offsets ex_wavefront)(0 := 7), k_alignment_end := 0\<rparr>) 2 3
   = Some (False, ex_wavefront\<lparr>offsets := (offsets ex_wavefront)(0 := 7, 2 := 7),
                                 k_alignment_end := 0\<rparr>)"
  by (simp add: extend_range.simps ex_wavefront_fields ex_aligner_kernel ex_terminal null_neq)

lemma ex_endsfree_dispatch:
  "endsfree_dispatch (ex_externs 1 d) ex_aligner ex_wavefront 2
   = Some (True, ex_wavefront\<lparr>offsets := (offsets ex_wavefront)(0 := 7),
                                k_alignment_end := 0\<rparr>)"
  "endsfree_dispatch (ex_externs 2 d) ex_aligner ex_wavefront 2
   = Some (True, ex_wavefront\<lparr>offsets := (offsets ex_wavefront)(0 := 7, 2 := 7),
                                k_alignment_end := 0\<rparr>)"
  by (simp_all add: endsfree_dispatch_def ex_externs_fields ex_wavefront_fields
      packed_endsfree_eq parallel_packed_endsfree_eq ex_thread_ranges
      ex_endsfree_first ex_endsfree_second)

lemma ex_endsfree_results:
  "wavefront_extend_endsfree (ex_externs 1 d) ex_aligner 2
   = Some (True, set_status (store_mwavefront ex_aligner 2
       (ex_wavefront\<lparr>offsets := (offsets ex_wavefront)(0 := 7), k_alignment_end := 0\<rparr>))
       WF_STATUS_SUCCESSFUL)"
  "wavefront_extend_endsfree (ex_externs 2 d) ex_aligner 2
   = Some (True, set_status (store_mwavefront ex_aligner 2
       (ex_wavefront\<lparr>offsets := (offsets ex_wavefront)(0 := 7, 2 := 7), k_alignment_end := 0\<rparr>))
       WF_STATUS_SUCCESSFUL)"
  by (simp_all add: wavefront_extend_endsfree_def ex_modular_score ex_aligner_fields
      ex_endsfree_dispatch extend_finish_def)

lemma null_neq_ends:
  "10 \<noteq> WAVEFRONT_OFFSET_NULL" "7 \<noteq> WAVEFRONT_OFFSET_NULL"
  by (simp_all add: WAVEFRONT_OFFSET_NULL_def)

lemma ex_ends_dispatch:
  "endsfree_dispatch (ex_externs 1 d) (ex_aligner_with ex_wavefront_ends) ex_wavefront_ends 2
   = Some (True, ex_wavefront_ends\<lparr>offsets := (offsets ex_wavefront_ends)(0 := 7),
                                     k_alignment_end := 0\<rparr>)"
  "endsfree_dispatch (ex_externs 2 d) (ex_aligner_with ex_wavefront_ends) ex_wavefront_ends 2
   = Some (True, ex_wavefront_ends\<lparr>offsets := (offsets ex_wavefront_ends)(0 := 7, 2 := 7, 3 := 10),
                                     k_alignment_end := 3\<rparr>)"
proof -
  let ?ker = "wavefront_extend_matches_packed_kernel ex_aligner"
  let ?a = "ex_aligner_with ex_wavefront_ends"
  have first: "extend_range ?ker True ?a ex_wavefront_ends 0 khi
      = Some (True, ex_wavefront_ends\<lparr>offsets := (offsets ex_wavefront_ends)(0 := 7),
                                        k_alignment_end := 0\<rparr>)" if "0 \<le> khi" for khi
    using that
    by (simp add: extend_range.simps [of _ _ _ _ 0] ex_wavefront_ends_fields ex_aligner_kernel
        ex_aligner_with_fields ex_terminal null_neq)
  have second: "extend_range ?ker True ?a
      (ex_wavefront_ends\<lparr>offsets := (offsets ex_wavefront_ends)(0 := 7), k_alignment_end := 0\<rparr>) 2 3
      = Some (True, ex_wavefront_ends\<lparr>offsets := (offsets ex_wavefront_ends)(0 := 7, 2 := 7, 3 := 10),
                                        k_alignment_end := 3\<rparr>)"
    by (simp add: extend_range.simps ex_wavefront_ends_fields ex_aligner_kernel
        ex_aligner_kernel_ends ex_aligner_with_fields ex_terminal null_neq null_neq_ends)
  show "endsfree_dispatch (ex_externs 1 d) ?a ex_wavefront_ends 2
   = Some (True, ex_wavefront_ends\<lparr>offsets := (offsets ex_wavefront_ends)(0 := 7),
                                     k_alignment_end := 0\<rparr>)"
    by (simp add: endsfree_dispatch_def ex_externs_fields ex_wavefront_ends_fields
        packed_endsfree_eq ex_aligner_with_fields first)
  show "endsfree_dispatch (ex_externs 2 d) ?a ex_wavefront_ends 2
   = Some (True, ex_wavefront_ends\<lparr>offsets := (offsets ex_wavefront_ends)(0 := 7, 2 := 7, 3 := 10),
                                     k_alignment_end := 3\<rparr>)"
    by (simp add: endsfree_dispatch_def ex_externs_fields ex_wavefront_ends_fields
        packed_endsfree_eq parallel_packed_endsfree_eq ex_thread_ranges
        ex_aligner_with_fields first second)
qed

lemma ex_ends_results:
  "wavefront_extend_endsfree (ex_externs 1 d) (ex_aligner_with ex_wavefront_ends) 2
   = Some (True, set_status (store_mwavefront (ex_aligner_with ex_wavefront_ends) 2
       (ex_wavefront_ends\<lparr>offsets := (offsets ex_wavefront_ends)(0 := 7),
                           k_alignment_end := 0\<rparr>))
       WF_STATUS_SUCCESSFUL)"
  "wavefront_extend_endsfree (ex_externs 2 d) (ex_aligner_with ex_wavefront_ends) 2
   = Some (True, set_status (store_mwavefront (ex_aligner_with ex_wavefront_ends) 2
       (ex_wavefront_ends\<lparr>offsets := (offsets ex_wavefront_ends)(0 := 7, 2 := 7, 3 := 10),
                           k_alignment_end := 3\<rparr>))
       WF_STATUS_SUCCESSFUL)"
  by (simp_all add: wavefront_extend_endsfree_def ex_aligner_with_fields
      ex_ends_dispatch extend_finish_def)

text \<open>
  The order of the workers decides which terminal diagonal is recorded: the last worker
  that reaches one writes \<open>k_alignment_end\<close>.
\<close>

lemma ex_ends_reversed:
  "thread_ranges ex_externs_reversed 2 0 3 = [(2, 3), (0, 1)]"
  "covers 0 3 (thread_ranges ex_externs_reversed 2 0 3)"
  "endsfree_dispatch ex_externs_reversed (ex_aligner_with ex_wavefront_ends) ex_wavefront_ends 2
   = Some (True, ex_wavefront_ends\<lparr>offsets := (offsets ex_wavefront_ends)(2 := 7, 3 := 10, 0 := 7),
                                     k_alignment_end := 0\<rparr>)"
proof -
  let ?ker = "wavefront_extend_matches_packed_kernel ex_aligner"
  let ?a = "ex_aligner_with ex_wavefront_ends"
  show tr: "thread_ranges ex_externs_reversed 2 0 3 = [(2, 3), (0, 1)]"
    by (simp add: thread_ranges_def ex_externs_reversed_def ex_externs_def
        ex_thread_limits_def upto.simps)
  show "covers 0 3 (thread_ranges ex_externs_reversed 2 0 3)"
    unfolding tr by (simp add: covers_def in_range_def upto.simps)
  have first: "extend_range ?ker True ?a ex_wavefront_ends 2 3
      = Some (True, ex_wavefront_ends\<lparr>offsets := (offsets ex_wavefront_ends)(2 := 7, 3 := 10),
                                        k_alignment_end := 3\<rparr>)"
    by (simp add: extend_range.simps ex_wavefront_ends_fields ex_aligner_kernel
        ex_aligner_kernel_ends ex_aligner_with_fields ex_terminal null_neq null_neq_ends)
  have second: "extend_range ?ker True ?a
      (ex_wavefront_ends\<lparr>offsets := (offsets ex_wavefront_ends)(2 := 7, 3 := 10),
                          k_alignment_end := 3\<rparr>) 0 1
      = Some (True, ex_wavefront_ends\<lparr>offsets := (offsets ex_wavefront_ends)(2 := 7, 3 := 10, 0 := 7),
                                        k_alignment_end := 0\<rparr>)"
    by (simp add: extend_range.simps [of _ _ _ _ 0] ex_wavefront_ends_fields ex_aligner_kernel
        ex_aligner_with_fields ex_terminal null_neq)
  show "endsfree_dispatch ex_externs_reversed ?a ex_wavefront_ends 2
   = Some (True, ex_wavefront_ends\<lparr>offsets := (offsets ex_wavefront_ends)(2 := 7, 3 := 10, 0 := 7),
                                     k_alignment_end := 0\<rparr>)"
  proof -
    have n: "wavefront_compute_num_threads ex_externs_reversed a klo khi = 2"
      and par: "WFA_PARALLEL ex_externs_reversed" for a klo khi
      by (simp_all add: ex_externs_reversed_def ex_externs_def)
    show ?thesis
      by (simp add: endsfree_dispatch_def n par ex_wavefront_ends_fields
          parallel_packed_endsfree_eq tr ex_aligner_with_fields first second)
  qed
qed

lemma ex_mid_dispatch:
  "endsfree_dispatch (ex_externs 1 d) (ex_aligner_with ex_wavefront_mid) ex_wavefront_mid 2
   = Some (False, ex_wavefront_mid\<lparr>offsets := (offsets ex_wavefront)(1 := 4, 2 := 7)\<rparr>)"
  "endsfree_dispatch (ex_externs 2 d) (ex_aligner_with ex_wavefront_mid) ex_wavefront_mid 2
   = Some (False, ex_wavefront_mid\<lparr>offsets := (offsets ex_wavefront)(1 := 4, 2 := 7)\<rparr>)"
  by (simp_all add: endsfree_dispatch_def ex_externs_fields ex_wavefront_mid_fields
      packed_endsfree_eq parallel_packed_endsfree_eq ex_thread_ranges
      ex_aligner_with_fields extend_range.simps ex_wavefront_fields ex_aligner_kernel
      ex_terminal null_neq)

lemma ex_mid_results:
  "wavefront_extend_endsfree (ex_externs 1 d) (ex_aligner_with ex_wavefront_mid) 2
   = Some (False, store_mwavefront (ex_aligner_with ex_wavefront_mid) 2
       (ex_wavefront_mid\<lparr>offsets := (offsets ex_wavefront)(1 := 4, 2 := 7)\<rparr>))"
  "wavefront_extend_endsfree (ex_externs 2 d) (ex_aligner_with ex_wavefront_mid) 2
   = Some (False, store_mwavefront (ex_aligner_with ex_wavefront_mid) 2
       (ex_wavefront_mid\<lparr>offsets := (offsets ex_wavefront)(1 := 4, 2 := 7)\<rparr>))"
  by (simp_all add: wavefront_extend_endsfree_def ex_aligner_with_fields
      ex_mid_dispatch extend_finish_def store_mwavefront_fields)

lemma ex_mid_not_terminal:
  "\<not> range_terminal (wavefront_extend_matches_packed_kernel (ex_aligner_with ex_wavefront_mid))
       (ex_aligner_with ex_wavefront_mid) ex_wavefront_mid 1 3"
  using range_terminal_first [of 1 3 "wavefront_extend_matches_packed_kernel ex_aligner"
      ex_aligner ex_wavefront_mid]
    range_terminal_first [of 2 3 "wavefront_extend_matches_packed_kernel ex_aligner"
      ex_aligner ex_wavefront_mid]
  by (simp add: range_terminal_single ex_aligner_with_fields ex_wavefront_mid_fields
      ex_wavefront_fields ex_aligner_kernel ex_terminal)

lemma result_offset_set_status:
  "result_offset (Some (r, set_status (store_mwavefront a score mw) s)) score k
   = Some (offsets mw k)"
  "result_k_alignment_end (Some (r, set_status (store_mwavefront a score mw) s)) score
   = Some (k_alignment_end mw)"
  by (simp_all add: result_offset_def result_k_alignment_end_def set_status_def
      store_mwavefront_def)

theorem workers_offsets_counterexample:
  "covers (lo ex_wavefront) (hi ex_wavefront) (thread_ranges (ex_externs 2 False) 2 0 3)
   \<and> result_offset (wavefront_extend_endsfree (ex_externs 1 False) ex_aligner 2) 2 2 = Some 6
   \<and> result_offset (wavefront_extend_endsfree (ex_externs 2 False) ex_aligner 2) 2 2 = Some 7
   \<and> covers (lo ex_wavefront_ends) (hi ex_wavefront_ends)
       (thread_ranges (ex_externs 2 False) 2 0 3)
   \<and> result_k_alignment_end
       (wavefront_extend_endsfree (ex_externs 1 False) (ex_aligner_with ex_wavefront_ends) 2) 2
     = Some 0
   \<and> result_k_alignment_end
       (wavefront_extend_endsfree (ex_externs 2 False) (ex_aligner_with ex_wavefront_ends) 2) 2
     = Some 3"
  by (simp add: ex_endsfree_results ex_ends_results result_offset_set_status
      ex_wavefront_fields ex_wavefront_ends_fields ex_thread_ranges ex_covers)


text \<open>
  C4, as amended. With \<open>WFA_PARALLEL\<close> and a team of workers whose sub-ranges cover \<open>[lo,hi]\<close>
  of the wavefront, whatever the size of the team and the order in which its workers run:
  the end-to-end function, and the custom function when the form is not ends-free, return
  with several workers exactly what they return with one worker (verdict, offsets,
  \<open>k_alignment_end\<close>, status). The ends-free function, and the custom function when the
  form is ends-free, return, whenever both runs return, the same verdict and the same
  status; on a wavefront with no terminal diagonal they return the same aligner; on a
  wavefront with a terminal diagonal the two aligners differ at most in the wavefront of
  the score, and there: \<open>lo\<close> and \<open>hi\<close> are the same; the offsets are the same at every
  diagonal up to the first terminal one, that one included, and outside \<open>[lo,hi]\<close>; every
  later diagonal keeps its offset with one worker, and with several workers holds either
  that offset or its extension; \<open>k_alignment_end\<close> is the first terminal diagonal with one
  worker, and with several workers a terminal diagonal of \<open>[lo,hi]\<close>, not before the first,
  that holds its extension. Both runs return when the extension of each diagonal of the
  range that is not NULL does (the kernel's reads are inside the buffers, the custom
  matching loop ends).
\<close>

theorem workers_one_or_many:
  assumes "WFA_PARALLEL ext"
    and "modular_score wf_aligner score0 = Some score"
    and "mwavefronts (wf_components wf_aligner) score = Some mwavefront"
    and "covers (lo mwavefront) (hi mwavefront)
           (thread_ranges ext
              (wavefront_compute_num_threads ext wf_aligner (lo mwavefront) (hi mwavefront))
              (lo mwavefront) (hi mwavefront))"
    and "ext1 = ext\<lparr>wavefront_compute_num_threads := \<lambda>a klo khi. 1\<rparr>"
  shows "wavefront_extend_end2end ext wf_aligner score0
           = wavefront_extend_end2end ext1 wf_aligner score0
    \<and> (span (alignment_form wf_aligner) \<noteq> alignment_endsfree \<longrightarrow>
         wavefront_extend_custom ext wf_aligner score0
           = wavefront_extend_custom ext1 wf_aligner score0)
    \<and> (\<forall>(extend_fn, ker, endsfree) \<in>
          {(wavefront_extend_endsfree, wavefront_extend_matches_packed_kernel wf_aligner, True),
           (wavefront_extend_custom, custom_kernel wf_aligner,
              span (alignment_form wf_aligner) = alignment_endsfree)}.
         \<forall>rN aN r1 a1.
           extend_fn ext wf_aligner score0 = Some (rN, aN)
             \<and> extend_fn ext1 wf_aligner score0 = Some (r1, a1)
           \<longrightarrow> rN = r1 \<and> status (align_status aN) = status (align_status a1)
             \<and> (\<not> (endsfree \<and> range_terminal ker wf_aligner mwavefront
                                  (lo mwavefront) (hi mwavefront))
                 \<longrightarrow> aN = a1)
             \<and> (endsfree \<and> range_terminal ker wf_aligner mwavefront
                               (lo mwavefront) (hi mwavefront) \<longrightarrow>
                  (\<exists>mwN mw1.
                     mwavefronts (wf_components a1) score = Some mw1
                     \<and> aN = a1\<lparr>wf_components := (wf_components a1)
                            \<lparr>mwavefronts :=
                               (mwavefronts (wf_components a1))(score := Some mwN)\<rparr>\<rparr>
                     \<and> lo mwN = lo mw1 \<and> hi mwN = hi mw1
                     \<and> (\<forall>j. \<not> range_terminal ker wf_aligner mwavefront (lo mwavefront) (j - 1)
                              \<or> j < lo mwavefront \<or> hi mwavefront < j
                            \<longrightarrow> offsets mwN j = offsets mw1 j)
                     \<and> (\<forall>j. range_terminal ker wf_aligner mwavefront (lo mwavefront) (j - 1)
                            \<longrightarrow> offsets mw1 j = offsets mwavefront j)
                     \<and> (\<forall>j. offsets mwN j = offsets mwavefront j
                            \<or> offsets mwavefront j \<noteq> WAVEFRONT_OFFSET_NULL
                              \<and> ker j (offsets mwavefront j) = Some (offsets mwN j))
                     \<and> first_terminal ker wf_aligner mwavefront (lo mwavefront) (hi mwavefront)
                         (k_alignment_end mw1)
                     \<and> k_alignment_end mw1 \<le> k_alignment_end mwN
                     \<and> k_alignment_end mwN \<le> hi mwavefront
                     \<and> range_terminal ker wf_aligner mwavefront
                         (k_alignment_end mwN) (k_alignment_end mwN)
                     \<and> ker (k_alignment_end mwN) (offsets mwavefront (k_alignment_end mwN))
                         = Some (offsets mwN (k_alignment_end mwN)))))
    \<and> ((\<forall>k. lo mwavefront \<le> k \<and> k \<le> hi mwavefront
              \<and> offsets mwavefront k \<noteq> WAVEFRONT_OFFSET_NULL \<longrightarrow>
            wavefront_extend_matches_packed_kernel wf_aligner k (offsets mwavefront k) \<noteq> None)
       \<longrightarrow> wavefront_extend_endsfree ext wf_aligner score0 \<noteq> None
           \<and> wavefront_extend_endsfree ext1 wf_aligner score0 \<noteq> None)
    \<and> ((\<forall>k. lo mwavefront \<le> k \<and> k \<le> hi mwavefront
              \<and> offsets mwavefront k \<noteq> WAVEFRONT_OFFSET_NULL \<longrightarrow>
            custom_match_loop (match_funct wf_aligner)
              (WAVEFRONT_V k (offsets mwavefront k)) (WAVEFRONT_H k (offsets mwavefront k))
              (offsets mwavefront k) \<noteq> None)
       \<longrightarrow> wavefront_extend_custom ext wf_aligner score0 \<noteq> None
           \<and> wavefront_extend_custom ext1 wf_aligner score0 \<noteq> None)"
  (is "?E \<and> ?C \<and> (\<forall>(extend_fn, ker, endsfree) \<in> ?S. \<forall>rN aN r1 a1.
         ?H extend_fn rN aN r1 a1 \<longrightarrow> ?R ker endsfree rN aN r1 a1) \<and> ?T1 \<and> ?T2")
proof -
  let ?ef = "span (alignment_form wf_aligner) = alignment_endsfree"
  let ?pk = "wavefront_extend_matches_packed_kernel wf_aligner"
  let ?ck = "custom_kernel wf_aligner"
  note one = assms(5)
  note par = assms(1) and cov = assms(4)
  from dispatch_workers [OF disjI2 [OF conjI [OF par cov]], of score] obtain rs where
    rs: "covers (lo mwavefront) (hi mwavefront) rs"
    and e2eN: "end2end_dispatch ext wf_aligner mwavefront score
         = map_option (wavefront_extend_end2end_check_termination wf_aligner)
             (map_option snd (parallel_range ?pk False wf_aligner mwavefront False rs))"
    and efN: "endsfree_dispatch ext wf_aligner mwavefront score
         = parallel_range ?pk True wf_aligner mwavefront False rs"
    and cuN: "\<And>ef. custom_dispatch ext wf_aligner mwavefront score ef
         = parallel_range ?ck ef wf_aligner mwavefront False rs"
    by blast
  have fin: "extend_finish (ext\<lparr>wavefront_compute_num_threads := \<lambda>a klo khi. 1\<rparr>)
      = extend_finish ext"
    by (intro ext) (simp add: extend_finish_def)
  have e2e: "wavefront_extend_end2end ext wf_aligner score0
      = wavefront_extend_end2end ext1 wf_aligner score0"
    unfolding one wavefront_extend_end2end_def fin
    by (simp add: assms(2,3) e2eN dispatch_one_worker parallel_range_no_check_eq [OF rs])
  have cu: "wavefront_extend_custom ext wf_aligner score0
      = wavefront_extend_custom ext1 wf_aligner score0" if "\<not> ?ef"
    unfolding one wavefront_extend_custom_def fin
    using that
    by (simp add: assms(2,3) cuN dispatch_one_worker parallel_range_no_check_eq [OF rs])
  have ef: "?R ?pk True rN aN r1 a1"
    if "wavefront_extend_endsfree ext wf_aligner score0 = Some (rN, aN)"
      and "wavefront_extend_endsfree ext1 wf_aligner score0 = Some (r1, a1)"
    for rN aN r1 a1
  proof -
    from that(1) obtain dN mwN where
      dN: "parallel_range ?pk True wf_aligner mwavefront False rs = Some (dN, mwN)"
      and fN: "extend_finish ext (store_mwavefront wf_aligner score mwN) score dN = (rN, aN)"
      by (auto simp: wavefront_extend_endsfree_def assms(2,3) efN split: option.splits)
    from that(2) obtain d1 mw1 where
      d1: "extend_range ?pk True wf_aligner mwavefront (lo mwavefront) (hi mwavefront)
           = Some (d1, mw1)"
      and f1: "extend_finish ext (store_mwavefront wf_aligner score mw1) score d1 = (r1, a1)"
      by (auto simp: one wavefront_extend_endsfree_def assms(2,3) dispatch_one_worker
          extend_finish_one_worker split: option.splits)
    from orchestrator_agree [OF rs dN d1 fN f1] show ?thesis .
  qed
  have cu2: "?R ?ck ?ef rN aN r1 a1"
    if "wavefront_extend_custom ext wf_aligner score0 = Some (rN, aN)"
      and "wavefront_extend_custom ext1 wf_aligner score0 = Some (r1, a1)"
    for rN aN r1 a1
  proof (cases ?ef)
    case False
    with cu that show ?thesis by simp
  next
    case True
    from that(1) True obtain dN mwN where
      dN: "parallel_range ?ck ?ef wf_aligner mwavefront False rs = Some (dN, mwN)"
      and fN: "extend_finish ext (store_mwavefront wf_aligner score mwN) score dN = (rN, aN)"
      by (auto simp: wavefront_extend_custom_def custom_recheck_def assms(2,3) cuN
          split: option.splits)
    from that(2) True obtain d1 mw1 where
      d1: "extend_range ?ck ?ef wf_aligner mwavefront (lo mwavefront) (hi mwavefront)
           = Some (d1, mw1)"
      and f1: "extend_finish ext (store_mwavefront wf_aligner score mw1) score d1 = (r1, a1)"
      by (auto simp: one wavefront_extend_custom_def custom_recheck_def assms(2,3)
          dispatch_one_worker extend_finish_one_worker split: option.splits)
    from orchestrator_agree [OF rs dN d1 fN f1] show ?thesis .
  qed
  have total_ef: "wavefront_extend_endsfree ext wf_aligner score0 \<noteq> None
        \<and> wavefront_extend_endsfree ext1 wf_aligner score0 \<noteq> None"
    if ker: "\<forall>k. lo mwavefront \<le> k \<and> k \<le> hi mwavefront
        \<and> offsets mwavefront k \<noteq> WAVEFRONT_OFFSET_NULL \<longrightarrow>
      ?pk k (offsets mwavefront k) \<noteq> None"
  proof -
    from parallel_range_total [OF rs, of mwavefront ?pk True wf_aligner False] ker
    have "endsfree_dispatch ext wf_aligner mwavefront score \<noteq> None"
      by (auto simp: efN)
    moreover
    from extend_range_total [of "lo mwavefront" "hi mwavefront" mwavefront ?pk True wf_aligner] ker
    have "endsfree_dispatch (ext\<lparr>wavefront_compute_num_threads := \<lambda>a klo khi. 1\<rparr>)
            wf_aligner mwavefront score \<noteq> None"
      by (auto simp: dispatch_one_worker)
    ultimately show ?thesis
      by (auto simp: one wavefront_extend_endsfree_def assms(2,3) split: option.splits)
  qed
  have total_cu: "wavefront_extend_custom ext wf_aligner score0 \<noteq> None
        \<and> wavefront_extend_custom ext1 wf_aligner score0 \<noteq> None"
    if "\<forall>k. lo mwavefront \<le> k \<and> k \<le> hi mwavefront
        \<and> offsets mwavefront k \<noteq> WAVEFRONT_OFFSET_NULL \<longrightarrow>
      custom_match_loop (match_funct wf_aligner)
        (WAVEFRONT_V k (offsets mwavefront k)) (WAVEFRONT_H k (offsets mwavefront k))
        (offsets mwavefront k) \<noteq> None"
  proof -
    from that have ker: "\<forall>k. lo mwavefront \<le> k \<and> k \<le> hi mwavefront
        \<and> offsets mwavefront k \<noteq> WAVEFRONT_OFFSET_NULL \<longrightarrow>
      ?ck k (offsets mwavefront k) \<noteq> None"
      by (simp add: custom_kernel_def)
    from parallel_range_total [OF rs, of mwavefront ?ck ?ef wf_aligner False] ker
    have "custom_dispatch ext wf_aligner mwavefront score ?ef \<noteq> None"
      by (auto simp: cuN)
    moreover
    from extend_range_total [of "lo mwavefront" "hi mwavefront" mwavefront ?ck ?ef wf_aligner] ker
    have "custom_dispatch (ext\<lparr>wavefront_compute_num_threads := \<lambda>a klo khi. 1\<rparr>)
            wf_aligner mwavefront score ?ef \<noteq> None"
      by (auto simp: dispatch_one_worker)
    ultimately show ?thesis
      by (auto simp: one wavefront_extend_custom_def assms(2,3) split: option.splits prod.splits)
  qed
  have both: "\<forall>(extend_fn, ker, endsfree) \<in> ?S. \<forall>rN aN r1 a1.
      ?H extend_fn rN aN r1 a1 \<longrightarrow> ?R ker endsfree rN aN r1 a1"
  proof (intro ballI)
    fix x
    assume "x \<in> ?S"
    then consider "x = (wavefront_extend_endsfree, ?pk, True)"
      | "x = (wavefront_extend_custom, ?ck, ?ef)"
      by blast
    then show "case x of (extend_fn, ker, endsfree) \<Rightarrow> \<forall>rN aN r1 a1.
      ?H extend_fn rN aN r1 a1 \<longrightarrow> ?R ker endsfree rN aN r1 a1"
    proof cases
      case 1
      show ?thesis
        unfolding 1 prod.case by (intro allI impI, elim conjE) (rule ef, assumption+)
    next
      case 2
      show ?thesis
        unfolding 2 prod.case by (intro allI impI, elim conjE) (rule cu2, assumption+)
    qed
  qed
  have t1: ?T1 by (rule impI) (erule total_ef)
  have t2: ?T2 by (rule impI) (erule total_cu)
  have c: ?C by (rule impI) (erule cu)
  show ?thesis
    by (rule conjI [OF e2e conjI [OF c conjI [OF both conjI [OF t1 t2]]]])
qed


lemma ex_ends_terminal:
  "range_terminal (wavefront_extend_matches_packed_kernel (ex_aligner_with ex_wavefront_ends))
     (ex_aligner_with ex_wavefront_ends) ex_wavefront_ends 0 3"
  using range_terminal_first [of 0 3 "wavefront_extend_matches_packed_kernel ex_aligner"
      ex_aligner ex_wavefront_ends]
  by (simp add: range_terminal_single ex_aligner_with_fields ex_wavefront_ends_fields
      ex_aligner_kernel ex_terminal null_neq)

theorem workers_one_or_many_witness:
  "wavefront_extend_end2end (ex_externs 2 False) ex_aligner 2
     = wavefront_extend_end2end (ex_externs 1 False) ex_aligner 2
   \<and> wavefront_extend_custom (ex_externs 2 False) ex_aligner_e2e 0
     = wavefront_extend_custom (ex_externs 1 False) ex_aligner_e2e 0
   \<and> wavefront_extend_endsfree (ex_externs 2 False) (ex_aligner_with ex_wavefront_mid) 2
     = wavefront_extend_endsfree (ex_externs 1 False) (ex_aligner_with ex_wavefront_mid) 2
   \<and> wavefront_extend_endsfree (ex_externs 1 False) (ex_aligner_with ex_wavefront_mid) 2 \<noteq> None
   \<and> map_option fst
       (wavefront_extend_endsfree (ex_externs 2 False) (ex_aligner_with ex_wavefront_ends) 2)
     = map_option fst
       (wavefront_extend_endsfree (ex_externs 1 False) (ex_aligner_with ex_wavefront_ends) 2)
   \<and> result_offset
       (wavefront_extend_endsfree (ex_externs 2 False) (ex_aligner_with ex_wavefront_ends) 2) 2 0
     = result_offset
       (wavefront_extend_endsfree (ex_externs 1 False) (ex_aligner_with ex_wavefront_ends) 2) 2 0
   \<and> first_terminal (wavefront_extend_matches_packed_kernel (ex_aligner_with ex_wavefront_ends))
       (ex_aligner_with ex_wavefront_ends) ex_wavefront_ends 0 3 0"
proof -
  have one: "ex_externs 1 False
      = (ex_externs 2 False)\<lparr>wavefront_compute_num_threads := \<lambda>a klo khi. 1\<rparr>"
    by (simp add: ex_externs_def)
  have mw: "mwavefronts (wf_components ex_aligner) 2 = Some ex_wavefront"
    by (simp add: ex_aligner_fields)
  have cov: "covers (lo ex_wavefront) (hi ex_wavefront)
      (thread_ranges (ex_externs 2 False)
         (wavefront_compute_num_threads (ex_externs 2 False) ex_aligner
            (lo ex_wavefront) (hi ex_wavefront))
         (lo ex_wavefront) (hi ex_wavefront))"
    by (simp add: ex_externs_fields ex_wavefront_fields ex_thread_ranges ex_covers)
  note th = workers_one_or_many [OF ex_externs_fields(1) ex_modular_score(1) mw cov one]
  have mw0: "mwavefronts (wf_components ex_aligner_e2e) 0 = Some ex_wavefront0"
    by (simp add: ex_aligner_e2e_fields)
  have cov0: "covers (lo ex_wavefront0) (hi ex_wavefront0)
      (thread_ranges (ex_externs 2 False)
         (wavefront_compute_num_threads (ex_externs 2 False) ex_aligner_e2e
            (lo ex_wavefront0) (hi ex_wavefront0))
         (lo ex_wavefront0) (hi ex_wavefront0))"
    by (simp add: ex_externs_fields ex_wavefront0_fields ex_thread_ranges ex_covers)
  note th0 = workers_one_or_many [OF ex_externs_fields(1) ex_modular_score(3) mw0 cov0 one]
  let ?am = "ex_aligner_with ex_wavefront_mid"
  have mwm: "mwavefronts (wf_components ?am) 2 = Some ex_wavefront_mid"
    by (simp add: ex_aligner_with_fields)
  have covm: "covers (lo ex_wavefront_mid) (hi ex_wavefront_mid)
      (thread_ranges (ex_externs 2 False)
         (wavefront_compute_num_threads (ex_externs 2 False) ?am
            (lo ex_wavefront_mid) (hi ex_wavefront_mid))
         (lo ex_wavefront_mid) (hi ex_wavefront_mid))"
    by (simp add: ex_externs_fields ex_wavefront_mid_fields ex_thread_ranges ex_covers)
  note th_mid = workers_one_or_many [OF ex_externs_fields(1) ex_aligner_with_fields(4) mwm covm one]
  let ?ae = "ex_aligner_with ex_wavefront_ends"
  let ?ke = "wavefront_extend_matches_packed_kernel ?ae"
  have mwe: "mwavefronts (wf_components ?ae) 2 = Some ex_wavefront_ends"
    by (simp add: ex_aligner_with_fields)
  have cove: "covers (lo ex_wavefront_ends) (hi ex_wavefront_ends)
      (thread_ranges (ex_externs 2 False)
         (wavefront_compute_num_threads (ex_externs 2 False) ?ae
            (lo ex_wavefront_ends) (hi ex_wavefront_ends))
         (lo ex_wavefront_ends) (hi ex_wavefront_ends))"
    by (simp add: ex_externs_fields ex_wavefront_ends_fields ex_thread_ranges ex_covers)
  note th_ends = workers_one_or_many [OF ex_externs_fields(1) ex_aligner_with_fields(4) mwe cove one]
  from th have c1: "wavefront_extend_end2end (ex_externs 2 False) ex_aligner 2
      = wavefront_extend_end2end (ex_externs 1 False) ex_aligner 2"
    by (rule conjunct1)
  from th0 [THEN conjunct2, THEN conjunct1]
  have c2: "wavefront_extend_custom (ex_externs 2 False) ex_aligner_e2e 0
      = wavefront_extend_custom (ex_externs 1 False) ex_aligner_e2e 0"
    by (simp add: ex_aligner_e2e_fields)
  note bm = th_mid [THEN conjunct2, THEN conjunct2, THEN conjunct1, THEN bspec,
      of "(wavefront_extend_endsfree, wavefront_extend_matches_packed_kernel ?am, True)",
      unfolded prod.case, OF insertI1, rule_format,
      OF conjI [OF ex_mid_results(2) ex_mid_results(1)]]
  from bm [THEN conjunct2, THEN conjunct2, THEN conjunct1] ex_mid_not_terminal
  have c3: "wavefront_extend_endsfree (ex_externs 2 False) ?am 2
      = wavefront_extend_endsfree (ex_externs 1 False) ?am 2"
    by (simp add: ex_mid_results ex_wavefront_mid_fields)
  have c4: "wavefront_extend_endsfree (ex_externs 1 False) ?am 2 \<noteq> None"
    by (simp add: ex_mid_results)
  note be = th_ends [THEN conjunct2, THEN conjunct2, THEN conjunct1, THEN bspec,
      of "(wavefront_extend_endsfree, ?ke, True)",
      unfolded prod.case, OF insertI1, rule_format,
      OF conjI [OF ex_ends_results(2) ex_ends_results(1)]]
  from be [THEN conjunct1]
  have c5: "map_option fst (wavefront_extend_endsfree (ex_externs 2 False) ?ae 2)
      = map_option fst (wavefront_extend_endsfree (ex_externs 1 False) ?ae 2)"
    by (simp add: ex_ends_results)
  have t: "True \<and> range_terminal ?ke ?ae ex_wavefront_ends (lo ex_wavefront_ends)
      (hi ex_wavefront_ends)"
    using ex_ends_terminal by (simp add: ex_wavefront_ends_fields)
  from be [THEN conjunct2, THEN conjunct2, THEN conjunct2, THEN mp, OF t]
  obtain mwN mw1 where
    st: "mwavefronts (wf_components (set_status (store_mwavefront ?ae 2
            (ex_wavefront_ends\<lparr>offsets := (offsets ex_wavefront_ends)(0 := 7),
                                k_alignment_end := 0\<rparr>)) WF_STATUS_SUCCESSFUL)) 2 = Some mw1"
    and eqN: "set_status (store_mwavefront ?ae 2
            (ex_wavefront_ends\<lparr>offsets := (offsets ex_wavefront_ends)(0 := 7, 2 := 7, 3 := 10),
                                k_alignment_end := 3\<rparr>)) WF_STATUS_SUCCESSFUL
          = (set_status (store_mwavefront ?ae 2
            (ex_wavefront_ends\<lparr>offsets := (offsets ex_wavefront_ends)(0 := 7),
                                k_alignment_end := 0\<rparr>)) WF_STATUS_SUCCESSFUL)
            \<lparr>wf_components := (wf_components (set_status (store_mwavefront ?ae 2
            (ex_wavefront_ends\<lparr>offsets := (offsets ex_wavefront_ends)(0 := 7),
                                k_alignment_end := 0\<rparr>)) WF_STATUS_SUCCESSFUL))
                   \<lparr>mwavefronts := (mwavefronts (wf_components (set_status (store_mwavefront ?ae 2
            (ex_wavefront_ends\<lparr>offsets := (offsets ex_wavefront_ends)(0 := 7),
                                k_alignment_end := 0\<rparr>)) WF_STATUS_SUCCESSFUL)))(2 := Some mwN)\<rparr>\<rparr>"
    and off: "\<forall>j. \<not> range_terminal ?ke ?ae ex_wavefront_ends (lo ex_wavefront_ends) (j - 1)
                \<or> j < lo ex_wavefront_ends \<or> hi ex_wavefront_ends < j
              \<longrightarrow> offsets mwN j = offsets mw1 j"
    and ft: "first_terminal ?ke ?ae ex_wavefront_ends (lo ex_wavefront_ends)
               (hi ex_wavefront_ends) (k_alignment_end mw1)"
    by (elim exE conjE) (rule that, assumption+)
  from st have mw1: "mw1 = ex_wavefront_ends\<lparr>offsets := (offsets ex_wavefront_ends)(0 := 7),
                                k_alignment_end := 0\<rparr>"
    by (simp add: set_status_def store_mwavefront_def)
  from arg_cong [OF eqN, of "\<lambda>a. mwavefronts (wf_components a) 2"]
  have mwN: "mwN = ex_wavefront_ends\<lparr>offsets := (offsets ex_wavefront_ends)(0 := 7, 2 := 7, 3 := 10),
                                k_alignment_end := 3\<rparr>"
    by (simp add: set_status_def store_mwavefront_def)
  from off [rule_format, of 0] have "offsets mwN 0 = offsets mw1 0"
    by (simp add: range_terminal_empty ex_wavefront_ends_fields)
  then have c6: "result_offset (wavefront_extend_endsfree (ex_externs 2 False) ?ae 2) 2 0
      = result_offset (wavefront_extend_endsfree (ex_externs 1 False) ?ae 2) 2 0"
    unfolding ex_ends_results result_offset_set_status mw1 [symmetric] mwN [symmetric]
    by simp
  from ft have c7: "first_terminal ?ke ?ae ex_wavefront_ends 0 3 0"
    by (simp add: mw1 ex_wavefront_ends_fields)
  from c1 c2 c3 c4 c5 c6 c7 show ?thesis by (intro conjI)
qed


subsection \<open>The wavefront of the reduced score\<close>

lemma parallel_range_result:
  assumes "covers (lo mw) (hi mw) rs"
    and "parallel_range ker ef a mw False rs = Some (d, mw')"
  shows "lo mw' = lo mw \<and> hi mw' = hi mw
    \<and> (\<forall>j. j < lo mw \<or> hi mw < j \<longrightarrow> offsets mw' j = offsets mw j)
    \<and> (\<forall>j. offsets mw' j = offsets mw j
           \<or> offsets mw j \<noteq> WAVEFRONT_OFFSET_NULL \<and> ker j (offsets mw j) = Some (offsets mw' j))
    \<and> (\<not> (ef \<and> range_terminal ker a mw (lo mw) (hi mw))
         \<longrightarrow> offsets mw' = extended_offsets ker mw (lo mw) (hi mw))"
proof (intro conjI allI impI)
  from parallel_range_k_alignment_end [OF assms(2)]
  show "lo mw' = lo mw" and "hi mw' = hi mw" by simp_all
  show "offsets mw' j = offsets mw j" if "j < lo mw \<or> hi mw < j" for j
    by (rule parallel_range_outside [OF assms]) (use that in blast)
  show "offsets mw' j = offsets mw j
        \<or> offsets mw j \<noteq> WAVEFRONT_OFFSET_NULL \<and> ker j (offsets mw j) = Some (offsets mw' j)"
    for j
    by (rule parallel_range_offsets(2) [OF assms])
  show "offsets mw' = extended_offsets ker mw (lo mw) (hi mw)"
    if "\<not> (ef \<and> range_terminal ker a mw (lo mw) (hi mw))"
  proof -
    from parallel_range_verdict [OF assms] that have "\<not> d" by simp
    with assms(2) parallel_range_not_terminal [OF assms(1), of ker ef a mw False mw']
    show ?thesis by simp
  qed
qed

lemma end2end_check_fields:
  "lo (snd (wavefront_extend_end2end_check_termination a mw)) = lo mw"
  "hi (snd (wavefront_extend_end2end_check_termination a mw)) = hi mw"
  "offsets (snd (wavefront_extend_end2end_check_termination a mw)) = offsets mw"
  by (simp_all add: wavefront_extend_end2end_check_termination_def Let_def)

lemma extend_finish_table:
  assumes "strategy (heuristic a) = wf_heuristic_none"
    and "extend_finish ext (store_mwavefront a s mw) s d = (r, a')"
  shows "mwavefronts (wf_components a') = (mwavefronts (wf_components a))(s := Some mw)"
  using assms
  by (auto simp: extend_finish_def store_mwavefront_def set_status_def split: if_splits)

text \<open>
  C8. Each of the three extension functions uses the score only reduced: with memory-modular
  storage, a scope \<open>M > 0\<close> and a score that is not negative, the index \<open>s\<close> of the table is
  \<open>score mod M\<close>, and without modular storage it is the score itself. The call at \<open>score\<close> is
  the call at \<open>s\<close>; it returns false and leaves the aligner as it is when the table has no
  wavefront at \<open>s\<close>; and when the table has a wavefront at \<open>s\<close>, that wavefront is the one
  extended and put back at \<open>s\<close>, every other slot of the table being left as it was: with
  one worker or workers that cover the range, and no heuristic strategy, the wavefront at
  \<open>s\<close> after the call has the same \<open>lo\<close> and \<open>hi\<close>, holds at each diagonal the offset it had
  or the extension of that offset, and holds the extension of every diagonal of the range
  that is not NULL unless the ends-free check stopped the extension. With a scope \<open>M\<close> the
  call at \<open>M + 2\<close> is the call at \<open>2\<close>.
\<close>

theorem extend_modular_score:
  "\<forall>(extend_fn, ker, endsfree) \<in>
     {(wavefront_extend_end2end, wavefront_extend_matches_packed_kernel wf_aligner, False),
      (wavefront_extend_endsfree, wavefront_extend_matches_packed_kernel wf_aligner, True),
      (wavefront_extend_custom, custom_kernel wf_aligner,
         span (alignment_form wf_aligner) = alignment_endsfree)}.
     (\<forall>s. (if memory_modular (wf_components wf_aligner)
           then 0 < max_score_scope (wf_components wf_aligner) \<and> 0 \<le> score
                \<and> s = score mod max_score_scope (wf_components wf_aligner)
           else s = score)
        \<longrightarrow> extend_fn ext wf_aligner score = extend_fn ext wf_aligner s
          \<and> (mwavefronts (wf_components wf_aligner) s = None
             \<longrightarrow> extend_fn ext wf_aligner score = Some (False, wf_aligner))
          \<and> (\<forall>mwavefront r wf_aligner'.
                mwavefronts (wf_components wf_aligner) s = Some mwavefront
                \<and> strategy (heuristic wf_aligner) = wf_heuristic_none
                \<and> (wavefront_compute_num_threads ext wf_aligner (lo mwavefront) (hi mwavefront) = 1
                   \<or> WFA_PARALLEL ext
                     \<and> covers (lo mwavefront) (hi mwavefront)
                          (thread_ranges ext
                             (wavefront_compute_num_threads ext wf_aligner
                                (lo mwavefront) (hi mwavefront))
                             (lo mwavefront) (hi mwavefront)))
                \<and> extend_fn ext wf_aligner score = Some (r, wf_aligner')
                \<longrightarrow> (\<exists>mwavefront'.
                       mwavefronts (wf_components wf_aligner')
                         = (mwavefronts (wf_components wf_aligner))(s := Some mwavefront')
                       \<and> lo mwavefront' = lo mwavefront \<and> hi mwavefront' = hi mwavefront
                       \<and> (\<forall>j. j < lo mwavefront \<or> hi mwavefront < j
                              \<longrightarrow> offsets mwavefront' j = offsets mwavefront j)
                       \<and> (\<forall>j. offsets mwavefront' j = offsets mwavefront j
                              \<or> offsets mwavefront j \<noteq> WAVEFRONT_OFFSET_NULL
                                \<and> ker j (offsets mwavefront j) = Some (offsets mwavefront' j))
                       \<and> (\<not> (endsfree \<and> range_terminal ker wf_aligner mwavefront
                                            (lo mwavefront) (hi mwavefront))
                           \<longrightarrow> offsets mwavefront'
                               = extended_offsets ker mwavefront
                                   (lo mwavefront) (hi mwavefront)))))
     \<and> (memory_modular (wf_components wf_aligner)
          \<and> 0 < max_score_scope (wf_components wf_aligner)
        \<longrightarrow> extend_fn ext wf_aligner (max_score_scope (wf_components wf_aligner) + 2)
            = extend_fn ext wf_aligner 2)"
  (is "\<forall>(extend_fn, ker, endsfree) \<in> ?S.
         (\<forall>s. ?idx s \<longrightarrow> ?same extend_fn s \<and> (?absent s \<longrightarrow> ?no extend_fn)
            \<and> (\<forall>mwavefront r wf_aligner'.
                 ?H extend_fn s mwavefront r wf_aligner'
                 \<longrightarrow> (\<exists>mwavefront'. ?R ker endsfree s mwavefront wf_aligner' mwavefront')))
         \<and> ?plus extend_fn")
proof -
  let ?M = "max_score_scope (wf_components wf_aligner)"
  let ?pk = "wavefront_extend_matches_packed_kernel wf_aligner"
  let ?ck = "custom_kernel wf_aligner"
  let ?ef = "span (alignment_form wf_aligner) = alignment_endsfree"
  have idx: "modular_score wf_aligner score = Some s" and idem: "modular_score wf_aligner s = Some s"
    if "?idx s" for s
  proof -
    show "modular_score wf_aligner score = Some s"
    proof (cases "memory_modular (wf_components wf_aligner)")
      case True
      with that modular_score_reduce [of wf_aligner score] show ?thesis by simp
    next
      case False
      with that show ?thesis by (simp add: modular_score_def)
    qed
    show "modular_score wf_aligner s = Some s"
    proof (cases "memory_modular (wf_components wf_aligner)")
      case True
      with that modular_score_reduce [of wf_aligner s] show ?thesis by simp
    next
      case False
      then show ?thesis by (simp add: modular_score_def)
    qed
  qed
  have same: "?same wavefront_extend_end2end s" "?same wavefront_extend_endsfree s"
    "?same wavefront_extend_custom s" if "?idx s" for s
    using extend_cong_score [of wf_aligner score s ext] idx [OF that] idem [OF that]
    by simp_all
  have absent: "?no wavefront_extend_end2end" "?no wavefront_extend_endsfree"
    "?no wavefront_extend_custom" if "?idx s" "?absent s" for s
    using extend_absent [OF idx [OF that(1)] that(2), of ext] by simp_all
  have plus: "?plus wavefront_extend_end2end" "?plus wavefront_extend_endsfree"
    "?plus wavefront_extend_custom"
    using extend_cong_score [OF modular_score_plus_scope, of wf_aligner ext] by simp_all
  have e2e: "\<exists>mwavefront'. ?R ?pk False s mwavefront wf_aligner' mwavefront'"
    if s: "?idx s" and h: "?H wavefront_extend_end2end s mwavefront r wf_aligner'"
    for s mwavefront r wf_aligner'
  proof -
    note mw = h [THEN conjunct1]
      and none = h [THEN conjunct2, THEN conjunct1]
      and workers = h [THEN conjunct2, THEN conjunct2, THEN conjunct1]
      and run = h [THEN conjunct2, THEN conjunct2, THEN conjunct2]
    from dispatch_workers [OF workers, of s] obtain rs where
      rs: "covers (lo mwavefront) (hi mwavefront) rs"
      and d: "end2end_dispatch ext wf_aligner mwavefront s
         = map_option (wavefront_extend_end2end_check_termination wf_aligner)
             (map_option snd (parallel_range ?pk False wf_aligner mwavefront False rs))"
      by blast
    from run obtain p where
      par0: "parallel_range ?pk False wf_aligner mwavefront False rs = Some p"
      and fin0: "(case wavefront_extend_end2end_check_termination wf_aligner (snd p) of
            (end_reached, mwavefront') \<Rightarrow>
              Some (extend_finish ext (store_mwavefront wf_aligner s mwavefront') s end_reached))
          = Some (r, wf_aligner')"
      by (cases "parallel_range ?pk False wf_aligner mwavefront False rs")
        (simp_all add: wavefront_extend_end2end_def idx [OF s] mw d)
    obtain d0 mw0 where p: "p = (d0, mw0)" by (cases p)
    obtain e1 mw1 where
      chk: "wavefront_extend_end2end_check_termination wf_aligner mw0 = (e1, mw1)"
      by (cases "wavefront_extend_end2end_check_termination wf_aligner mw0")
    from par0 have par: "parallel_range ?pk False wf_aligner mwavefront False rs = Some (d0, mw0)"
      by (simp add: p)
    from fin0 have fin: "extend_finish ext (store_mwavefront wf_aligner s mw1) s e1
        = (r, wf_aligner')"
      by (simp add: p chk)
    from end2end_check_fields [of wf_aligner mw0]
    have fields: "lo mw1 = lo mw0" "hi mw1 = hi mw0" "offsets mw1 = offsets mw0"
      by (simp_all add: chk)
    have "?R ?pk False s mwavefront wf_aligner' mw1"
      unfolding fields
      by (rule conjI [OF extend_finish_table [OF none fin] parallel_range_result [OF rs par]])
    then show ?thesis by (rule exI [of _ mw1])
  qed
  have ef: "\<exists>mwavefront'. ?R ?pk True s mwavefront wf_aligner' mwavefront'"
    if s: "?idx s" and h: "?H wavefront_extend_endsfree s mwavefront r wf_aligner'"
    for s mwavefront r wf_aligner'
  proof -
    note mw = h [THEN conjunct1]
      and none = h [THEN conjunct2, THEN conjunct1]
      and workers = h [THEN conjunct2, THEN conjunct2, THEN conjunct1]
      and run = h [THEN conjunct2, THEN conjunct2, THEN conjunct2]
    from dispatch_workers [OF workers, of s] obtain rs where
      rs: "covers (lo mwavefront) (hi mwavefront) rs"
      and d: "endsfree_dispatch ext wf_aligner mwavefront s
         = parallel_range ?pk True wf_aligner mwavefront False rs"
      by blast
    from run obtain p where
      par0: "parallel_range ?pk True wf_aligner mwavefront False rs = Some p"
      and fin0: "(case p of
            (end_reached, mwavefront') \<Rightarrow>
              Some (extend_finish ext (store_mwavefront wf_aligner s mwavefront') s end_reached))
          = Some (r, wf_aligner')"
      by (cases "parallel_range ?pk True wf_aligner mwavefront False rs")
        (simp_all add: wavefront_extend_endsfree_def idx [OF s] mw d)
    obtain d0 mw0 where p: "p = (d0, mw0)" by (cases p)
    from par0 have par: "parallel_range ?pk True wf_aligner mwavefront False rs = Some (d0, mw0)"
      by (simp add: p)
    from fin0 have fin: "extend_finish ext (store_mwavefront wf_aligner s mw0) s d0
        = (r, wf_aligner')"
      by (simp add: p)
    have "?R ?pk True s mwavefront wf_aligner' mw0"
      by (rule conjI [OF extend_finish_table [OF none fin] parallel_range_result [OF rs par]])
    then show ?thesis by (rule exI [of _ mw0])
  qed
  have cu: "\<exists>mwavefront'. ?R ?ck ?ef s mwavefront wf_aligner' mwavefront'"
    if s: "?idx s" and h: "?H wavefront_extend_custom s mwavefront r wf_aligner'"
    for s mwavefront r wf_aligner'
  proof -
    note mw = h [THEN conjunct1]
      and none = h [THEN conjunct2, THEN conjunct1]
      and workers = h [THEN conjunct2, THEN conjunct2, THEN conjunct1]
      and run = h [THEN conjunct2, THEN conjunct2, THEN conjunct2]
    from dispatch_workers [OF workers, of s] obtain rs where
      rs: "covers (lo mwavefront) (hi mwavefront) rs"
      and d: "\<And>ef. custom_dispatch ext wf_aligner mwavefront s ef
         = parallel_range ?ck ef wf_aligner mwavefront False rs"
      by blast
    from run obtain p where
      par0: "parallel_range ?ck ?ef wf_aligner mwavefront False rs = Some p"
      and fin0: "(case custom_recheck wf_aligner ?ef p of
            (end_reached, mwavefront') \<Rightarrow>
              Some (extend_finish ext (store_mwavefront wf_aligner s mwavefront') s end_reached))
          = Some (r, wf_aligner')"
      by (cases "parallel_range ?ck ?ef wf_aligner mwavefront False rs")
        (simp_all add: wavefront_extend_custom_def idx [OF s] mw d)
    obtain d0 mw0 where p: "p = (d0, mw0)" by (cases p)
    obtain e1 mw1 where chk: "custom_recheck wf_aligner ?ef (d0, mw0) = (e1, mw1)"
      by (cases "custom_recheck wf_aligner ?ef (d0, mw0)")
    from par0 have par: "parallel_range ?ck ?ef wf_aligner mwavefront False rs = Some (d0, mw0)"
      by (simp add: p)
    from fin0 have fin: "extend_finish ext (store_mwavefront wf_aligner s mw1) s e1
        = (r, wf_aligner')"
      by (simp add: p chk)
    from chk end2end_check_fields [of wf_aligner mw0]
    have fields: "lo mw1 = lo mw0" "hi mw1 = hi mw0" "offsets mw1 = offsets mw0"
      by (auto simp: custom_recheck_def split: if_splits)
    have "?R ?ck ?ef s mwavefront wf_aligner' mw1"
      unfolding fields
      by (rule conjI [OF extend_finish_table [OF none fin] parallel_range_result [OF rs par]])
    then show ?thesis by (rule exI [of _ mw1])
  qed
  show ?thesis
  proof (intro ballI)
    fix x
    assume "x \<in> ?S"
    then consider "x = (wavefront_extend_end2end, ?pk, False)"
      | "x = (wavefront_extend_endsfree, ?pk, True)"
      | "x = (wavefront_extend_custom, ?ck, ?ef)"
      by blast
    then show "case x of (extend_fn, ker, endsfree) \<Rightarrow>
         (\<forall>s. ?idx s \<longrightarrow> ?same extend_fn s \<and> (?absent s \<longrightarrow> ?no extend_fn)
            \<and> (\<forall>mwavefront r wf_aligner'.
                 ?H extend_fn s mwavefront r wf_aligner'
                 \<longrightarrow> (\<exists>mwavefront'. ?R ker endsfree s mwavefront wf_aligner' mwavefront')))
         \<and> ?plus extend_fn"
    proof cases
      case 1
      show ?thesis
        unfolding 1 prod.case
        apply (rule conjI [OF _ plus(1)])
        apply (intro allI impI conjI)
          apply (erule same(1))
         apply (erule (1) absent(1))
        apply (erule (1) e2e)
        done
    next
      case 2
      show ?thesis
        unfolding 2 prod.case
        apply (rule conjI [OF _ plus(2)])
        apply (intro allI impI conjI)
          apply (erule same(2))
         apply (erule (1) absent(2))
        apply (erule (1) ef)
        done
    next
      case 3
      show ?thesis
        unfolding 3 prod.case
        apply (rule conjI [OF _ plus(3)])
        apply (intro allI impI conjI)
          apply (erule same(3))
         apply (erule (1) absent(3))
        apply (erule (1) cu)
        done
    qed
  qed
qed


lemma ex_end2end_plain:
  "wavefront_extend_end2end (ex_externs 1 d) ex_aligner 2
   = Some (False, store_mwavefront ex_aligner 2
       (ex_wavefront\<lparr>offsets := (offsets ex_wavefront)(0 := 7, 1 := 4, 2 := 7)\<rparr>))"
proof -
  have "wavefront_extend_matches_packed_end2end ex_aligner ex_wavefront 2 0 3
      = Some (ex_wavefront\<lparr>offsets := (offsets ex_wavefront)(0 := 7, 1 := 4, 2 := 7)\<rparr>)"
    by (simp add: wavefront_extend_matches_packed_end2end.simps ex_wavefront_fields
        ex_aligner_kernel null_neq)
  then have "end2end_dispatch (ex_externs 1 d) ex_aligner ex_wavefront 2
      = Some (False, ex_wavefront\<lparr>offsets := (offsets ex_wavefront)(0 := 7, 1 := 4, 2 := 7)\<rparr>)"
    by (simp add: end2end_dispatch_def ex_externs_fields ex_wavefront_fields
        wavefront_extend_end2end_check_termination_def WAVEFRONT_DIAGONAL_def
        WAVEFRONT_OFFSET_def ex_aligner_seqs WAVEFRONT_OFFSET_NULL_def)
  then show ?thesis
    by (simp add: wavefront_extend_end2end_def ex_modular_score ex_aligner_fields
        extend_finish_def store_mwavefront_fields)
qed

lemma ex_extended_offsets:
  "extended_offsets (wavefront_extend_matches_packed_kernel ex_aligner) ex_wavefront 0 3 0 = 7"
  "extended_offsets (wavefront_extend_matches_packed_kernel ex_aligner) ex_wavefront 0 3 1 = 4"
  "extended_offsets (wavefront_extend_matches_packed_kernel ex_aligner) ex_wavefront 0 3 2 = 7"
  "extended_offsets (wavefront_extend_matches_packed_kernel ex_aligner) ex_wavefront 0 3 3
   = WAVEFRONT_OFFSET_NULL"
  by (simp_all add: extended_offsets_def ex_wavefront_fields ex_aligner_kernel null_neq)

theorem extend_modular_score_witness:
  "wavefront_extend_endsfree (ex_externs 1 False) ex_aligner 7
     = wavefront_extend_endsfree (ex_externs 1 False) ex_aligner 2
   \<and> wavefront_extend_custom (ex_externs 1 False) ex_aligner 12
     = wavefront_extend_custom (ex_externs 1 False) ex_aligner 2
   \<and> wavefront_extend_end2end (ex_externs 1 False) ex_aligner 8 = Some (False, ex_aligner)
   \<and> wavefront_extend_end2end (ex_externs 1 False) ex_aligner_e2e 1
     = Some (False, ex_aligner_e2e)
   \<and> result_offset (wavefront_extend_end2end (ex_externs 1 False) ex_aligner 7) 2 0 = Some 7
   \<and> result_offset (wavefront_extend_end2end (ex_externs 1 False) ex_aligner 7) 2 1 = Some 4
   \<and> result_offset (wavefront_extend_end2end (ex_externs 1 False) ex_aligner 7) 2 2 = Some 7
   \<and> result_offset (wavefront_extend_end2end (ex_externs 1 False) ex_aligner 7) 2 3
     = Some WAVEFRONT_OFFSET_NULL
   \<and> result_offset (wavefront_extend_end2end (ex_externs 1 False) ex_aligner 7) 7 0 = None"
proof -
  let ?x = "ex_externs 1 False"
  let ?pk = "wavefront_extend_matches_packed_kernel ex_aligner"
  let ?ck = "custom_kernel ex_aligner"
  note ef7 = extend_modular_score [of ex_aligner 7 ?x, THEN bspec,
      of "(wavefront_extend_endsfree, ?pk, True)", OF insertI2 [OF insertI1],
      unfolded prod.case, THEN conjunct1, rule_format, of 2]
  have c1: "wavefront_extend_endsfree ?x ex_aligner 7 = wavefront_extend_endsfree ?x ex_aligner 2"
    by (rule ef7 [THEN conjunct1]) (simp_all add: ex_aligner_fields)
  note cu12 = extend_modular_score [of ex_aligner 12 ?x, THEN bspec,
      of "(wavefront_extend_custom, ?ck, span (alignment_form ex_aligner) = alignment_endsfree)",
      OF insertI2 [OF insertI2 [OF insertI1]],
      unfolded prod.case, THEN conjunct1, rule_format, of 2]
  have c2: "wavefront_extend_custom ?x ex_aligner 12 = wavefront_extend_custom ?x ex_aligner 2"
    by (rule cu12 [THEN conjunct1]) (simp_all add: ex_aligner_fields)
  note e8 = extend_modular_score [of ex_aligner 8 ?x, THEN bspec,
      of "(wavefront_extend_end2end, ?pk, False)", OF insertI1,
      unfolded prod.case, THEN conjunct1, rule_format, of 3]
  have c3: "wavefront_extend_end2end ?x ex_aligner 8 = Some (False, ex_aligner)"
    by (rule e8 [THEN conjunct2, THEN conjunct1, THEN mp]) (simp_all add: ex_aligner_fields)
  note e1 = extend_modular_score [of ex_aligner_e2e 1 ?x, THEN bspec,
      of "(wavefront_extend_end2end, wavefront_extend_matches_packed_kernel ex_aligner_e2e, False)",
      OF insertI1, unfolded prod.case, THEN conjunct1, rule_format, of 1]
  have c4: "wavefront_extend_end2end ?x ex_aligner_e2e 1 = Some (False, ex_aligner_e2e)"
    by (rule e1 [THEN conjunct2, THEN conjunct1, THEN mp]) (simp_all add: ex_aligner_e2e_fields)
  note e7 = extend_modular_score [of ex_aligner 7 ?x, THEN bspec,
      of "(wavefront_extend_end2end, ?pk, False)", OF insertI1,
      unfolded prod.case, THEN conjunct1, rule_format, of 2]
  have idx: "if memory_modular (wf_components ex_aligner)
      then 0 < max_score_scope (wf_components ex_aligner) \<and> (0::int) \<le> 7
           \<and> 2 = 7 mod max_score_scope (wf_components ex_aligner)
      else (2::int) = 7"
    by (simp add: ex_aligner_fields)
  let ?a' = "store_mwavefront ex_aligner 2
       (ex_wavefront\<lparr>offsets := (offsets ex_wavefront)(0 := 7, 1 := 4, 2 := 7)\<rparr>)"
  from e7 [OF idx, THEN conjunct1]
  have r7: "wavefront_extend_end2end ?x ex_aligner 7 = Some (False, ?a')"
    by (simp add: ex_end2end_plain)
  have h: "mwavefronts (wf_components ex_aligner) 2 = Some ex_wavefront
      \<and> strategy (heuristic ex_aligner) = wf_heuristic_none
      \<and> (wavefront_compute_num_threads ?x ex_aligner (lo ex_wavefront) (hi ex_wavefront) = 1
         \<or> WFA_PARALLEL ?x
           \<and> covers (lo ex_wavefront) (hi ex_wavefront)
                (thread_ranges ?x
                   (wavefront_compute_num_threads ?x ex_aligner (lo ex_wavefront) (hi ex_wavefront))
                   (lo ex_wavefront) (hi ex_wavefront)))
      \<and> wavefront_extend_end2end ?x ex_aligner 7 = Some (False, ?a')"
    by (simp add: ex_aligner_fields ex_externs_fields r7)
  from e7 [OF idx, THEN conjunct2, THEN conjunct2, rule_format, OF h]
  obtain mw' where
    tab: "mwavefronts (wf_components ?a')
          = (mwavefronts (wf_components ex_aligner))(2 := Some mw')"
    and off: "\<not> (False \<and> range_terminal ?pk ex_aligner ex_wavefront
                              (lo ex_wavefront) (hi ex_wavefront))
              \<longrightarrow> offsets mw' = extended_offsets ?pk ex_wavefront
                                  (lo ex_wavefront) (hi ex_wavefront)"
    by (elim exE conjE) (rule that, assumption+)
  from off have off': "offsets mw' = extended_offsets ?pk ex_wavefront 0 3"
    by (simp add: ex_wavefront_fields)
  have res: "result_offset (wavefront_extend_end2end ?x ex_aligner 7) 2 j
      = Some (extended_offsets ?pk ex_wavefront 0 3 j)" for j
    unfolding r7 result_offset_def by (simp add: tab off')
  have c9: "result_offset (wavefront_extend_end2end ?x ex_aligner 7) 7 0 = None"
    unfolding r7 result_offset_def by (simp add: tab ex_aligner_fields)
  from c1 c2 c3 c4 res [of 0] res [of 1] res [of 2] res [of 3] c9 show ?thesis
    by (simp only: ex_extended_offsets simp_thms)
qed


end
